theory Spec2Isabelle
  imports Main "HOL-Library.Monad_Syntax"
begin

section \<open>Tokens\<close>

text \<open>
  \<^verbatim>\<open>enum class TokenType\<close> is declared by the lexer. It is a scoped enumeration, that is
  an integer with names; the model wraps the integer and gives every enumerator that
  \<^verbatim>\<open>parser.cpp\<close> mentions its name with the prefix \<open>T_\<close> (the node kinds below share
  some of the names). The numbering is the model's own: nothing in the parser depends on it.
\<close>

datatype TokenType = TokenType nat

abbreviation T_Semicolon :: TokenType where "T_Semicolon \<equiv> TokenType 0"
abbreviation T_LeftBrace :: TokenType where "T_LeftBrace \<equiv> TokenType 1"
abbreviation T_RightBrace :: TokenType where "T_RightBrace \<equiv> TokenType 2"
abbreviation T_LeftParen :: TokenType where "T_LeftParen \<equiv> TokenType 3"
abbreviation T_RightParen :: TokenType where "T_RightParen \<equiv> TokenType 4"
abbreviation T_LeftBracket :: TokenType where "T_LeftBracket \<equiv> TokenType 5"
abbreviation T_RightBracket :: TokenType where "T_RightBracket \<equiv> TokenType 6"
abbreviation T_Comma :: TokenType where "T_Comma \<equiv> TokenType 7"
abbreviation T_Colon :: TokenType where "T_Colon \<equiv> TokenType 8"
abbreviation T_Dot :: TokenType where "T_Dot \<equiv> TokenType 9"
abbreviation T_RightArrow :: TokenType where "T_RightArrow \<equiv> TokenType 10"
abbreviation T_Ellipsis :: TokenType where "T_Ellipsis \<equiv> TokenType 11"
abbreviation T_QuestionMark :: TokenType where "T_QuestionMark \<equiv> TokenType 12"
abbreviation T_Assign :: TokenType where "T_Assign \<equiv> TokenType 13"
abbreviation T_TimesAssign :: TokenType where "T_TimesAssign \<equiv> TokenType 14"
abbreviation T_DivideAssign :: TokenType where "T_DivideAssign \<equiv> TokenType 15"
abbreviation T_ModuloAssign :: TokenType where "T_ModuloAssign \<equiv> TokenType 16"
abbreviation T_PlusAssign :: TokenType where "T_PlusAssign \<equiv> TokenType 17"
abbreviation T_MinusAssign :: TokenType where "T_MinusAssign \<equiv> TokenType 18"
abbreviation T_BitwiseLeftShiftAssign :: TokenType where "T_BitwiseLeftShiftAssign \<equiv> TokenType 19"
abbreviation T_BitwiseRightShiftAssign :: TokenType where "T_BitwiseRightShiftAssign \<equiv> TokenType 20"
abbreviation T_BitwiseAndAssign :: TokenType where "T_BitwiseAndAssign \<equiv> TokenType 21"
abbreviation T_BitwiseXorAssign :: TokenType where "T_BitwiseXorAssign \<equiv> TokenType 22"
abbreviation T_BitwiseOrAssign :: TokenType where "T_BitwiseOrAssign \<equiv> TokenType 23"
abbreviation T_Plus :: TokenType where "T_Plus \<equiv> TokenType 24"
abbreviation T_Minus :: TokenType where "T_Minus \<equiv> TokenType 25"
abbreviation T_Times :: TokenType where "T_Times \<equiv> TokenType 26"
abbreviation T_Divide :: TokenType where "T_Divide \<equiv> TokenType 27"
abbreviation T_Percent :: TokenType where "T_Percent \<equiv> TokenType 28"
abbreviation T_Increment :: TokenType where "T_Increment \<equiv> TokenType 29"
abbreviation T_Decrement :: TokenType where "T_Decrement \<equiv> TokenType 30"
abbreviation T_BitwiseAnd :: TokenType where "T_BitwiseAnd \<equiv> TokenType 31"
abbreviation T_BitwiseOr :: TokenType where "T_BitwiseOr \<equiv> TokenType 32"
abbreviation T_BitwiseXor :: TokenType where "T_BitwiseXor \<equiv> TokenType 33"
abbreviation T_BitwiseNot :: TokenType where "T_BitwiseNot \<equiv> TokenType 34"
abbreviation T_BitwiseLeftShift :: TokenType where "T_BitwiseLeftShift \<equiv> TokenType 35"
abbreviation T_BitwiseRightShift :: TokenType where "T_BitwiseRightShift \<equiv> TokenType 36"
abbreviation T_LogicalAnd :: TokenType where "T_LogicalAnd \<equiv> TokenType 37"
abbreviation T_LogicalOr :: TokenType where "T_LogicalOr \<equiv> TokenType 38"
abbreviation T_EqualsTo :: TokenType where "T_EqualsTo \<equiv> TokenType 39"
abbreviation T_NotEqualTo :: TokenType where "T_NotEqualTo \<equiv> TokenType 40"
abbreviation T_LessThan :: TokenType where "T_LessThan \<equiv> TokenType 41"
abbreviation T_GreaterThan :: TokenType where "T_GreaterThan \<equiv> TokenType 42"
abbreviation T_LessEqual :: TokenType where "T_LessEqual \<equiv> TokenType 43"
abbreviation T_GreaterEqual :: TokenType where "T_GreaterEqual \<equiv> TokenType 44"
abbreviation T_Identifier :: TokenType where "T_Identifier \<equiv> TokenType 45"
abbreviation T_IntegerConstant :: TokenType where "T_IntegerConstant \<equiv> TokenType 46"
abbreviation T_OctIntegerConstant :: TokenType where "T_OctIntegerConstant \<equiv> TokenType 47"
abbreviation T_HexIntegerConstant :: TokenType where "T_HexIntegerConstant \<equiv> TokenType 48"
abbreviation T_FloatConstant :: TokenType where "T_FloatConstant \<equiv> TokenType 49"
abbreviation T_CharConstant :: TokenType where "T_CharConstant \<equiv> TokenType 50"
abbreviation T_StringConstant :: TokenType where "T_StringConstant \<equiv> TokenType 51"
abbreviation T_EncodingPrefix :: TokenType where "T_EncodingPrefix \<equiv> TokenType 52"
abbreviation T_Eof :: TokenType where "T_Eof \<equiv> TokenType 53"
abbreviation T_VoidType :: TokenType where "T_VoidType \<equiv> TokenType 54"
abbreviation T_CharType :: TokenType where "T_CharType \<equiv> TokenType 55"
abbreviation T_ShortType :: TokenType where "T_ShortType \<equiv> TokenType 56"
abbreviation T_IntType :: TokenType where "T_IntType \<equiv> TokenType 57"
abbreviation T_LongType :: TokenType where "T_LongType \<equiv> TokenType 58"
abbreviation T_FloatType :: TokenType where "T_FloatType \<equiv> TokenType 59"
abbreviation T_DoubleType :: TokenType where "T_DoubleType \<equiv> TokenType 60"
abbreviation T_Signed :: TokenType where "T_Signed \<equiv> TokenType 61"
abbreviation T_Unsigned :: TokenType where "T_Unsigned \<equiv> TokenType 62"
abbreviation T_Bool :: TokenType where "T_Bool \<equiv> TokenType 63"
abbreviation T_Complex :: TokenType where "T_Complex \<equiv> TokenType 64"
abbreviation T_VectorM128 :: TokenType where "T_VectorM128 \<equiv> TokenType 65"
abbreviation T_VectorM128d :: TokenType where "T_VectorM128d \<equiv> TokenType 66"
abbreviation T_VectorM128i :: TokenType where "T_VectorM128i \<equiv> TokenType 67"
abbreviation T_Typedef :: TokenType where "T_Typedef \<equiv> TokenType 68"
abbreviation T_Extern :: TokenType where "T_Extern \<equiv> TokenType 69"
abbreviation T_Static :: TokenType where "T_Static \<equiv> TokenType 70"
abbreviation T_ThreadLocal :: TokenType where "T_ThreadLocal \<equiv> TokenType 71"
abbreviation T_Auto :: TokenType where "T_Auto \<equiv> TokenType 72"
abbreviation T_Register :: TokenType where "T_Register \<equiv> TokenType 73"
abbreviation T_Const :: TokenType where "T_Const \<equiv> TokenType 74"
abbreviation T_Restrict :: TokenType where "T_Restrict \<equiv> TokenType 75"
abbreviation T_Volatile :: TokenType where "T_Volatile \<equiv> TokenType 76"
abbreviation T_Atomic :: TokenType where "T_Atomic \<equiv> TokenType 77"
abbreviation T_Inline :: TokenType where "T_Inline \<equiv> TokenType 78"
abbreviation T_Noreturn :: TokenType where "T_Noreturn \<equiv> TokenType 79"
abbreviation T_Stdcall :: TokenType where "T_Stdcall \<equiv> TokenType 80"
abbreviation T_Declspec :: TokenType where "T_Declspec \<equiv> TokenType 81"
abbreviation T_Alignas :: TokenType where "T_Alignas \<equiv> TokenType 82"
abbreviation T_Alignof :: TokenType where "T_Alignof \<equiv> TokenType 83"
abbreviation T_Sizeof :: TokenType where "T_Sizeof \<equiv> TokenType 84"
abbreviation T_StaticAssert :: TokenType where "T_StaticAssert \<equiv> TokenType 85"
abbreviation T_Struct :: TokenType where "T_Struct \<equiv> TokenType 86"
abbreviation T_Union :: TokenType where "T_Union \<equiv> TokenType 87"
abbreviation T_Enum :: TokenType where "T_Enum \<equiv> TokenType 88"
abbreviation T_If :: TokenType where "T_If \<equiv> TokenType 89"
abbreviation T_Else :: TokenType where "T_Else \<equiv> TokenType 90"
abbreviation T_Switch :: TokenType where "T_Switch \<equiv> TokenType 91"
abbreviation T_Case :: TokenType where "T_Case \<equiv> TokenType 92"
abbreviation T_Default :: TokenType where "T_Default \<equiv> TokenType 93"
abbreviation T_While :: TokenType where "T_While \<equiv> TokenType 94"
abbreviation T_Do :: TokenType where "T_Do \<equiv> TokenType 95"
abbreviation T_For :: TokenType where "T_For \<equiv> TokenType 96"
abbreviation T_Goto :: TokenType where "T_Goto \<equiv> TokenType 97"
abbreviation T_Continue :: TokenType where "T_Continue \<equiv> TokenType 98"
abbreviation T_Break :: TokenType where "T_Break \<equiv> TokenType 99"
abbreviation T_Return :: TokenType where "T_Return \<equiv> TokenType 100"

text \<open>
  A \<^verbatim>\<open>SourceLocation\<close> is a pointer into the source buffer, modelled as the offset from
  the start of the buffer; a \<^verbatim>\<open>SourceRange\<close> is a pair of locations.
\<close>

datatype SourceRange = SourceRange (range_begin: nat) (range_end: nat)

datatype TokenData = TokenData (ttype: TokenType) (tdata: SourceRange)

section \<open>Syntax tree\<close>

text \<open>
  \<^verbatim>\<open>enum class NodeType\<close>, with the enumerators in the order of the switch of
  \<^verbatim>\<open>to_string(NodeType)\<close>, under the prefix \<open>N_\<close>.
\<close>

datatype NodeType = NodeType nat

abbreviation N_PrimaryExpression :: NodeType where "N_PrimaryExpression \<equiv> NodeType 0"
abbreviation N_GenericSelection :: NodeType where "N_GenericSelection \<equiv> NodeType 1"
abbreviation N_GenericAssocList :: NodeType where "N_GenericAssocList \<equiv> NodeType 2"
abbreviation N_GenericAssociation :: NodeType where "N_GenericAssociation \<equiv> NodeType 3"
abbreviation N_PostfixExpression :: NodeType where "N_PostfixExpression \<equiv> NodeType 4"
abbreviation N_ArgumentExpressionList :: NodeType where "N_ArgumentExpressionList \<equiv> NodeType 5"
abbreviation N_UnaryExpression :: NodeType where "N_UnaryExpression \<equiv> NodeType 6"
abbreviation N_CastExpression :: NodeType where "N_CastExpression \<equiv> NodeType 7"
abbreviation N_MultiplicativeExpression :: NodeType where "N_MultiplicativeExpression \<equiv> NodeType 8"
abbreviation N_AdditiveExpression :: NodeType where "N_AdditiveExpression \<equiv> NodeType 9"
abbreviation N_ShiftExpression :: NodeType where "N_ShiftExpression \<equiv> NodeType 10"
abbreviation N_RelationalExpression :: NodeType where "N_RelationalExpression \<equiv> NodeType 11"
abbreviation N_EqualityExpression :: NodeType where "N_EqualityExpression \<equiv> NodeType 12"
abbreviation N_AndExpression :: NodeType where "N_AndExpression \<equiv> NodeType 13"
abbreviation N_ExclusiveOrExpression :: NodeType where "N_ExclusiveOrExpression \<equiv> NodeType 14"
abbreviation N_InclusiveOrExpression :: NodeType where "N_InclusiveOrExpression \<equiv> NodeType 15"
abbreviation N_LogicalAndExpression :: NodeType where "N_LogicalAndExpression \<equiv> NodeType 16"
abbreviation N_LogicalOrExpression :: NodeType where "N_LogicalOrExpression \<equiv> NodeType 17"
abbreviation N_ConditionalExpression :: NodeType where "N_ConditionalExpression \<equiv> NodeType 18"
abbreviation N_AssignmentExpression :: NodeType where "N_AssignmentExpression \<equiv> NodeType 19"
abbreviation N_Expression :: NodeType where "N_Expression \<equiv> NodeType 20"
abbreviation N_ConstantExpression :: NodeType where "N_ConstantExpression \<equiv> NodeType 21"
abbreviation N_Declaration :: NodeType where "N_Declaration \<equiv> NodeType 22"
abbreviation N_DeclarationSpecifiers :: NodeType where "N_DeclarationSpecifiers \<equiv> NodeType 23"
abbreviation N_DeclarationSpecifier :: NodeType where "N_DeclarationSpecifier \<equiv> NodeType 24"
abbreviation N_InitDeclaratorList :: NodeType where "N_InitDeclaratorList \<equiv> NodeType 25"
abbreviation N_InitDeclarator :: NodeType where "N_InitDeclarator \<equiv> NodeType 26"
abbreviation N_StorageClassSpecifier :: NodeType where "N_StorageClassSpecifier \<equiv> NodeType 27"
abbreviation N_TypeSpecifier :: NodeType where "N_TypeSpecifier \<equiv> NodeType 28"
abbreviation N_StructOrUnionSpecifier :: NodeType where "N_StructOrUnionSpecifier \<equiv> NodeType 29"
abbreviation N_StructOrUnion :: NodeType where "N_StructOrUnion \<equiv> NodeType 30"
abbreviation N_StructDeclarationList :: NodeType where "N_StructDeclarationList \<equiv> NodeType 31"
abbreviation N_StructDeclaration :: NodeType where "N_StructDeclaration \<equiv> NodeType 32"
abbreviation N_SpecifierQualifierList :: NodeType where "N_SpecifierQualifierList \<equiv> NodeType 33"
abbreviation N_StructDeclaratorList :: NodeType where "N_StructDeclaratorList \<equiv> NodeType 34"
abbreviation N_StructDeclarator :: NodeType where "N_StructDeclarator \<equiv> NodeType 35"
abbreviation N_EnumSpecifier :: NodeType where "N_EnumSpecifier \<equiv> NodeType 36"
abbreviation N_EnumeratorList :: NodeType where "N_EnumeratorList \<equiv> NodeType 37"
abbreviation N_Enumerator :: NodeType where "N_Enumerator \<equiv> NodeType 38"
abbreviation N_AtomicTypeSpecifier :: NodeType where "N_AtomicTypeSpecifier \<equiv> NodeType 39"
abbreviation N_TypeQualifier :: NodeType where "N_TypeQualifier \<equiv> NodeType 40"
abbreviation N_FunctionSpecifier :: NodeType where "N_FunctionSpecifier \<equiv> NodeType 41"
abbreviation N_AlignmentSpecifier :: NodeType where "N_AlignmentSpecifier \<equiv> NodeType 42"
abbreviation N_Declarator :: NodeType where "N_Declarator \<equiv> NodeType 43"
abbreviation N_DirectDeclarator :: NodeType where "N_DirectDeclarator \<equiv> NodeType 44"
abbreviation N_NestedParenthesesBlock :: NodeType where "N_NestedParenthesesBlock \<equiv> NodeType 45"
abbreviation N_Pointer :: NodeType where "N_Pointer \<equiv> NodeType 46"
abbreviation N_TypeQualifierList :: NodeType where "N_TypeQualifierList \<equiv> NodeType 47"
abbreviation N_ParameterTypeList :: NodeType where "N_ParameterTypeList \<equiv> NodeType 48"
abbreviation N_ParameterList :: NodeType where "N_ParameterList \<equiv> NodeType 49"
abbreviation N_ParameterDeclaration :: NodeType where "N_ParameterDeclaration \<equiv> NodeType 50"
abbreviation N_IdentifierList :: NodeType where "N_IdentifierList \<equiv> NodeType 51"
abbreviation N_TypeName :: NodeType where "N_TypeName \<equiv> NodeType 52"
abbreviation N_AbstractDeclarator :: NodeType where "N_AbstractDeclarator \<equiv> NodeType 53"
abbreviation N_DirectAbstractDeclarator :: NodeType where "N_DirectAbstractDeclarator \<equiv> NodeType 54"
abbreviation N_TypedefName :: NodeType where "N_TypedefName \<equiv> NodeType 55"
abbreviation N_Initializer :: NodeType where "N_Initializer \<equiv> NodeType 56"
abbreviation N_InitializerList :: NodeType where "N_InitializerList \<equiv> NodeType 57"
abbreviation N_Designation :: NodeType where "N_Designation \<equiv> NodeType 58"
abbreviation N_DesignatorList :: NodeType where "N_DesignatorList \<equiv> NodeType 59"
abbreviation N_Designator :: NodeType where "N_Designator \<equiv> NodeType 60"
abbreviation N_StaticAssertDeclaration :: NodeType where "N_StaticAssertDeclaration \<equiv> NodeType 61"
abbreviation N_Statement :: NodeType where "N_Statement \<equiv> NodeType 62"
abbreviation N_LabeledStatement :: NodeType where "N_LabeledStatement \<equiv> NodeType 63"
abbreviation N_CompoundStatement :: NodeType where "N_CompoundStatement \<equiv> NodeType 64"
abbreviation N_BlockItemList :: NodeType where "N_BlockItemList \<equiv> NodeType 65"
abbreviation N_BlockItem :: NodeType where "N_BlockItem \<equiv> NodeType 66"
abbreviation N_ExpressionStatement :: NodeType where "N_ExpressionStatement \<equiv> NodeType 67"
abbreviation N_SelectionStatement :: NodeType where "N_SelectionStatement \<equiv> NodeType 68"
abbreviation N_IterationStatement :: NodeType where "N_IterationStatement \<equiv> NodeType 69"
abbreviation N_JumpStatement :: NodeType where "N_JumpStatement \<equiv> NodeType 70"
abbreviation N_CompilationUnit :: NodeType where "N_CompilationUnit \<equiv> NodeType 71"
abbreviation N_TranslationUnit :: NodeType where "N_TranslationUnit \<equiv> NodeType 72"
abbreviation N_ExternalDeclaration :: NodeType where "N_ExternalDeclaration \<equiv> NodeType 73"
abbreviation N_FunctionDefinition :: NodeType where "N_FunctionDefinition \<equiv> NodeType 74"
abbreviation N_DeclarationList :: NodeType where "N_DeclarationList \<equiv> NodeType 75"
abbreviation N_Identifier :: NodeType where "N_Identifier \<equiv> NodeType 76"
abbreviation N_Constant :: NodeType where "N_Constant \<equiv> NodeType 77"
abbreviation N_IntegerConstant :: NodeType where "N_IntegerConstant \<equiv> NodeType 78"
abbreviation N_FloatingConstant :: NodeType where "N_FloatingConstant \<equiv> NodeType 79"
abbreviation N_EnumerationConstant :: NodeType where "N_EnumerationConstant \<equiv> NodeType 80"
abbreviation N_CharacterConstant :: NodeType where "N_CharacterConstant \<equiv> NodeType 81"
abbreviation N_EncodingPrefix :: NodeType where "N_EncodingPrefix \<equiv> NodeType 82"
abbreviation N_StringLiteral :: NodeType where "N_StringLiteral \<equiv> NodeType 83"
abbreviation N_StringLiteralList :: NodeType where "N_StringLiteralList \<equiv> NodeType 84"
abbreviation N_AsmBlock :: NodeType where "N_AsmBlock \<equiv> NodeType 85"
abbreviation N_CompoundLiteral :: NodeType where "N_CompoundLiteral \<equiv> NodeType 86"
abbreviation N_ArraySubscripting :: NodeType where "N_ArraySubscripting \<equiv> NodeType 87"
abbreviation N_FunctionCall :: NodeType where "N_FunctionCall \<equiv> NodeType 88"
abbreviation N_MemberAccess :: NodeType where "N_MemberAccess \<equiv> NodeType 89"
abbreviation N_PointerMemberAccess :: NodeType where "N_PointerMemberAccess \<equiv> NodeType 90"
abbreviation N_PostfixIncrement :: NodeType where "N_PostfixIncrement \<equiv> NodeType 91"
abbreviation N_PostfixDecrement :: NodeType where "N_PostfixDecrement \<equiv> NodeType 92"
abbreviation N_PointerDeclarator :: NodeType where "N_PointerDeclarator \<equiv> NodeType 93"
abbreviation N_ArrayDeclarator :: NodeType where "N_ArrayDeclarator \<equiv> NodeType 94"
abbreviation N_ArrayStaticDeclarator :: NodeType where "N_ArrayStaticDeclarator \<equiv> NodeType 95"
abbreviation N_ArrayVLADeclarator :: NodeType where "N_ArrayVLADeclarator \<equiv> NodeType 96"
abbreviation N_FunctionDeclarator :: NodeType where "N_FunctionDeclarator \<equiv> NodeType 97"
abbreviation N_VariadicParameter :: NodeType where "N_VariadicParameter \<equiv> NodeType 98"
abbreviation N_Nothing :: NodeType where "N_Nothing \<equiv> NodeType 99"
abbreviation N_None :: NodeType where "N_None \<equiv> NodeType 100"

definition node_type_names :: "string list" where
  "node_type_names = [
    ''primary expression'',
    ''generic selection'',
    ''generic assoc list'',
    ''generic association'',
    ''postfix expression'',
    ''argument expression list'',
    ''unary expression'',
    ''cast expression'',
    ''multiplicative expression'',
    ''additive expression'',
    ''shift expression'',
    ''relatioal expression'',
    ''equality expression'',
    ''and expression'',
    ''exclusive or expression'',
    ''inclusive or expression'',
    ''logical and expression'',
    ''logical or expression'',
    ''conditional expression'',
    ''assignment expression'',
    ''expression'',
    ''constant expression'',
    ''declaration'',
    ''declaration specifiers'',
    ''declaration specifier'',
    ''init declarator list'',
    ''init declarator'',
    ''storage class specifier'',
    ''type specifier'',
    ''struct or union specifier'',
    ''struct or union'',
    ''struct declaration list'',
    ''struct declaration'',
    ''specifier qualifier list'',
    ''struct declarator list'',
    ''struct declarator'',
    ''enum specifier'',
    ''enumerator list'',
    ''enumerator'',
    ''atomic type specifier'',
    ''type qualifier'',
    ''function specifier'',
    ''alignment specifier'',
    ''declarator'',
    ''direct declarator'',
    ''nested parentheses block'',
    ''pointer'',
    ''type qualifier list'',
    ''parameter type list'',
    ''parameter list'',
    ''parameter declaration'',
    ''identifier list'',
    ''type name'',
    ''abstract declarator'',
    ''direct abstract declarator'',
    ''typedef name'',
    ''initializer'',
    ''initializer list'',
    ''designation'',
    ''designator list'',
    ''designator'',
    ''static assert declaration'',
    ''statement'',
    ''labeled statement'',
    ''compound statement'',
    ''block item list'',
    ''block item'',
    ''expression statement'',
    ''selection statement'',
    ''iteration statement'',
    ''jump statement'',
    ''compilation unit'',
    ''translation unit'',
    ''external declaration'',
    ''function definition'',
    ''declaration list'',
    ''identifier'',
    ''constant'',
    ''integer constant'',
    ''floating constant'',
    ''enumeration constant'',
    ''character constant'',
    ''encoding prefix'',
    ''string literal'',
    ''string literal list'',
    ''asm block'',
    ''compound literal'',
    ''array subscripting'',
    ''function call'',
    ''member access'',
    ''pointer member access'',
    ''postfix increment'',
    ''postfix decrement'',
    ''pointer declarator'',
    ''array declarator'',
    ''array (with static) declarator'',
    ''variable length array declarator'',
    ''function declarator'',
    [CHR 0x27] @ ''...'' @ [CHR 0x27] @ '' (variadic parameter)'',
    ''empty''
  ]"

text \<open>
  \<^verbatim>\<open>to_string(NodeType)\<close>: \<^verbatim>\<open>NodeType::None\<close> reaches \<^verbatim>\<open>Unreachable()\<close> and a value that
  is no enumerator throws; both are \<open>None\<close> here.
\<close>

definition to_string_node :: "NodeType \<Rightarrow> string option" where
  "to_string_node t =
     (case t of NodeType n \<Rightarrow>
        if n < length node_type_names then Some (node_type_names ! n) else None)"

text \<open>
  Modelled from the spec: the class \<^verbatim>\<open>SyntaxTree\<close> (its header is not part of the
  sources at hand). A node has a type, an optional source token, an ordered sequence of
  owned children and an optional annotation, of which only the presence matters to the
  parser. \<^verbatim>\<open>has_text()\<close> is true iff the token is present; \<^verbatim>\<open>add_child\<close> appends;
  \<^verbatim>\<open>take_children(n)\<close> moves the children of \<open>n\<close> onto the node; \<^verbatim>\<open>pop_child()\<close>
  removes and returns the last child.
\<close>

datatype SyntaxTree =
  SyntaxTree (node_type: NodeType) (token: "TokenData option")
             (children: "SyntaxTree list") (has_annotation: bool)

definition new_node :: "NodeType \<Rightarrow> SyntaxTree" where
  "new_node t = SyntaxTree t None [] False"

definition new_leaf :: "NodeType \<Rightarrow> TokenData \<Rightarrow> SyntaxTree" where
  "new_leaf t tok = SyntaxTree t (Some tok) [] False"

text \<open>The default constructor: a node of type \<^verbatim>\<open>NodeType::None\<close>.\<close>

definition empty_node :: SyntaxTree where
  "empty_node = new_node N_None"

definition has_text :: "SyntaxTree \<Rightarrow> bool" where
  "has_text n = (token n \<noteq> None)"

definition child_count :: "SyntaxTree \<Rightarrow> nat" where
  "child_count n = length (children n)"

fun add_child :: "SyntaxTree \<Rightarrow> SyntaxTree \<Rightarrow> SyntaxTree" where
  "add_child (SyntaxTree t tok cs a) n = SyntaxTree t tok (cs @ [n]) a"

fun take_children :: "SyntaxTree \<Rightarrow> SyntaxTree \<Rightarrow> SyntaxTree" where
  "take_children (SyntaxTree t tok cs a) n = SyntaxTree t tok (cs @ children n) a"

fun pop_child :: "SyntaxTree \<Rightarrow> (SyntaxTree \<times> SyntaxTree) option" where
  "pop_child (SyntaxTree t tok cs a) =
     (if cs = [] then None else Some (last cs, SyntaxTree t tok (butlast cs) a))"

section \<open>Parser states\<close>

datatype ParserStatus = Error | ErrorNote | GiveUp

datatype ParserError =
  ParserError (status: ParserStatus) (where_it: nat) (error: string)

text \<open>
  \<^verbatim>\<open>ParserState = variant<ParserFailure, ParserSuccess>\<close>; the tree of a
  \<^verbatim>\<open>ParserSuccess\<close> may be null.
\<close>

datatype ParserState =
  ParserFailure "ParserError list"
| ParserSuccess "SyntaxTree option"

definition make_error :: "ParserStatus \<Rightarrow> nat \<Rightarrow> string \<Rightarrow> ParserState" where
  "make_error st w msg = ParserFailure [ParserError st w msg]"

fun add_error :: "ParserState \<Rightarrow> ParserError \<Rightarrow> ParserState" where
  "add_error (ParserSuccess t) err = ParserFailure [err]"
| "add_error (ParserFailure errs) err = ParserFailure (errs @ [err])"

text \<open>The overload that appends a sequence of errors, one after the other.\<close>

definition add_errors :: "ParserState \<Rightarrow> ParserError list \<Rightarrow> ParserState" where
  "add_errors state errs = foldl add_error state errs"

text \<open>The overload that appends the errors of another state, if it has any.\<close>

fun add_error_state :: "ParserState \<Rightarrow> ParserState \<Rightarrow> ParserState" where
  "add_error_state state (ParserFailure errs) = add_errors state errs"
| "add_error_state state (ParserSuccess t) = state"

fun is_giveup :: "ParserState \<Rightarrow> bool" where
  "is_giveup (ParserFailure errs) = list_all (\<lambda>err. status err = GiveUp) errs"
| "is_giveup (ParserSuccess t) = False"

fun is_success :: "ParserState \<Rightarrow> bool" where
  "is_success (ParserSuccess t) = True"
| "is_success (ParserFailure errs) = False"

text \<open>Checks if a node is a candidate to node elision.\<close>

definition preserved_types :: "NodeType list" where
  "preserved_types =
     [N_GenericAssocList, N_ArgumentExpressionList, N_Declaration, N_DeclarationSpecifiers,
      N_InitDeclaratorList, N_StructDeclarationList, N_SpecifierQualifierList,
      N_StructDeclaratorList, N_EnumeratorList, N_FunctionSpecifier, N_AlignmentSpecifier,
      N_TypeQualifierList, N_ParameterTypeList, N_ParameterList, N_IdentifierList,
      N_InitializerList, N_DesignatorList, N_CompilationUnit, N_TranslationUnit,
      N_FunctionDeclarator]"

definition should_elide :: "SyntaxTree \<Rightarrow> bool" where
  "should_elide node =
     (if node_type node = N_None then True
      else if has_annotation node then False
      else if node_type node \<in> set preserved_types then False
      else if \<not> has_text node \<and> child_count node = 1 then True
      else False)"

text \<open>
  Adds a node to the tree of a \<^verbatim>\<open>ParserSuccess\<close>. \<^verbatim>\<open>Expects(node != nullptr)\<close> is the
  result \<open>None\<close>.
\<close>

fun add_node :: "ParserState \<Rightarrow> SyntaxTree option \<Rightarrow> ParserState option" where
  "add_node state None = None"
| "add_node (ParserSuccess None) (Some node) = Some (ParserSuccess (Some node))"
| "add_node (ParserSuccess (Some tree)) (Some node) =
     (if node_type node = N_None \<or> should_elide node
      then Some (ParserSuccess (Some (take_children tree node)))
      else Some (ParserSuccess (Some (add_child tree node))))"
| "add_node (ParserFailure errs) (Some node) = Some (ParserFailure errs)"

text \<open>Accumulates one state into another.\<close>

fun add_state :: "ParserState \<Rightarrow> ParserState \<Rightarrow> ParserState option" where
  "add_state state (ParserSuccess t) = add_node state t"
| "add_state state (ParserFailure errs) = Some (add_errors state errs)"

section \<open>Source manager\<close>

text \<open>
  The line cache of the source manager holds one range per line. Its constructor walks
  the buffer with two iterators. \<^verbatim>\<open>std::find_if(first, last, p)\<close> is defined for
  \<open>first \<le> last\<close> only: called with \<open>first\<close> past \<open>last\<close> it reads outside the buffer,
  which is the result \<open>None\<close> here.
\<close>

definition find_newline :: "string \<Rightarrow> nat \<Rightarrow> nat" where
  "find_newline buf i = i + length (takeWhile (\<lambda>c. c \<noteq> CHR 0x0A) (drop i buf))"

function SourceLineCache :: "string \<Rightarrow> nat \<Rightarrow> nat \<Rightarrow> SourceRange list \<Rightarrow> SourceRange list option" where
  "SourceLineCache buf line_begin line_end offsets =
     (if line_end \<noteq> length buf then
        (if line_end > length buf then None
         else let line_end' = find_newline buf line_end
              in SourceLineCache buf (line_end' + 1) (line_end' + 1)
                   (offsets @ [SourceRange line_begin line_end']))
      else Some offsets)"
  by pat_completeness auto
termination
  by (relation "measure (\<lambda>(buf, line_begin, line_end, offsets). Suc (length buf) - line_end)")
     (auto simp: find_newline_def)

declare SourceLineCache.simps [simp del]

definition new_line_cache :: "string \<Rightarrow> SourceRange list option" where
  "new_line_cache buf = SourceLineCache buf 0 0 []"

record SourceManager =
  content :: string
  line_offsets :: "SourceRange list"

text \<open>
  \<^verbatim>\<open>linecol_from_location\<close>. \<^verbatim>\<open>SourceRange::contains\<close> is declared in a header that is not
  part of the sources at hand, so it is a parameter. A failed \<^verbatim>\<open>Expects\<close> and
  \<^verbatim>\<open>Unreachable()\<close> are the result \<open>None\<close>. The column is a \<^verbatim>\<open>size_t\<close>.
\<close>

fun find_line :: "(SourceRange \<Rightarrow> nat \<Rightarrow> bool) \<Rightarrow> SourceRange list \<Rightarrow> nat \<Rightarrow> nat \<Rightarrow> (nat \<times> nat) option" where
  "find_line contains [] idx loc = None"
| "find_line contains (r # rs) idx loc =
     (if contains r loc
      then Some (idx + 1, nat ((int loc - int (range_begin r) + 1) mod 2 ^ 64))
      else find_line contains rs (idx + 1) loc)"

definition linecol_from_location ::
  "(SourceRange \<Rightarrow> nat \<Rightarrow> bool) \<Rightarrow> SourceManager \<Rightarrow> nat \<Rightarrow> (nat \<times> nat) option" where
  "linecol_from_location contains sm loc =
     (if line_offsets sm = [] then None
      else if \<not> (loc \<ge> range_begin (hd (line_offsets sm))) then None
      else if \<not> (loc \<le> range_end (last (line_offsets sm))) then None
      else find_line contains (line_offsets sm) 0 loc)"

section \<open>Parser context\<close>

text \<open>
  Modelled from the spec: the program context is the sink of the diagnostics. The parser
  calls \<^verbatim>\<open>note\<close>, \<^verbatim>\<open>warn\<close>, \<^verbatim>\<open>error\<close> and \<^verbatim>\<open>pedantic\<close> on it, each with a
  \<^verbatim>\<open>TokenDebug\<close> (line and column, and the range of the token) and a message; the model
  records the calls in the order they are made.
\<close>

datatype Severity = Note | Warn | Err | Pedantic

datatype TokenDebug = TokenDebug (pos: "nat \<times> nat") (range: SourceRange)

datatype Diagnostic = Diagnostic (severity: Severity) (info: TokenDebug) (message: string)

text \<open>
  The parser context refers to the program (its diagnostics and \<^verbatim>\<open>opts.pedantic\<close>) and to
  the token stream with its source manager, and owns the flag \<^verbatim>\<open>is_inside_specifiers\<close>.
  Three further fields stand for what the sources at hand do not define:
  \<^item> \<open>to_string_token\<close> is the lexer's \<^verbatim>\<open>to_string(TokenType)\<close>;
  \<^item> \<open>range_contains\<close> is \<^verbatim>\<open>SourceRange::contains\<close>;
  \<^item> \<open>past_the_end\<close> is what reading \<^verbatim>\<open>*tokens.end()\<close> yields: the read is outside the
    token sequence, and \<open>None\<close> says that it faults.
\<close>

record ParserContext =
  diagnostics :: "Diagnostic list"
  opts_pedantic :: bool
  token_stream :: "TokenData list"
  source_manager :: SourceManager
  is_inside_specifiers :: bool
  to_string_token :: "TokenType \<Rightarrow> string"
  range_contains :: "SourceRange \<Rightarrow> nat \<Rightarrow> bool"
  past_the_end :: "TokenData option"

text \<open>Iterators into the token stream are indices; \<open>*it\<close> is \<open>token_at\<close>.\<close>

definition token_at :: "ParserContext \<Rightarrow> nat \<Rightarrow> TokenData option" where
  "token_at parser it =
     (if it < length (token_stream parser) then Some (token_stream parser ! it)
      else if it = length (token_stream parser) then past_the_end parser
      else None)"

text \<open>The recurring test \<^verbatim>\<open>it != end && p(it->type)\<close>.\<close>

definition token_is :: "ParserContext \<Rightarrow> nat \<Rightarrow> nat \<Rightarrow> (TokenType \<Rightarrow> bool) \<Rightarrow> bool option" where
  "token_is parser it e p =
     (if it \<noteq> e then map_option (\<lambda>t. p (ttype t)) (token_at parser it) else Some False)"

definition string_ref :: "ParserContext \<Rightarrow> SourceRange \<Rightarrow> string" where
  "string_ref parser r =
     take (range_end r - range_begin r) (drop (range_begin r) (content (source_manager parser)))"

definition token_info :: "ParserContext \<Rightarrow> nat \<Rightarrow> TokenDebug option" where
  "token_info parser it = do {
     t \<leftarrow> token_at parser it;
     p \<leftarrow> linecol_from_location (range_contains parser) (source_manager parser)
            (range_begin (tdata t));
     Some (TokenDebug p (tdata t))
   }"

definition emit :: "Severity \<Rightarrow> ParserContext \<Rightarrow> nat \<Rightarrow> string \<Rightarrow> ParserContext option" where
  "emit sev parser it msg = do {
     i \<leftarrow> token_info parser it;
     Some (parser\<lparr>diagnostics := diagnostics parser @ [Diagnostic sev i msg]\<rparr>)
   }"

definition quoted :: "string \<Rightarrow> string" where
  "quoted s = [CHR 0x27] @ s @ [CHR 0x27]"

section \<open>Promotion of give-ups\<close>

text \<open>
  \<^verbatim>\<open>giveup_to_expected(state, what)\<close>. For a give-up that carries a message the note reads
  the type of the token at \<^verbatim>\<open>e.where\<close>, with no test that \<^verbatim>\<open>e.where\<close> is not the end.
\<close>

fun expected_errors :: "ParserContext \<Rightarrow> string \<Rightarrow> ParserState \<Rightarrow> ParserError list \<Rightarrow> ParserState option" where
  "expected_errors parser what new_state [] = Some new_state"
| "expected_errors parser what new_state (e # es) =
     (if status e = GiveUp then
        (let s1 = add_error new_state (ParserError Error (where_it e) (''expected '' @ what))
         in if error e \<noteq> [] then do {
              t \<leftarrow> token_at parser (where_it e);
              expected_errors parser what
                (add_error s1 (ParserError ErrorNote (where_it e)
                   (error e @ '' instead of this '' @ quoted (to_string_token parser (ttype t)))))
                es
            }
            else expected_errors parser what s1 es)
      else expected_errors parser what (add_error new_state e) es)"

fun giveup_to_expected :: "ParserContext \<Rightarrow> ParserState \<Rightarrow> string \<Rightarrow> ParserState option" where
  "giveup_to_expected parser (ParserFailure errs) what =
     expected_errors parser what (ParserSuccess None) errs"
| "giveup_to_expected parser (ParserSuccess t) what = Some (ParserSuccess t)"

text \<open>The overload without \<open>what\<close>: the message of the give-up says what was expected.\<close>

definition expected_own :: "ParserState \<Rightarrow> ParserError \<Rightarrow> ParserState" where
  "expected_own new_state e =
     (if status e = GiveUp
      then add_error new_state (ParserError Error (where_it e) (''expected '' @ error e))
      else add_error new_state e)"

fun giveup_to_expected0 :: "ParserState \<Rightarrow> ParserState" where
  "giveup_to_expected0 (ParserFailure errs) = foldl expected_own (ParserSuccess None) errs"
| "giveup_to_expected0 (ParserSuccess t) = ParserSuccess t"

section \<open>Combinators\<close>

text \<open>
  A rule takes the parser context and the iterators \<open>begin\<close> and \<open>end\<close>, and returns a
  \<^verbatim>\<open>ParserResult\<close>: the next token and the state. The context is passed by reference in
  the source and rules change it, so the model returns it as well. \<open>None\<close> stands for a
  run that does not return normally: a read outside the token stream, a violated
  contract, or (for the recursive rules below) a recursion cut off by its fuel.
\<close>

type_synonym ParserResult = "ParserContext \<times> nat \<times> ParserState"

type_synonym rule = "ParserContext \<Rightarrow> nat \<Rightarrow> nat \<Rightarrow> ParserResult option"

definition giveup :: "ParserContext \<Rightarrow> nat \<Rightarrow> nat \<Rightarrow> string \<Rightarrow> ParserResult option" where
  "giveup parser b e what = Some (parser, e, make_error GiveUp b what)"

text \<open>The rules of \<^verbatim>\<open>parser_one_of\<close> are a parameter pack with at least one rule.\<close>

fun parser_one_of :: "ParserContext \<Rightarrow> nat \<Rightarrow> nat \<Rightarrow> string \<Rightarrow> rule list \<Rightarrow> ParserResult option" where
  "parser_one_of parser b e expected_what [] = None"
| "parser_one_of parser b e expected_what (rule # rules) = do {
     (parser, it, state) \<leftarrow> rule parser b e;
     if \<not> is_giveup state then Some (parser, it, state)
     else if rules \<noteq> [] then parser_one_of parser b e expected_what rules
     else giveup parser b e expected_what
   }"

fun is_empty_node :: "ParserState \<Rightarrow> bool option" where
  "is_empty_node (ParserSuccess None) = None"
| "is_empty_node (ParserSuccess (Some t)) = Some (node_type t = N_Nothing)"
| "is_empty_node (ParserFailure errs) = Some False"

text \<open>
  The loops of the combinators run on fuel: one unit for every test of the loop
  condition, and \<open>None\<close> when it runs out.
\<close>

fun one_many_of_loop :: "nat \<Rightarrow> rule \<Rightarrow> ParserContext \<Rightarrow> nat \<Rightarrow> nat \<Rightarrow> ParserState \<Rightarrow> ParserResult option" where
  "one_many_of_loop 0 rule parser it e state = None"
| "one_many_of_loop (Suc k) rule parser it e state =
     (if it \<noteq> e then do {
        (parser, r_it, r_state) \<leftarrow> rule parser it e;
        if \<not> is_giveup r_state then do {
          empty \<leftarrow> is_empty_node r_state;
          if \<not> empty then do {
            state \<leftarrow> add_state state r_state;
            one_many_of_loop k rule parser r_it e state
          }
          else if opts_pedantic parser then do {
            parser \<leftarrow> emit Pedantic parser it ''empty statement'';
            one_many_of_loop k rule parser r_it e state
          }
          else one_many_of_loop k rule parser r_it e state
        }
        else Some (parser, it, state)
      }
      else Some (parser, it, state))"

definition parser_one_many_of :: "nat \<Rightarrow> string \<Rightarrow> rule \<Rightarrow> rule" where
  "parser_one_many_of fuel expected_what rule parser b e =
     (if b \<noteq> e then do {
        (parser, r_it, r_state) \<leftarrow> rule parser b e;
        if \<not> is_giveup r_state then do {
          empty \<leftarrow> is_empty_node r_state;
          if \<not> empty then do {
            state \<leftarrow> add_state (ParserSuccess (Some empty_node)) r_state;
            one_many_of_loop fuel rule parser r_it e state
          }
          else do {
            parser \<leftarrow> emit Pedantic parser b ''empty statement'';
            one_many_of_loop fuel rule parser r_it e (ParserSuccess (Some empty_node))
          }
        }
        else giveup parser b e expected_what
      }
      else giveup parser b e expected_what)"

text \<open>The overload with a predicate on the current token: a do-while loop.\<close>

fun one_many_of_pred_loop :: "nat \<Rightarrow> rule \<Rightarrow> (TokenType \<Rightarrow> bool) \<Rightarrow> ParserContext \<Rightarrow> nat \<Rightarrow> nat \<Rightarrow> ParserState \<Rightarrow> ParserResult option" where
  "one_many_of_pred_loop 0 rule pred parser it e state = None"
| "one_many_of_pred_loop (Suc k) rule pred parser it e state = do {
     (parser, r_it, r_state) \<leftarrow> rule parser it e;
     state \<leftarrow> add_state state r_state;
     again \<leftarrow> token_is parser r_it e pred;
     if again then one_many_of_pred_loop k rule pred parser r_it e state
     else Some (parser, r_it, state)
   }"

definition parser_one_many_of_pred :: "nat \<Rightarrow> string \<Rightarrow> rule \<Rightarrow> (TokenType \<Rightarrow> bool) \<Rightarrow> rule" where
  "parser_one_many_of_pred fuel expected_what rule pred parser b e =
     (if b \<noteq> e
      then one_many_of_pred_loop fuel rule pred parser b e (ParserSuccess (Some empty_node))
      else giveup parser b e expected_what)"

definition parser_operator :: "NodeType \<Rightarrow> (TokenType \<Rightarrow> bool) \<Rightarrow> rule" where
  "parser_operator op_type op_match parser b e = do {
     m \<leftarrow> token_is parser b e op_match;
     if m then do {
       t \<leftarrow> token_at parser b;
       Some (parser, Suc b, ParserSuccess (Some (new_leaf op_type t)))
     }
     else do {
       name \<leftarrow> to_string_node op_type;
       giveup parser b e name
     }
   }"

definition operator_message :: "string \<Rightarrow> string" where
  "operator_message op_token = ''expression for operator '' @ quoted op_token"

fun left_binary_loop :: "nat \<Rightarrow> rule \<Rightarrow> rule \<Rightarrow> ParserContext \<Rightarrow> nat \<Rightarrow> nat \<Rightarrow> ParserState \<Rightarrow> ParserResult option" where
  "left_binary_loop 0 op_rule rhs_rule parser lhs_it e lhs_state = None"
| "left_binary_loop (Suc k) op_rule rhs_rule parser lhs_it e lhs_state = do {
     (parser, op_it, op_state) \<leftarrow> op_rule parser lhs_it e;
     if \<not> is_giveup op_state then do {
       t \<leftarrow> token_at parser lhs_it;
       let op_token = string_ref parser (tdata t);
       (parser, rhs_it, rhs_state) \<leftarrow> rhs_rule parser op_it e;
       let lhs_it = (if is_success rhs_state then rhs_it
                     else if op_it \<noteq> e then op_it + 1 else op_it);
       lhs \<leftarrow> giveup_to_expected parser lhs_state (operator_message op_token);
       op_state \<leftarrow> add_state op_state lhs;
       rhs \<leftarrow> giveup_to_expected parser rhs_state (operator_message op_token);
       op_state \<leftarrow> add_state op_state rhs;
       left_binary_loop k op_rule rhs_rule parser lhs_it e op_state
     }
     else Some (parser, lhs_it, lhs_state)
   }"

definition parser_left_binary_operator :: "nat \<Rightarrow> rule \<Rightarrow> rule \<Rightarrow> rule \<Rightarrow> rule" where
  "parser_left_binary_operator fuel lhs_rule op_rule rhs_rule parser b e =
     (if b = e then giveup parser b e ''binary operator''
      else do {
        (parser, lhs_it, lhs_state) \<leftarrow> lhs_rule parser b e;
        if is_giveup lhs_state then Some (parser, e, lhs_state)
        else left_binary_loop fuel op_rule rhs_rule parser lhs_it e lhs_state
      })"

definition parser_right_binary_operator :: "rule \<Rightarrow> rule \<Rightarrow> rule \<Rightarrow> rule" where
  "parser_right_binary_operator lhs_rule op_rule rhs_rule parser b e =
     (if b \<noteq> e then do {
        (parser, lhs_it, lhs_state) \<leftarrow> lhs_rule parser b e;
        if \<not> is_giveup lhs_state then do {
          (parser, op_it, op_state) \<leftarrow> op_rule parser lhs_it e;
          if \<not> is_giveup op_state then do {
            t \<leftarrow> token_at parser lhs_it;
            let op_token = string_ref parser (tdata t);
            (parser, rhs_it, rhs_state) \<leftarrow> rhs_rule parser op_it e;
            op_state \<leftarrow> add_state op_state lhs_state;
            rhs \<leftarrow> giveup_to_expected parser rhs_state (operator_message op_token);
            op_state \<leftarrow> add_state op_state rhs;
            Some (parser, rhs_it, op_state)
          }
          else giveup parser b e ''binary operator''
        }
        else giveup parser b e ''binary operator''
      }
      else giveup parser b e ''binary operator'')"

text \<open>Returns an empty (\<^verbatim>\<open>NodeType::Nothing\<close>) node on give-up.\<close>

definition parser_opt :: "rule \<Rightarrow> rule" where
  "parser_opt rule parser b e = do {
     (parser, it, state) \<leftarrow> rule parser b e;
     if \<not> is_giveup state then Some (parser, it, state)
     else Some (parser, b, ParserSuccess (Some (new_node N_Nothing)))
   }"

definition expect_token :: "ParserContext \<Rightarrow> ParserState \<Rightarrow> nat \<Rightarrow> nat \<Rightarrow> TokenType \<Rightarrow> (bool \<times> ParserState) option" where
  "expect_token parser state it e tok =
     (if it \<noteq> e then do {
        t \<leftarrow> token_at parser it;
        if ttype t \<noteq> tok
        then Some (False, add_error_state state
               (make_error Error it
                  (''expected '' @ quoted (to_string_token parser tok) @ '' before ''
                   @ quoted (to_string_token parser (ttype t)))))
        else Some (True, state)
      }
      else Some (False, state))"

definition expect_end_token :: "ParserContext \<Rightarrow> ParserState \<Rightarrow> nat \<Rightarrow> nat \<Rightarrow> nat \<Rightarrow> TokenType \<Rightarrow> (bool \<times> ParserState) option" where
  "expect_end_token parser state b e it tok =
     (if it \<noteq> e then do {
        t \<leftarrow> token_at parser it;
        if ttype t \<noteq> tok then do {
          let state = add_error_state state
                (make_error Error it (''expected '' @ quoted (to_string_token parser tok)));
          open_tok \<leftarrow> token_at parser b;
          Some (False, add_error_state state
                  (make_error ErrorNote b
                     (''to match this '' @ quoted (to_string_token parser (ttype open_tok)))))
        }
        else Some (True, state)
      }
      else Some (False, add_error_state state
              (make_error Error b
                 (''missing '' @ quoted (to_string_token parser tok) @ '' for this''))))"

definition parser_parens :: "rule \<Rightarrow> TokenType \<Rightarrow> TokenType \<Rightarrow> rule" where
  "parser_parens rule left_brace right_brace parser b e = do {
     is_open \<leftarrow> token_is parser b e (\<lambda>t. t = left_brace);
     if is_open then do {
       (parser, it, state) \<leftarrow> rule parser (Suc b) e;
       if \<not> is_giveup state then
         (if it \<noteq> e then do {
            (ok, state) \<leftarrow> expect_end_token parser state b e it right_brace;
            Some (parser, if ok then it + 1 else it, state)
          }
          else Some (parser, it, state))
       else Some (parser, it, state)
     }
     else giveup parser b e (quoted (to_string_token parser left_brace))
   }"

fun list_of_loop :: "nat \<Rightarrow> rule \<Rightarrow> bool \<Rightarrow> ParserContext \<Rightarrow> nat \<Rightarrow> nat \<Rightarrow> ParserState \<Rightarrow> ParserResult option" where
  "list_of_loop 0 rule allow_trailing_comma parser it e state = None"
| "list_of_loop (Suc k) rule allow_trailing_comma parser it e state =
     (if it \<noteq> e then do {
        (parser, r_it, r_state) \<leftarrow> rule parser it e;
        if \<not> r_it \<le> e then None
        else do {
          state \<leftarrow> add_state state (giveup_to_expected0 r_state);
          comma \<leftarrow> token_is parser r_it e (\<lambda>t. t = T_Comma);
          let it = (if comma then r_it + 1 else r_it);
          closing \<leftarrow> (if allow_trailing_comma
                      then token_is parser it e
                             (\<lambda>t. t = T_RightBrace \<or> t = T_RightBracket \<or> t = T_RightParen)
                      else Some False);
          if closing then Some (parser, it, state)
          else if \<not> comma then Some (parser, it, state)
          else list_of_loop k rule allow_trailing_comma parser it e state
        }
      }
      else Some (parser, it, state))"

definition parser_list_of :: "nat \<Rightarrow> rule \<Rightarrow> bool \<Rightarrow> rule" where
  "parser_list_of fuel rule allow_trailing_comma parser b e =
     (if b \<noteq> e
      then list_of_loop fuel rule allow_trailing_comma parser b e (ParserSuccess (Some empty_node))
      else giveup parser b e ''parser_list_of'')"

section \<open>Grammar rules\<close>

text \<open>
  The rules are mutually recursive. A rule that the source declares before it defines it,
  or that calls itself, is called through \<open>rec\<close>, a table of the recursive rules indexed
  by \<open>RuleId\<close>; every other rule is called directly. The function \<open>run\<close> at the end ties
  the knot, with one unit of fuel for every call through the table. A rule with a loop
  takes the fuel of its loops as its first argument.
\<close>

datatype RuleId =
  R_declaration_specifiers | R_declarator | R_abstract_declarator | R_pointer | R_type_name
| R_struct_or_union_specifier | R_enum_specifier | R_initializer | R_initializer_list
| R_unary_expression | R_cast_expression | R_conditional_expression
| R_assignment_expression | R_expression | R_statement

type_synonym rules = "RuleId \<Rightarrow> rule"

text \<open>The token before \<open>it\<close>: \<^verbatim>\<open>*std::prev(it)\<close>.\<close>

definition token_prev :: "ParserContext \<Rightarrow> nat \<Rightarrow> TokenData option" where
  "token_prev parser it = (if it = 0 then None else token_at parser (it - 1))"

subsection \<open>Identifiers, literals, constants\<close>

definition parser_identifier :: rule where
  "parser_identifier parser b e = do {
     m \<leftarrow> token_is parser b e (\<lambda>t. t = T_Identifier);
     if m then do {
       t \<leftarrow> token_at parser b;
       Some (parser, Suc b, ParserSuccess (Some (new_leaf N_Identifier t)))
     }
     else giveup parser b e ''identifier''
   }"

definition parser_string_literal :: rule where
  "parser_string_literal parser b e = do {
     has_prefix \<leftarrow> token_is parser b e (\<lambda>t. t = T_EncodingPrefix);
     encoding_prefix \<leftarrow> (if has_prefix then map_option Some (token_at parser b) else Some None);
     let it = (if has_prefix then b + 1 else b);
     is_string \<leftarrow> token_is parser it e (\<lambda>t. t = T_StringConstant);
     if is_string then do {
       t \<leftarrow> token_at parser it;
       let tree = new_leaf N_StringLiteral t;
       let tree = (case encoding_prefix of
                     Some p \<Rightarrow> add_child tree (new_leaf N_EncodingPrefix p)
                   | None \<Rightarrow> tree);
       Some (parser, Suc it, ParserSuccess (Some tree))
     }
     else giveup parser it e ''string literal''
   }"

definition parser_string_literal_list :: "nat \<Rightarrow> rule" where
  "parser_string_literal_list fuel parser b e = do {
     (parser, it, strings) \<leftarrow>
       parser_one_many_of_pred fuel ''string literal'' parser_string_literal
         (\<lambda>t. t = T_StringConstant) parser b e;
     single \<leftarrow> (case strings of
                  ParserSuccess None \<Rightarrow> None
                | ParserSuccess (Some strings_tree) \<Rightarrow>
                    if child_count strings_tree = 1
                    then map_option (\<lambda>(c, rest). Some c) (pop_child strings_tree)
                    else Some None
                | ParserFailure errs \<Rightarrow> Some None);
     case single of
       Some c \<Rightarrow> Some (parser, it, ParserSuccess (Some c))
     | None \<Rightarrow>
         if \<not> is_giveup strings then do {
           state \<leftarrow> add_state (ParserSuccess (Some (new_node N_StringLiteralList))) strings;
           Some (parser, it, state)
         }
         else giveup parser b e ''string literal list''
   }"

definition const_type :: "TokenType \<Rightarrow> NodeType" where
  "const_type t =
     (if t = T_IntegerConstant \<or> t = T_OctIntegerConstant \<or> t = T_HexIntegerConstant
      then N_IntegerConstant
      else if t = T_FloatConstant then N_FloatingConstant
      else if t = T_CharConstant then N_CharacterConstant
      else if t = T_Identifier then N_EnumerationConstant
      else N_None)"

definition parser_constant :: rule where
  "parser_constant parser b e =
     (if b = e then giveup parser b e ''constant''
      else do {
        t \<leftarrow> token_at parser b;
        if const_type (ttype t) \<noteq> N_None
        then Some (parser, Suc b, ParserSuccess (Some (new_leaf (const_type (ttype t)) t)))
        else giveup parser b e ''constant''
      })"

subsection \<open>Parameters\<close>

definition parser_parameter_declaration :: "rules \<Rightarrow> rule" where
  "parser_parameter_declaration rec parser b e =
     (if b \<noteq> e then do {
        (parser, it, declspecs) \<leftarrow> rec R_declaration_specifiers parser b e;
        if \<not> is_giveup declspecs then do {
          param_decl \<leftarrow> (if is_success declspecs
                          then add_node (ParserSuccess None) (Some (new_node N_ParameterDeclaration))
                          else Some (ParserSuccess None));
          param_decl \<leftarrow> add_state param_decl declspecs;
          (parser, decl_it, declarator) \<leftarrow> rec R_declarator parser it e;
          if \<not> is_giveup declarator then do {
            param_decl \<leftarrow> add_state param_decl declarator;
            Some (parser, decl_it, param_decl)
          }
          else do {
            (parser, abs_it, abstract_decl) \<leftarrow> rec R_abstract_declarator parser it e;
            if \<not> is_giveup abstract_decl then do {
              param_decl \<leftarrow> add_state param_decl abstract_decl;
              Some (parser, abs_it, param_decl)
            }
            else Some (parser, it, param_decl)
          }
        }
        else giveup parser b e ''parameter declaration''
      }
      else giveup parser b e ''parameter declaration'')"

fun parameter_list_loop :: "nat \<Rightarrow> rules \<Rightarrow> ParserContext \<Rightarrow> nat \<Rightarrow> nat \<Rightarrow> ParserState \<Rightarrow> ParserResult option" where
  "parameter_list_loop 0 rec parser it e parameters = None"
| "parameter_list_loop (Suc k) rec parser it e parameters =
     (if it \<noteq> e then do {
        (parser, next_it, param) \<leftarrow> parser_parameter_declaration rec parser it e;
        parameters \<leftarrow> add_state parameters (giveup_to_expected0 param);
        comma \<leftarrow> token_is parser next_it e (\<lambda>t. t = T_Comma);
        if comma then do {
          let it = next_it + 1;
          ellipsis \<leftarrow> token_is parser it e (\<lambda>t. t = T_Ellipsis);
          if ellipsis then do {
            t \<leftarrow> token_at parser it;
            parameters \<leftarrow> add_node parameters (Some (new_leaf N_VariadicParameter t));
            Some (parser, it + 1, parameters)
          }
          else parameter_list_loop k rec parser it e parameters
        }
        else Some (parser, next_it, parameters)
      }
      else Some (parser, it, parameters))"

definition parser_parameter_type_list :: "nat \<Rightarrow> rules \<Rightarrow> rule" where
  "parser_parameter_type_list fuel rec parser b e =
     (if b \<noteq> e then do {
        (parser, next_it, param) \<leftarrow> parser_parameter_declaration rec parser b e;
        parameters \<leftarrow> add_state (ParserSuccess (Some (new_node N_ParameterList))) param;
        comma \<leftarrow> token_is parser next_it e (\<lambda>t. t = T_Comma);
        if comma then do {
          let it = next_it + 1;
          ellipsis \<leftarrow> token_is parser it e (\<lambda>t. t = T_Ellipsis);
          if ellipsis then do {
            t \<leftarrow> token_at parser it;
            parameters \<leftarrow> add_node parameters (Some (new_leaf N_VariadicParameter t));
            Some (parser, it + 1, parameters)
          }
          else parameter_list_loop fuel rec parser it e parameters
        }
        else Some (parser, next_it, parameters)
      }
      else giveup parser b e ''parameter type list'')"

subsection \<open>Type specifiers and qualifiers\<close>

text \<open>The test of the typedef name is disabled in the source by a literal \<^verbatim>\<open>false\<close>.\<close>

definition parser_typedef_name :: rule where
  "parser_typedef_name parser b e = do {
     m \<leftarrow> (if False then token_is parser b e (\<lambda>t. t = T_Identifier) else Some False);
     if m then do {
       t \<leftarrow> token_at parser b;
       Some (parser, Suc b, ParserSuccess (Some (new_leaf N_TypedefName t)))
     }
     else giveup parser b e ''typedef name''
   }"

definition parser_atomic_type_specifier :: "rules \<Rightarrow> rule" where
  "parser_atomic_type_specifier rec parser b e =
     (if b \<noteq> e \<and> Suc b \<noteq> e then do {
        t \<leftarrow> token_at parser b;
        t1 \<leftarrow> (if ttype t = T_Atomic then map_option Some (token_at parser (Suc b)) else Some None);
        if ttype t = T_Atomic \<and> map_option ttype t1 = Some T_LeftParen then do {
          (parser, it, type_name) \<leftarrow>
            parser_parens (rec R_type_name) T_LeftParen T_RightParen parser (Suc b) e;
          type_name \<leftarrow> giveup_to_expected parser type_name ''type name for atomic type specifier'';
          atomic_type_spec \<leftarrow>
            add_state (ParserSuccess (Some (new_leaf N_AtomicTypeSpecifier t))) type_name;
          Some (parser, it, atomic_type_spec)
        }
        else giveup parser b e ''atomic type specifier''
      }
      else giveup parser b e ''atomic type specifier'')"

definition basic_type_tokens :: "TokenType list" where
  "basic_type_tokens =
     [T_VoidType, T_CharType, T_ShortType, T_IntType, T_LongType, T_FloatType, T_DoubleType,
      T_Signed, T_Unsigned, T_Bool, T_Complex, T_VectorM128, T_VectorM128d, T_VectorM128i]"

text \<open>
  In the default case the flag \<^verbatim>\<open>is_inside_specifiers\<close> is set for the duration of the
  alternatives and restored by a scope guard.
\<close>

definition parser_type_specifier :: "rules \<Rightarrow> rule" where
  "parser_type_specifier rec parser b e =
     (if b \<noteq> e then do {
        t \<leftarrow> token_at parser b;
        if ttype t \<in> set basic_type_tokens then do {
          type_spec \<leftarrow> add_node (ParserSuccess None) (Some (new_leaf N_TypeSpecifier t));
          Some (parser, Suc b, type_spec)
        }
        else do {
          let old = is_inside_specifiers parser;
          (parser, type_it, sub_type_spec) \<leftarrow>
            parser_one_of (parser\<lparr>is_inside_specifiers := True\<rparr>) b e ''type specifier''
              [parser_atomic_type_specifier rec,
               rec R_struct_or_union_specifier,
               rec R_enum_specifier,
               parser_typedef_name];
          type_spec \<leftarrow> (if is_success sub_type_spec
                         then add_node (ParserSuccess None) (Some (new_node N_TypeSpecifier))
                         else Some (ParserSuccess None));
          type_spec \<leftarrow> add_state type_spec sub_type_spec;
          Some (parser\<lparr>is_inside_specifiers := old\<rparr>, type_it, type_spec)
        }
      }
      else giveup parser b e ''type specifier'')"

definition type_qualifier_tokens :: "TokenType list" where
  "type_qualifier_tokens = [T_Const, T_Restrict, T_Volatile, T_Atomic]"

definition parser_type_qualifier :: rule where
  "parser_type_qualifier parser b e =
     (if b \<noteq> e then do {
        t \<leftarrow> token_at parser b;
        if ttype t \<in> set type_qualifier_tokens
        then Some (parser, Suc b, ParserSuccess (Some (new_leaf N_TypeQualifier t)))
        else giveup parser b e ''type qualifier''
      }
      else giveup parser b e ''type qualifier'')"

definition parser_type_qualifier_list :: "nat \<Rightarrow> rule" where
  "parser_type_qualifier_list fuel parser b e = do {
     (parser, it, quals) \<leftarrow>
       parser_one_many_of_pred fuel ''type qualifier list'' parser_type_qualifier
         (\<lambda>t. t = T_Const \<or> t = T_Restrict \<or> t = T_Volatile \<or> t = T_Atomic) parser b e;
     let qualifiers = (if is_success quals
                       then ParserSuccess (Some (new_node N_TypeQualifierList))
                       else ParserSuccess None);
     qualifiers \<leftarrow> add_state qualifiers quals;
     Some (parser, it, qualifiers)
   }"

subsection \<open>Pointers and abstract declarators\<close>

definition parser_pointer :: "nat \<Rightarrow> rules \<Rightarrow> rule" where
  "parser_pointer fuel rec parser b e = do {
     star \<leftarrow> token_is parser b e (\<lambda>t. t = T_Times);
     if star then do {
       t \<leftarrow> token_at parser b;
       let pointer = ParserSuccess (Some (new_leaf N_PointerDeclarator t));
       let it = Suc b;
       (parser, qual_it, qual_list) \<leftarrow> parser_type_qualifier_list fuel parser it e;
       (pointer, it) \<leftarrow>
         (if \<not> is_giveup qual_list then do {
            q \<leftarrow> giveup_to_expected parser qual_list ''type qualifier list for pointer type'';
            p \<leftarrow> add_state pointer q;
            Some (p, qual_it)
          }
          else Some (pointer, it));
       star2 \<leftarrow> token_is parser it e (\<lambda>t. t = T_Times);
       if star2 then do {
         (parser, sub_ptr_it, sub_pointer) \<leftarrow> rec R_pointer parser it e;
         s \<leftarrow> giveup_to_expected parser sub_pointer ''nested pointer'';
         pointer \<leftarrow> add_state pointer s;
         Some (parser, sub_ptr_it, pointer)
       }
       else Some (parser, it, pointer)
     }
     else giveup parser b e ''pointer''
   }"

text \<open>
  The two local rules of \<^verbatim>\<open>parser_direct_abstract_declarator\<close>. Both read the token
  before \<open>begin\<close>, the bracket that \<^verbatim>\<open>parser_parens\<close> has consumed.
\<close>

definition abstract_function_declarator :: "nat \<Rightarrow> rules \<Rightarrow> rule" where
  "abstract_function_declarator fuel rec parser b e =
     (if b \<noteq> e then do {
        func_token \<leftarrow> token_prev parser b;
        t \<leftarrow> token_at parser b;
        if ttype t = T_RightParen
        then Some (parser, b, ParserSuccess (Some (new_leaf N_FunctionDeclarator func_token)))
        else do {
          (parser, ad_it, abs_decl) \<leftarrow> rec R_abstract_declarator parser b e;
          if \<not> is_giveup abs_decl then Some (parser, ad_it, abs_decl)
          else do {
            (parser, param_it, params) \<leftarrow> parser_parameter_type_list fuel rec parser b e;
            func_decl \<leftarrow> (if is_success params
                           then add_node (ParserSuccess None)
                                  (Some (new_leaf N_FunctionDeclarator func_token))
                           else Some (ParserSuccess None));
            func_decl \<leftarrow> add_state func_decl params;
            Some (parser, param_it, func_decl)
          }
        }
      }
      else giveup parser b e ''function declarator'')"

text \<open>
  The array declarator between brackets occurs twice in the source, in the abstract and in
  the direct declarator. The two differ in the messages, in the message of the give-up,
  and in the case \<^verbatim>\<open>'[' type-qualifier-list? '*' ']'\<close>, which only the direct declarator
  has (\<open>direct\<close>).
\<close>

definition array_declarator :: "bool \<Rightarrow> string \<Rightarrow> string \<Rightarrow> string \<Rightarrow> nat \<Rightarrow> rules \<Rightarrow> rule" where
  "array_declarator direct qual_msg len_msg giveup_msg fuel rec parser b e =
     (if b \<noteq> e then do {
        array_token \<leftarrow> token_prev parser b;
        t \<leftarrow> token_at parser b;
        if ttype t = T_RightBracket
        then Some (parser, b, ParserSuccess (Some (new_leaf N_ArrayVLADeclarator array_token)))
        else do {
          star_close \<leftarrow> (if ttype t = T_Times
                          then token_is parser (Suc b) e (\<lambda>t. t = T_RightBracket)
                          else Some False);
          if star_close
          then Some (parser, Suc b, ParserSuccess (Some (new_leaf N_ArrayVLADeclarator array_token)))
          else if ttype t = T_Static then do {
            let decl = ParserSuccess (Some (new_leaf N_ArrayStaticDeclarator array_token));
            let it = b + 1;
            (parser, qual_it, qual_list) \<leftarrow> parser_type_qualifier_list fuel parser it e;
            (decl, it) \<leftarrow>
              (if \<not> is_giveup qual_list then do {
                 q \<leftarrow> giveup_to_expected parser qual_list qual_msg;
                 d \<leftarrow> add_state decl q;
                 Some (d, qual_it)
               }
               else Some (decl, it));
            (parser, assign_it, assign_expr) \<leftarrow> rec R_assignment_expression parser it e;
            a \<leftarrow> giveup_to_expected parser assign_expr len_msg;
            decl \<leftarrow> add_state decl a;
            Some (parser, assign_it, decl)
          }
          else do {
            (parser, qual_it, qualifiers) \<leftarrow> parser_type_qualifier_list fuel parser b e;
            static \<leftarrow> (if \<not> is_giveup qualifiers
                        then token_is parser qual_it e (\<lambda>t. t = T_Static)
                        else Some False);
            if static then do {
              (parser, assign_it, assign_expr) \<leftarrow>
                rec R_assignment_expression parser (Suc qual_it) e;
              let decl = (if is_success assign_expr
                          then ParserSuccess (Some (new_leaf N_ArrayStaticDeclarator array_token))
                          else ParserSuccess None);
              q \<leftarrow> giveup_to_expected parser qualifiers qual_msg;
              decl \<leftarrow> add_state decl q;
              a \<leftarrow> giveup_to_expected parser assign_expr len_msg;
              decl \<leftarrow> add_state decl a;
              Some (parser, assign_it, decl)
            }
            else do {
              star \<leftarrow> (if direct then token_is parser qual_it e (\<lambda>t. t = T_Times)
                        else Some False);
              if star then do {
                let decl = ParserSuccess (Some (new_leaf N_ArrayVLADeclarator array_token));
                decl \<leftarrow> (if \<not> is_giveup qualifiers then add_state decl qualifiers
                          else Some decl);
                Some (parser, Suc qual_it, decl)
              }
              else do {
                (parser, assign_it, assign_expr) \<leftarrow>
                  rec R_assignment_expression parser (if qual_it \<noteq> e then qual_it else b) e;
                let decl = ParserSuccess (Some (new_leaf N_ArrayDeclarator array_token));
                (decl, it) \<leftarrow> (if \<not> is_giveup qualifiers then do {
                                  d \<leftarrow> add_state decl qualifiers;
                                  Some (d, qual_it)
                                }
                                else Some (decl, b));
                (decl, it) \<leftarrow> (if \<not> is_giveup assign_expr then do {
                                  d \<leftarrow> add_state decl assign_expr;
                                  Some (d, assign_it)
                                }
                                else Some (decl, it));
                Some (parser, it, decl)
              }
            }
          }
        }
      }
      else giveup parser b e giveup_msg)"

definition abstract_array_declarator :: "nat \<Rightarrow> rules \<Rightarrow> rule" where
  "abstract_array_declarator =
     array_declarator False ''qualifiers for array declarator''
       ''expression for array length'' ''direct abstract declarator''"

fun direct_abstract_declarator_loop :: "nat \<Rightarrow> nat \<Rightarrow> rules \<Rightarrow> ParserContext \<Rightarrow> nat \<Rightarrow> nat \<Rightarrow> ParserState \<Rightarrow> ParserResult option" where
  "direct_abstract_declarator_loop 0 fuel rec parser it e array_decl = None"
| "direct_abstract_declarator_loop (Suc k) fuel rec parser it e array_decl =
     (if it \<noteq> e then do {
        t \<leftarrow> token_at parser it;
        if ttype t = T_LeftParen then do {
          (parser, params_it, parameters) \<leftarrow>
            parser_parens (parser_opt (parser_parameter_type_list fuel rec))
              T_LeftParen T_RightParen parser it e;
          a \<leftarrow> giveup_to_expected parser array_decl ''array declarator'';
          func_decl \<leftarrow> add_state (ParserSuccess (Some (new_node N_FunctionDeclarator))) a;
          p \<leftarrow> giveup_to_expected parser parameters ''parameter type list'';
          func_decl \<leftarrow> add_state func_decl p;
          direct_abstract_declarator_loop k fuel rec parser params_it e func_decl
        }
        else if ttype t = T_LeftBracket then do {
          (parser, decl_it, declarator) \<leftarrow>
            parser_parens (abstract_array_declarator fuel rec)
              T_LeftBracket T_RightBracket parser it e;
          a \<leftarrow> giveup_to_expected parser array_decl ''array declarator'';
          direct_decl \<leftarrow> add_state (ParserSuccess (Some (new_node N_DirectAbstractDeclarator))) a;
          d \<leftarrow> giveup_to_expected parser declarator ''array declarator'';
          direct_decl \<leftarrow> add_state direct_decl d;
          direct_abstract_declarator_loop k fuel rec parser decl_it e direct_decl
        }
        else Some (parser, it, array_decl)
      }
      else Some (parser, it, array_decl))"

definition parser_direct_abstract_declarator :: "nat \<Rightarrow> rules \<Rightarrow> rule" where
  "parser_direct_abstract_declarator fuel rec parser b e =
     (if b \<noteq> e then do {
        (parser, it, array_decl) \<leftarrow>
          parser_one_of parser b e ''function or array declarator''
            [parser_parens (abstract_function_declarator fuel rec) T_LeftParen T_RightParen,
             parser_parens (abstract_array_declarator fuel rec) T_LeftBracket T_RightBracket];
        if is_giveup array_decl then Some (parser, it, array_decl)
        else direct_abstract_declarator_loop fuel fuel rec parser it e array_decl
      }
      else giveup parser b e ''direct abstract declarator'')"

definition parser_abstract_declarator :: "nat \<Rightarrow> rules \<Rightarrow> rule" where
  "parser_abstract_declarator fuel rec parser b e =
     (if b \<noteq> e then do {
        t \<leftarrow> token_at parser b;
        if ttype t = T_Times then do {
          (parser, ptr_it, pointer_decl) \<leftarrow> rec R_pointer parser b e;
          bracket \<leftarrow> token_is parser ptr_it e (\<lambda>t. t = T_LeftBracket);
          if bracket then do {
            (parser, decl_it, decl) \<leftarrow> parser_direct_abstract_declarator fuel rec parser ptr_it e;
            abstract_decl \<leftarrow> (if \<not> is_giveup decl
                               then add_node (ParserSuccess None)
                                      (Some (new_node N_AbstractDeclarator))
                               else Some (ParserSuccess None));
            abstract_decl \<leftarrow> add_state abstract_decl (giveup_to_expected0 pointer_decl);
            abstract_decl \<leftarrow> add_state abstract_decl (giveup_to_expected0 decl);
            Some (parser, decl_it, abstract_decl)
          }
          else Some (parser, ptr_it, pointer_decl)
        }
        else if ttype t = T_LeftBracket
        then parser_direct_abstract_declarator fuel rec parser b e
        else giveup parser b e ''abstract declarator''
      }
      else giveup parser b e ''abstract declarator'')"

fun specifier_qualifier_loop :: "nat \<Rightarrow> rules \<Rightarrow> ParserContext \<Rightarrow> nat \<Rightarrow> nat \<Rightarrow> ParserState \<Rightarrow> ParserResult option" where
  "specifier_qualifier_loop 0 rec parser it e qualifiers = None"
| "specifier_qualifier_loop (Suc k) rec parser it e qualifiers = do {
     (parser, s_it, spec_qual) \<leftarrow>
       parser_one_of parser it e ''type specifier or qualifier''
         [parser_type_specifier rec, parser_type_qualifier];
     if \<not> is_giveup spec_qual then do {
       qualifiers \<leftarrow> add_state qualifiers spec_qual;
       specifier_qualifier_loop k rec parser s_it e qualifiers
     }
     else Some (parser, it, qualifiers)
   }"

definition parser_specifier_qualifier_list :: "nat \<Rightarrow> rules \<Rightarrow> rule" where
  "parser_specifier_qualifier_list fuel rec parser b e =
     (if b \<noteq> e then do {
        (parser, s_it, spec_qual) \<leftarrow>
          parser_one_of parser b e ''type specifier or qualifier''
            [parser_type_specifier rec, parser_type_qualifier];
        if \<not> is_giveup spec_qual then do {
          qualifiers \<leftarrow> add_state (ParserSuccess (Some (new_node N_SpecifierQualifierList))) spec_qual;
          specifier_qualifier_loop fuel rec parser s_it e qualifiers
        }
        else Some (parser, e, spec_qual)
      }
      else giveup parser b e ''specifier qualifier list'')"

definition parser_type_name :: "nat \<Rightarrow> rules \<Rightarrow> rule" where
  "parser_type_name fuel rec parser b e =
     (if b \<noteq> e then do {
        (parser, spec_it, spec_qual_list) \<leftarrow> parser_specifier_qualifier_list fuel rec parser b e;
        if is_giveup spec_qual_list then Some (parser, spec_it, spec_qual_list)
        else do {
          type_name \<leftarrow> add_state (ParserSuccess (Some (new_node N_TypeName))) spec_qual_list;
          (parser, decl_it, abstract_decl) \<leftarrow> rec R_abstract_declarator parser spec_it e;
          if \<not> is_giveup abstract_decl then do {
            type_name \<leftarrow> add_state type_name abstract_decl;
            Some (parser, decl_it, type_name)
          }
          else Some (parser, spec_it, type_name)
        }
      }
      else giveup parser b e ''type name'')"

definition parser_constant_expression :: "rules \<Rightarrow> rule" where
  "parser_constant_expression rec = rec R_conditional_expression"

subsection \<open>Static assertions\<close>

definition static_assert_args_production :: "nat \<Rightarrow> rules \<Rightarrow> rule" where
  "static_assert_args_production fuel rec parser b e = do {
     (parser, const_it, const_expr) \<leftarrow> parser_constant_expression rec parser b e;
     args \<leftarrow> add_state (ParserSuccess (Some empty_node)) (giveup_to_expected0 const_expr);
     (ok, args) \<leftarrow> expect_token parser args const_it e T_Comma;
     let it = (if ok then const_it + 1 else const_it);
     (parser, strings_it, strings) \<leftarrow> parser_string_literal_list fuel parser it e;
     args \<leftarrow> add_state args (giveup_to_expected0 strings);
     Some (parser, strings_it, args)
   }"

definition parser_static_assert_declaration :: "nat \<Rightarrow> rules \<Rightarrow> rule" where
  "parser_static_assert_declaration fuel rec parser b e = do {
     m \<leftarrow> token_is parser b e (\<lambda>t. t = T_StaticAssert);
     if m then do {
       (parser, it, arguments) \<leftarrow>
         parser_parens (static_assert_args_production fuel rec) T_LeftParen T_RightParen
           parser (Suc b) e;
       (it, arguments) \<leftarrow>
         (if is_success arguments then do {
            (ok, arguments) \<leftarrow> expect_end_token parser arguments b e it T_Semicolon;
            Some (if ok then it + 1 else it, arguments)
          }
          else Some (it, arguments));
       static_assert_decl \<leftarrow>
         add_state (ParserSuccess (Some (new_node N_StaticAssertDeclaration))) arguments;
       Some (parser, it, static_assert_decl)
     }
     else giveup parser b e ''static assert declaration''
   }"

subsection \<open>Declarators\<close>

definition direct_array_declarator :: "nat \<Rightarrow> rules \<Rightarrow> rule" where
  "direct_array_declarator =
     array_declarator True ''qualifiers for array declarator in direct declarator''
       ''expression for array length in direct declarator'' ''direct declarator''"

definition ident_or_decl_production :: "rules \<Rightarrow> rule" where
  "ident_or_decl_production rec parser b e =
     parser_one_of parser b e ''identifier or declarator inside parentheses''
       [parser_identifier, parser_parens (rec R_declarator) T_LeftParen T_RightParen]"

text \<open>
  Every bracket or parenthesis after the first part of a direct declarator adds its
  declarator to the accumulator and wraps the accumulator in a new
  \<^verbatim>\<open>DirectDeclarator\<close> node.
\<close>

fun direct_declarator_loop :: "nat \<Rightarrow> nat \<Rightarrow> rules \<Rightarrow> ParserContext \<Rightarrow> nat \<Rightarrow> nat \<Rightarrow> ParserState \<Rightarrow> ParserResult option" where
  "direct_declarator_loop 0 fuel rec parser it e direct_decl = None"
| "direct_declarator_loop (Suc k) fuel rec parser it e direct_decl =
     (if it \<noteq> e then do {
        t \<leftarrow> token_at parser it;
        if ttype t = T_LeftBracket then do {
          (parser, arr_it, arr_decl) \<leftarrow>
            parser_parens (direct_array_declarator fuel rec) T_LeftBracket T_RightBracket
              parser it e;
          direct_decl \<leftarrow> add_state direct_decl (giveup_to_expected0 arr_decl);
          super_decl \<leftarrow> add_state (ParserSuccess (Some (new_node N_DirectDeclarator))) direct_decl;
          direct_declarator_loop k fuel rec parser arr_it e super_decl
        }
        else if ttype t = T_LeftParen then do {
          (parser, param_or_id_it, param_or_id_list) \<leftarrow>
            parser_parens (parser_opt (parser_parameter_type_list fuel rec))
              T_LeftParen T_RightParen parser it e;
          direct_decl \<leftarrow> add_state direct_decl (giveup_to_expected0 param_or_id_list);
          super_decl \<leftarrow> add_state (ParserSuccess (Some (new_node N_DirectDeclarator))) direct_decl;
          direct_declarator_loop k fuel rec parser param_or_id_it e super_decl
        }
        else Some (parser, it, direct_decl)
      }
      else Some (parser, it, direct_decl))"

definition parser_direct_declarator :: "nat \<Rightarrow> rules \<Rightarrow> rule" where
  "parser_direct_declarator fuel rec parser b e = do {
     m \<leftarrow> token_is parser b e (\<lambda>t. t = T_Identifier \<or> t = T_LeftParen);
     if m then do {
       (parser, next_it, ident_or_decl) \<leftarrow> ident_or_decl_production rec parser b e;
       if \<not> is_giveup ident_or_decl then do {
         direct_decl \<leftarrow> add_state (ParserSuccess (Some (new_node N_DirectDeclarator)))
                          (giveup_to_expected0 ident_or_decl);
         direct_declarator_loop fuel fuel rec parser next_it e direct_decl
       }
       else giveup parser b e ''direct declarator''
     }
     else giveup parser b e ''direct declarator''
   }"

definition parser_is_declarator :: "ParserContext \<Rightarrow> nat \<Rightarrow> nat \<Rightarrow> bool option" where
  "parser_is_declarator parser b e =
     token_is parser b e (\<lambda>t. t = T_Times \<or> t = T_Identifier \<or> t = T_LeftParen)"

definition parser_declarator :: "nat \<Rightarrow> rules \<Rightarrow> rule" where
  "parser_declarator fuel rec parser b e =
     (if b \<noteq> e then do {
        (parser, ptr_it, pointer_decl) \<leftarrow> rec R_pointer parser b e;
        declarator \<leftarrow> (if \<not> is_giveup pointer_decl
                        then add_state (ParserSuccess (Some (new_node N_Declarator))) pointer_decl
                        else Some (ParserSuccess (Some (new_node N_Declarator))));
        let it = (if ptr_it \<noteq> e then ptr_it else b);
        (parser, dir_it, direct_decl) \<leftarrow> parser_direct_declarator fuel rec parser it e;
        declarator \<leftarrow> add_state declarator direct_decl;
        Some (parser, dir_it, declarator)
      }
      else giveup parser b e ''declarator'')"

definition parser_init_declarator :: "rules \<Rightarrow> rule" where
  "parser_init_declarator rec parser b e =
     (if b \<noteq> e then do {
        (parser, decl_it, declarator) \<leftarrow> rec R_declarator parser b e;
        if \<not> is_giveup declarator then do {
          init_decl \<leftarrow> add_state (ParserSuccess (Some (new_node N_InitDeclarator))) declarator;
          assign \<leftarrow> token_is parser decl_it e (\<lambda>t. t = T_Assign);
          if assign then do {
            (parser, init_it, initializer) \<leftarrow> rec R_initializer parser (Suc decl_it) e;
            i \<leftarrow> giveup_to_expected parser initializer ''initializer for init declarator'';
            init_decl \<leftarrow> add_state init_decl i;
            Some (parser, init_it, init_decl)
          }
          else Some (parser, decl_it, init_decl)
        }
        else giveup parser b e ''init declarator''
      }
      else giveup parser b e ''init declarator'')"

definition parser_init_declarator_list :: "nat \<Rightarrow> rules \<Rightarrow> rule" where
  "parser_init_declarator_list fuel rec = parser_list_of fuel (parser_init_declarator rec) False"

subsection \<open>Declaration specifiers and declarations\<close>

definition storage_class_tokens :: "TokenType list" where
  "storage_class_tokens = [T_Typedef, T_Extern, T_Static, T_ThreadLocal, T_Auto, T_Register]"

definition parser_storage_class_specifier :: rule where
  "parser_storage_class_specifier parser b e =
     (if b \<noteq> e then do {
        t \<leftarrow> token_at parser b;
        if ttype t \<in> set storage_class_tokens
        then Some (parser, Suc b, ParserSuccess (Some (new_leaf N_StorageClassSpecifier t)))
        else giveup parser b e ''storage class specifier''
      }
      else giveup parser b e ''storage class specifier'')"

definition parser_function_specifier :: rule where
  "parser_function_specifier parser b e =
     (if b \<noteq> e then do {
        t \<leftarrow> token_at parser b;
        if ttype t = T_Inline \<or> ttype t = T_Noreturn \<or> ttype t = T_Stdcall
        then Some (parser, Suc b, ParserSuccess (Some (new_leaf N_FunctionSpecifier t)))
        else if ttype t = T_Declspec then do {
          (parser, it, identifier) \<leftarrow>
            parser_parens parser_identifier T_LeftParen T_RightParen parser (Suc b) e;
          let func_spec = (if is_success identifier
                           then ParserSuccess (Some (new_leaf N_FunctionSpecifier t))
                           else ParserSuccess None);
          i \<leftarrow> giveup_to_expected parser identifier ''declspec argument'';
          func_spec \<leftarrow> add_state func_spec i;
          Some (parser, it, func_spec)
        }
        else giveup parser b e ''function specifier''
      }
      else giveup parser b e ''function specifier'')"

definition alignas_arg_production :: "rules \<Rightarrow> rule" where
  "alignas_arg_production rec parser b e =
     parser_one_of parser b e ''type name or constant expression''
       [rec R_type_name, parser_constant_expression rec]"

text \<open>
  The source tests \<^verbatim>\<open>is<ParserSuccess>(alignas_spec)\<close>, the state it has just
  initialised, so the node is always added.
\<close>

definition parser_alignment_specifier :: "rules \<Rightarrow> rule" where
  "parser_alignment_specifier rec parser b e = do {
     m \<leftarrow> token_is parser b e (\<lambda>t. t = T_Alignas);
     if m then do {
       t \<leftarrow> token_at parser b;
       (parser, it, alignas_arg) \<leftarrow>
         parser_parens (alignas_arg_production rec) T_LeftParen T_RightParen parser (Suc b) e;
       let alignas_spec = ParserSuccess None;
       alignas_spec \<leftarrow> (if is_success alignas_spec
                         then add_node alignas_spec (Some (new_leaf N_AlignmentSpecifier t))
                         else Some alignas_spec);
       a \<leftarrow> giveup_to_expected parser alignas_arg ''alignas argument'';
       alignas_spec \<leftarrow> add_state alignas_spec a;
       Some (parser, it, alignas_spec)
     }
     else giveup parser b e ''alignment specifier''
   }"

definition parser_declaration_specifier :: "rules \<Rightarrow> rule" where
  "parser_declaration_specifier rec parser b e =
     parser_one_of parser b e ''declaration specifier''
       [parser_storage_class_specifier,
        parser_type_specifier rec,
        parser_type_qualifier,
        parser_function_specifier,
        parser_alignment_specifier rec]"

definition parser_declaration_specifiers :: "nat \<Rightarrow> rules \<Rightarrow> rule" where
  "parser_declaration_specifiers fuel rec parser b e = do {
     (parser, it, decl_spec) \<leftarrow>
       parser_one_many_of fuel ''declaration specifiers'' (parser_declaration_specifier rec)
         parser b e;
     decl_specs \<leftarrow> (if is_success decl_spec
                     then add_node (ParserSuccess None) (Some (new_node N_DeclarationSpecifiers))
                     else Some (ParserSuccess None));
     decl_specs \<leftarrow> add_state decl_specs decl_spec;
     Some (parser, it, decl_specs)
   }"

definition parser_declaration :: "nat \<Rightarrow> rules \<Rightarrow> rule" where
  "parser_declaration fuel rec parser b e =
     (if b \<noteq> e then do {
        t \<leftarrow> token_at parser b;
        if ttype t = T_StaticAssert then parser_static_assert_declaration fuel rec parser b e
        else do {
          (parser, decl_it, decl_specs) \<leftarrow> rec R_declaration_specifiers parser b e;
          if \<not> is_giveup decl_specs then do {
            declaration \<leftarrow> add_node (ParserSuccess None) (Some (new_node N_Declaration));
            declaration \<leftarrow> add_state declaration decl_specs;
            has_list \<leftarrow> token_is parser decl_it e (\<lambda>t. t \<noteq> T_Semicolon);
            (parser, it, declaration) \<leftarrow>
              (if has_list then do {
                 (parser, init_it, init_decl_list) \<leftarrow>
                   parser_init_declarator_list fuel rec parser decl_it e;
                 declaration \<leftarrow> add_state declaration (giveup_to_expected0 init_decl_list);
                 Some (parser, init_it, declaration)
               }
               else Some (parser, decl_it, declaration));
            (ok, declaration) \<leftarrow> expect_token parser declaration it e T_Semicolon;
            Some (parser, if ok then it + 1 else it, declaration)
          }
          else giveup parser b e ''declaration''
        }
      }
      else giveup parser b e ''declaration'')"

subsection \<open>Enumerations, structures and unions\<close>

definition parser_enumeration_constant :: rule where
  "parser_enumeration_constant parser b e = do {
     m \<leftarrow> token_is parser b e (\<lambda>t. t = T_Identifier);
     if m then do {
       t \<leftarrow> token_at parser b;
       Some (parser, Suc b, ParserSuccess (Some (new_leaf N_Enumerator t)))
     }
     else giveup parser b e ''enumerator''
   }"

definition enumerator_production :: "rules \<Rightarrow> rule" where
  "enumerator_production rec parser b e = do {
     m \<leftarrow> token_is parser b e (\<lambda>t. t = T_Identifier);
     if m then do {
       (parser, it, enumerator) \<leftarrow> parser_enumeration_constant parser b e;
       assign \<leftarrow> token_is parser it e (\<lambda>t. t = T_Assign);
       if assign then do {
         (parser, const_it, const_expr) \<leftarrow> parser_constant_expression rec parser (Suc it) e;
         c \<leftarrow> giveup_to_expected parser const_expr ''constant expression'';
         enumerator \<leftarrow> add_state enumerator c;
         Some (parser, const_it, enumerator)
       }
       else Some (parser, it, enumerator)
     }
     else giveup parser b e ''enumerator''
   }"

definition enum_list_production :: "nat \<Rightarrow> rules \<Rightarrow> rule" where
  "enum_list_production fuel rec =
     parser_parens (parser_list_of fuel (enumerator_production rec) True)
       T_LeftBrace T_RightBrace"

text \<open>
  The tail that the enumeration and the structure specifier share: inside a type
  specifier, a specifier that is followed by neither \<^verbatim>\<open>;\<close> nor the start of a declarator
  gets the error that the semicolon is missing, at the token before \<open>it\<close>.
\<close>

definition missing_semicolon :: "ParserContext \<Rightarrow> ParserState \<Rightarrow> nat \<Rightarrow> nat \<Rightarrow> string \<Rightarrow> ParserState option" where
  "missing_semicolon parser spec it e msg =
     (if is_inside_specifiers parser \<and> is_success spec then do {
        other \<leftarrow> token_is parser it e (\<lambda>t. t \<noteq> T_Semicolon);
        if other then do {
          d \<leftarrow> parser_is_declarator parser it e;
          if \<not> d then Some (add_error_state spec (make_error Error (it - 1) msg))
          else Some spec
        }
        else Some spec
      }
      else Some spec)"

definition parser_enum_specifier :: "nat \<Rightarrow> rules \<Rightarrow> rule" where
  "parser_enum_specifier fuel rec parser b e = do {
     m \<leftarrow> token_is parser b e (\<lambda>t. t = T_Enum);
     if m \<and> Suc b \<noteq> e then do {
       t \<leftarrow> token_at parser b;
       let enum_spec = ParserSuccess (Some (new_leaf N_EnumSpecifier t));
       let it = Suc b;
       t1 \<leftarrow> token_at parser it;
       (parser, it, enum_spec) \<leftarrow>
         (if ttype t1 = T_Identifier then do {
            (parser, ident_it, identifier) \<leftarrow> parser_identifier parser it e;
            enum_spec \<leftarrow> add_state enum_spec identifier;
            brace \<leftarrow> token_is parser ident_it e (\<lambda>t. t = T_LeftBrace);
            if brace then do {
              (parser, enum_list_it, enum_list) \<leftarrow> enum_list_production fuel rec parser ident_it e;
              enum_spec \<leftarrow> add_state enum_spec (giveup_to_expected0 enum_list);
              Some (parser, enum_list_it, enum_spec)
            }
            else Some (parser, ident_it, enum_spec)
          }
          else if ttype t1 = T_LeftBrace then do {
            (parser, enum_list_it, enum_list) \<leftarrow> enum_list_production fuel rec parser it e;
            enum_spec \<leftarrow> add_state enum_spec (giveup_to_expected0 enum_list);
            Some (parser, enum_list_it, enum_spec)
          }
          else do {
            let enum_spec = add_error_state enum_spec
                  (make_error Error it (''expected identifier or '' @ quoted ''{''));
            let enum_spec = add_error_state enum_spec
                  (make_error ErrorNote b ''for this enumerator specifier'');
            Some (parser, it, enum_spec)
          });
       enum_spec \<leftarrow> missing_semicolon parser enum_spec it e
                      (''missing '' @ quoted '';'' @ '' after enumerator declaration'');
       Some (parser, it, enum_spec)
     }
     else giveup parser b e ''enumerator specifier''
   }"

definition struct_declarator :: "string \<Rightarrow> rules \<Rightarrow> rule" where
  "struct_declarator struct_token rec parser b e =
     (if b \<noteq> e then do {
        t \<leftarrow> token_at parser b;
        let struct_decl = ParserSuccess (Some (new_node N_StructDeclarator));
        if ttype t \<noteq> T_Colon then do {
          (parser, decl_it, declarator) \<leftarrow> rec R_declarator parser b e;
          d \<leftarrow> giveup_to_expected parser declarator ''declarator'';
          struct_decl \<leftarrow> add_state struct_decl d;
          colon \<leftarrow> token_is parser decl_it e (\<lambda>t. t = T_Colon);
          if colon then do {
            (parser, const_expr_it, const_expr) \<leftarrow>
              parser_constant_expression rec parser (Suc decl_it) e;
            c \<leftarrow> giveup_to_expected parser const_expr ''constant expression'';
            struct_decl \<leftarrow> add_state struct_decl c;
            Some (parser, const_expr_it, struct_decl)
          }
          else Some (parser, decl_it, struct_decl)
        }
        else do {
          (parser, const_expr_it, const_expr) \<leftarrow> parser_constant_expression rec parser (Suc b) e;
          c \<leftarrow> giveup_to_expected parser const_expr ''constant expression'';
          struct_decl \<leftarrow> add_state struct_decl c;
          Some (parser, const_expr_it, struct_decl)
        }
      }
      else giveup parser b e (struct_token @ '' declarator''))"

definition struct_declaration :: "string \<Rightarrow> nat \<Rightarrow> rules \<Rightarrow> rule" where
  "struct_declaration struct_token fuel rec parser b e =
     (if b \<noteq> e then do {
        t \<leftarrow> token_at parser b;
        if ttype t = T_StaticAssert then parser_static_assert_declaration fuel rec parser b e
        else do {
          (parser, spec_qual_it, spec_qual_list) \<leftarrow>
            parser_specifier_qualifier_list fuel rec parser b e;
          s \<leftarrow> giveup_to_expected parser spec_qual_list ''specifier qualifier list'';
          struct_decl \<leftarrow> add_state (ParserSuccess (Some (new_node N_StructDeclaration))) s;
          (parser, decl_it, decl_list) \<leftarrow>
            parser_list_of fuel (struct_declarator struct_token rec) False parser spec_qual_it e;
          (struct_decl, it) \<leftarrow>
            (if is_success decl_list then do {
               d \<leftarrow> add_state struct_decl decl_list;
               Some (d, decl_it)
             }
             else Some (struct_decl, spec_qual_it));
          (ok, struct_decl) \<leftarrow> expect_token parser struct_decl it e T_Semicolon;
          Some (parser, if ok then it + 1 else it, struct_decl)
        }
      }
      else giveup parser b e (struct_token @ '' declaration''))"

definition struct_decl_list_production :: "string \<Rightarrow> nat \<Rightarrow> rules \<Rightarrow> rule" where
  "struct_decl_list_production struct_token fuel rec =
     parser_parens
       (parser_one_many_of_pred fuel (struct_token @ '' declaration list'')
          (struct_declaration struct_token fuel rec) (\<lambda>t. t \<noteq> T_RightBrace))
       T_LeftBrace T_RightBrace"

definition parser_struct_or_union_specifier :: "nat \<Rightarrow> rules \<Rightarrow> rule" where
  "parser_struct_or_union_specifier fuel rec parser b e = do {
     m \<leftarrow> token_is parser b e (\<lambda>t. t = T_Struct \<or> t = T_Union);
     if m then do {
       t \<leftarrow> token_at parser b;
       let struct_token = to_string_token parser (ttype t);
       let struct_spec = ParserSuccess (Some (new_leaf N_StructOrUnionSpecifier t));
       let it = Suc b;
       if it \<noteq> e then do {
         t1 \<leftarrow> token_at parser it;
         (parser, it, struct_spec) \<leftarrow>
           (if ttype t1 = T_Identifier then do {
              (parser, ident_it, identifier) \<leftarrow> parser_identifier parser it e;
              struct_spec \<leftarrow> add_state struct_spec identifier;
              brace \<leftarrow> token_is parser ident_it e (\<lambda>t. t = T_LeftBrace);
              if brace then do {
                (parser, decl_list_it, decl_list) \<leftarrow>
                  struct_decl_list_production struct_token fuel rec parser ident_it e;
                struct_spec \<leftarrow> add_state struct_spec (giveup_to_expected0 decl_list);
                Some (parser, decl_list_it, struct_spec)
              }
              else Some (parser, ident_it, struct_spec)
            }
            else if ttype t1 = T_LeftBrace then do {
              (parser, decl_list_it, decl_list) \<leftarrow>
                struct_decl_list_production struct_token fuel rec parser it e;
              struct_spec \<leftarrow> add_state struct_spec (giveup_to_expected0 decl_list);
              Some (parser, decl_list_it, struct_spec)
            }
            else do {
              let struct_spec = add_error_state struct_spec
                    (make_error Error it (''expected identifier or '' @ quoted ''{''));
              let struct_spec = add_error_state struct_spec
                    (make_error ErrorNote b (''for this '' @ struct_token @ '' specifier''));
              Some (parser, it, struct_spec)
            });
         struct_spec \<leftarrow> missing_semicolon parser struct_spec it e
                          (''missing '' @ quoted '';'' @ '' after '' @ struct_token @ '' declaration'');
         Some (parser, it, struct_spec)
       }
       else giveup parser b e ''struct or union specifier''
     }
     else giveup parser b e ''struct or union specifier''
   }"

subsection \<open>Initializers\<close>

definition parser_initializer :: "rules \<Rightarrow> rule" where
  "parser_initializer rec parser b e =
     (if b \<noteq> e then do {
        t \<leftarrow> token_at parser b;
        if ttype t = T_LeftBrace
        then parser_parens (rec R_initializer_list) T_LeftBrace T_RightBrace parser b e
        else rec R_assignment_expression parser b e
      }
      else giveup parser b e ''initializer'')"

definition designator_production :: "rules \<Rightarrow> rule" where
  "designator_production rec parser b e =
     (if b \<noteq> e then do {
        t \<leftarrow> token_at parser b;
        if ttype t = T_LeftBracket then do {
          (parser, it, subscript) \<leftarrow>
            parser_parens (parser_constant_expression rec) T_LeftBracket T_RightBracket
              parser b e;
          designator \<leftarrow> add_state (ParserSuccess (Some (new_node N_ArraySubscripting))) subscript;
          Some (parser, it, designator)
        }
        else if ttype t = T_Dot then do {
          (parser, it, identifier) \<leftarrow> parser_identifier parser (Suc b) e;
          i \<leftarrow> giveup_to_expected parser identifier ''identifier for designator'';
          designator \<leftarrow> add_state (ParserSuccess (Some (new_node N_MemberAccess))) i;
          Some (parser, it, designator)
        }
        else giveup parser b e ''designator''
      }
      else giveup parser b e ''designator'')"

fun designation_loop :: "nat \<Rightarrow> rules \<Rightarrow> ParserContext \<Rightarrow> nat \<Rightarrow> nat \<Rightarrow> ParserState \<Rightarrow> ParserResult option" where
  "designation_loop 0 rec parser it e designation = None"
| "designation_loop (Suc k) rec parser it e designation = do {
     more \<leftarrow> token_is parser it e (\<lambda>t. t \<noteq> T_Assign);
     if more then do {
       (parser, des_it, designator) \<leftarrow> designator_production rec parser it e;
       if is_giveup designator
       then Some (parser, it, add_error_state designation
                    (make_error Error it ''expected assignment operator for designator''))
       else do {
         d \<leftarrow> giveup_to_expected parser designator ''designator'';
         designation \<leftarrow> add_state designation d;
         designation_loop k rec parser des_it e designation
       }
     }
     else Some (parser, it, designation)
   }"

definition designation_production :: "nat \<Rightarrow> rules \<Rightarrow> rule" where
  "designation_production fuel rec parser b e =
     (if b \<noteq> e then do {
        (parser, it, designator) \<leftarrow> designator_production rec parser b e;
        if \<not> is_giveup designator then do {
          d \<leftarrow> giveup_to_expected parser designator ''designator'';
          designation \<leftarrow> add_state (ParserSuccess (Some (new_node N_Designation))) d;
          (parser, it, designation) \<leftarrow> designation_loop fuel rec parser it e designation;
          assign \<leftarrow> token_is parser it e (\<lambda>t. t = T_Assign);
          Some (parser, if assign then Suc it else it, designation)
        }
        else giveup parser b e ''designation''
      }
      else giveup parser b e ''designation'')"

definition init_list_production :: "nat \<Rightarrow> rules \<Rightarrow> rule" where
  "init_list_production fuel rec parser b e =
     (if b \<noteq> e then do {
        (parser, des_it, designation) \<leftarrow> designation_production fuel rec parser b e;
        if \<not> is_giveup designation then do {
          (parser, init_it, initializer) \<leftarrow> rec R_initializer parser des_it e;
          init_list \<leftarrow> add_state (ParserSuccess None) designation;
          i \<leftarrow> giveup_to_expected parser initializer ''initializer'';
          init_list \<leftarrow> add_state init_list i;
          Some (parser, init_it, init_list)
        }
        else do {
          (parser, init_it, initializer) \<leftarrow> rec R_initializer parser b e;
          init_list \<leftarrow> add_state (ParserSuccess None) initializer;
          Some (parser, init_it, init_list)
        }
      }
      else giveup parser b e ''initializer list'')"

definition parser_initializer_list :: "nat \<Rightarrow> rules \<Rightarrow> rule" where
  "parser_initializer_list fuel rec parser b e = do {
     (parser, it, inits) \<leftarrow> parser_list_of fuel (init_list_production fuel rec) True parser b e;
     if \<not> is_giveup inits then do {
       init_list \<leftarrow> add_state (ParserSuccess (Some (new_node N_InitializerList))) inits;
       Some (parser, it, init_list)
     }
     else giveup parser b e ''initializer list''
   }"

subsection \<open>Primary and postfix expressions\<close>

definition parser_parens_expr :: "rules \<Rightarrow> rule" where
  "parser_parens_expr rec parser b e = do {
     m \<leftarrow> token_is parser b e (\<lambda>t. t = T_LeftParen);
     if m then do {
       (parser, it, expr) \<leftarrow> rec R_expression parser (Suc b) e;
       (it, expr) \<leftarrow>
         (if \<not> is_giveup expr then do {
            (ok, expr) \<leftarrow> expect_end_token parser expr b e it T_RightParen;
            Some (if ok then it + 1 else it, expr)
          }
          else Some (it, expr));
       expr \<leftarrow> giveup_to_expected parser expr ''expression'';
       Some (parser, it, expr)
     }
     else giveup parser b e ''expression''
   }"

definition parser_primary_expression :: "nat \<Rightarrow> rules \<Rightarrow> rule" where
  "parser_primary_expression fuel rec parser b e =
     parser_one_of parser b e ''primary expression''
       [parser_identifier,
        parser_constant,
        parser_string_literal_list fuel,
        parser_parens_expr rec]"

definition compound_literal_production :: "rules \<Rightarrow> rule" where
  "compound_literal_production rec parser b e =
     (if b \<noteq> e then do {
        (parser, type_it, type_name) \<leftarrow>
          parser_parens (rec R_type_name) T_LeftParen T_RightParen parser b e;
        if \<not> is_giveup type_name then do {
          (parser, init_it, initalizer_list) \<leftarrow>
            parser_parens (rec R_initializer_list) T_LeftBrace T_RightBrace parser type_it e;
          if \<not> is_giveup initalizer_list then do {
            compound_literal \<leftarrow>
              add_state (ParserSuccess (Some (new_node N_CompoundLiteral))) type_name;
            compound_literal \<leftarrow> add_state compound_literal initalizer_list;
            Some (parser, init_it, compound_literal)
          }
          else giveup parser b e ''compound literal''
        }
        else giveup parser b e ''compound literal''
      }
      else giveup parser b e ''compound literal'')"

definition postfix_production :: "nat \<Rightarrow> rules \<Rightarrow> rule" where
  "postfix_production fuel rec parser b e =
     (if b = e then giveup parser b e ''postfix operator''
      else do {
        t \<leftarrow> token_at parser b;
        if ttype t = T_LeftBracket then do {
          (parser, expr_it, expression) \<leftarrow> rec R_expression parser (Suc b) e;
          (ok, expression) \<leftarrow> expect_end_token parser expression b e expr_it T_RightBracket;
          if ok then do {
            x \<leftarrow> giveup_to_expected parser expression ''expression'';
            postfix_op \<leftarrow> add_state (ParserSuccess (Some (new_leaf N_ArraySubscripting t))) x;
            Some (parser, Suc expr_it, postfix_op)
          }
          else Some (parser, expr_it, expression)
        }
        else if ttype t = T_LeftParen then do {
          let postfix_op = ParserSuccess (Some (new_leaf N_FunctionCall t));
          empty \<leftarrow> token_is parser (Suc b) e (\<lambda>t. t = T_RightParen);
          if empty then Some (parser, b + 2, postfix_op)
          else do {
            (parser, arg_it, argument_list) \<leftarrow>
              parser_parens (parser_list_of fuel (rec R_assignment_expression) False)
                T_LeftParen T_RightParen parser b e;
            a \<leftarrow> giveup_to_expected parser argument_list ''argument list'';
            arguments \<leftarrow> add_state (ParserSuccess (Some (new_node N_ArgumentExpressionList))) a;
            postfix_op \<leftarrow> add_state postfix_op arguments;
            Some (parser, arg_it, postfix_op)
          }
        }
        else if ttype t = T_Dot \<or> ttype t = T_RightArrow then do {
          let node_type = (if ttype t = T_Dot then N_MemberAccess else N_PointerMemberAccess);
          (parser, ident_it, identifier) \<leftarrow> parser_identifier parser (Suc b) e;
          postfix_op \<leftarrow> add_state (ParserSuccess (Some (new_leaf node_type t)))
                         (giveup_to_expected0 identifier);
          Some (parser, ident_it, postfix_op)
        }
        else if ttype t = T_Increment \<or> ttype t = T_Decrement then do {
          let node_type = (if ttype t = T_Increment then N_PostfixIncrement
                           else N_PostfixDecrement);
          Some (parser, Suc b, ParserSuccess (Some (new_leaf node_type t)))
        }
        else giveup parser b e ''postfix operator''
      })"

text \<open>
  Every postfix operator takes the expression parsed so far as its last child and
  becomes the expression.
\<close>

fun postfix_loop :: "nat \<Rightarrow> nat \<Rightarrow> rules \<Rightarrow> ParserContext \<Rightarrow> nat \<Rightarrow> nat \<Rightarrow> ParserState \<Rightarrow> ParserResult option" where
  "postfix_loop 0 fuel rec parser it e expr = None"
| "postfix_loop (Suc k) fuel rec parser it e expr = do {
     (parser, op_it, postfix_op) \<leftarrow> postfix_production fuel rec parser it e;
     if \<not> is_giveup postfix_op then do {
       postfix_op \<leftarrow> add_state postfix_op expr;
       postfix_loop k fuel rec parser op_it e postfix_op
     }
     else Some (parser, it, expr)
   }"

definition parser_postfix_expression :: "nat \<Rightarrow> rules \<Rightarrow> rule" where
  "parser_postfix_expression fuel rec parser b e =
     (if b \<noteq> e then do {
        (parser, expr_it, expr) \<leftarrow>
          parser_one_of parser b e ''compound literal or expression''
            [compound_literal_production rec, parser_primary_expression fuel rec];
        if is_giveup expr then Some (parser, e, expr)
        else postfix_loop fuel fuel rec parser expr_it e expr
      }
      else giveup parser b e ''postfix expression'')"

subsection \<open>Unary and cast expressions\<close>

definition incremental_unary_production :: "rules \<Rightarrow> rule" where
  "incremental_unary_production rec parser b e = do {
     (parser, incr_it, incr_op) \<leftarrow>
       parser_operator N_UnaryExpression (\<lambda>t. t = T_Increment \<or> t = T_Decrement) parser b e;
     if \<not> is_giveup incr_op then do {
       (parser, unary_it, unary_expr) \<leftarrow> rec R_unary_expression parser incr_it e;
       u \<leftarrow> giveup_to_expected parser unary_expr ''unary expression'';
       incr_op \<leftarrow> add_state incr_op u;
       Some (parser, unary_it, incr_op)
     }
     else giveup parser b e ''unary operator''
   }"

definition unary_operator_tokens :: "TokenType list" where
  "unary_operator_tokens =
     [T_BitwiseAnd, T_BitwiseNot, T_Times, T_Plus, T_Minus, T_NotEqualTo]"

definition unary_cast_production :: "rules \<Rightarrow> rule" where
  "unary_cast_production rec parser b e = do {
     (parser, unary_it, unary_op) \<leftarrow>
       parser_operator N_UnaryExpression (\<lambda>t. t \<in> set unary_operator_tokens) parser b e;
     if \<not> is_giveup unary_op then do {
       (parser, cast_it, cast_expr) \<leftarrow> rec R_cast_expression parser unary_it e;
       unary_op \<leftarrow> add_state unary_op cast_expr;
       Some (parser, cast_it, unary_op)
     }
     else giveup parser b e ''basic unary expression''
   }"

text \<open>
  The next two local rules read \<^verbatim>\<open>begin->type\<close> with no test that \<open>begin\<close> is not the
  end.
\<close>

definition parens_type_name :: "rules \<Rightarrow> rule" where
  "parens_type_name rec parser b e = do {
     t \<leftarrow> token_at parser b;
     if ttype t = T_LeftParen then do {
       (parser, type_it, type_name) \<leftarrow> rec R_type_name parser (Suc b) e;
       if is_success type_name then do {
         (ok, type_name) \<leftarrow> expect_end_token parser type_name b e type_it T_RightParen;
         Some (parser, if ok then Suc type_it else type_it, type_name)
       }
       else Some (parser, type_it, type_name)
     }
     else giveup parser b e ''type name inside parentheses''
   }"

definition size_of_production :: "rules \<Rightarrow> rule" where
  "size_of_production rec parser b e = do {
     t \<leftarrow> token_at parser b;
     if ttype t = T_Sizeof then do {
       (parser, it, unary_expr) \<leftarrow>
         parser_one_of parser (Suc b) e ''type name, or unary expression''
           [parens_type_name rec, rec R_unary_expression];
       u \<leftarrow> giveup_to_expected parser unary_expr
              ''unary expression or type name inside parentheses'';
       sizeof_op \<leftarrow> add_state (ParserSuccess (Some (new_leaf N_UnaryExpression t))) u;
       Some (parser, it, sizeof_op)
     }
     else if ttype t = T_Alignof then do {
       (parser, it, type_name) \<leftarrow> parens_type_name rec parser (Suc b) e;
       n \<leftarrow> giveup_to_expected parser type_name ''type name inside parentheses'';
       alignof_op \<leftarrow> add_state (ParserSuccess (Some (new_leaf N_UnaryExpression t))) n;
       Some (parser, it, alignof_op)
     }
     else giveup parser b e ''sizeof/alignof expression''
   }"

definition parser_unary_expression :: "nat \<Rightarrow> rules \<Rightarrow> rule" where
  "parser_unary_expression fuel rec parser b e =
     (if b = e then giveup parser b e ''unary expression''
      else parser_one_of parser b e ''unary expression''
             [parser_postfix_expression fuel rec,
              incremental_unary_production rec,
              size_of_production rec,
              unary_cast_production rec])"

text \<open>
  The cast production tests the token after the operand of the cast, not the token after
  the closing parenthesis, against \<^verbatim>\<open>{\<close>.
\<close>

definition cast_production :: "rules \<Rightarrow> rule" where
  "cast_production rec parser b e = do {
     m \<leftarrow> token_is parser b e (\<lambda>t. t = T_LeftParen);
     if m then do {
       (parser, type_it, type_name) \<leftarrow> rec R_type_name parser (Suc b) e;
       if \<not> is_giveup type_name then do {
         (ok, type_name) \<leftarrow> expect_end_token parser type_name b e type_it T_RightParen;
         if ok then do {
           (parser, cast_it, cast_expr) \<leftarrow> rec R_cast_expression parser (Suc type_it) e;
           not_literal \<leftarrow> token_is parser cast_it e (\<lambda>t. t \<noteq> T_LeftBrace);
           if not_literal then do {
             cast \<leftarrow> add_state (ParserSuccess (Some (new_node N_CastExpression))) type_name;
             c \<leftarrow> giveup_to_expected parser cast_expr ''cast expression'';
             cast \<leftarrow> add_state cast c;
             Some (parser, cast_it, cast)
           }
           else giveup parser b e ''cast expression''
         }
         else giveup parser b e ''cast expression''
       }
       else giveup parser b e ''cast expression''
     }
     else giveup parser b e ''cast expression''
   }"

definition parser_cast_expression :: "rules \<Rightarrow> rule" where
  "parser_cast_expression rec parser b e =
     parser_one_of parser b e ''cast or unary expression''
       [cast_production rec, rec R_unary_expression]"

subsection \<open>Binary operators, by precedence\<close>

text \<open>
  Every level from the multiplicative to the logical-or expression has the same shape: a
  left-associative fold of the next tighter level over the operators of the level.
\<close>

definition binary_level :: "string \<Rightarrow> NodeType \<Rightarrow> (TokenType \<Rightarrow> bool) \<Rightarrow> (nat \<Rightarrow> rules \<Rightarrow> rule) \<Rightarrow> nat \<Rightarrow> rules \<Rightarrow> rule" where
  "binary_level name op_type op_match operand fuel rec parser b e =
     (if b \<noteq> e
      then parser_left_binary_operator fuel (operand fuel rec) (parser_operator op_type op_match)
             (operand fuel rec) parser b e
      else giveup parser b e name)"

definition parser_multiplicative_expression :: "nat \<Rightarrow> rules \<Rightarrow> rule" where
  "parser_multiplicative_expression =
     binary_level ''multiplicative expression'' N_MultiplicativeExpression
       (\<lambda>t. t = T_Times \<or> t = T_Divide \<or> t = T_Percent)
       (\<lambda>fuel rec. rec R_cast_expression)"

definition parser_additive_expression :: "nat \<Rightarrow> rules \<Rightarrow> rule" where
  "parser_additive_expression =
     binary_level ''additive expression'' N_AdditiveExpression
       (\<lambda>t. t = T_Plus \<or> t = T_Minus)
       parser_multiplicative_expression"

definition parser_shift_expression :: "nat \<Rightarrow> rules \<Rightarrow> rule" where
  "parser_shift_expression =
     binary_level ''shift expression'' N_ShiftExpression
       (\<lambda>t. t = T_BitwiseLeftShift \<or> t = T_BitwiseRightShift)
       parser_additive_expression"

definition parser_relational_expression :: "nat \<Rightarrow> rules \<Rightarrow> rule" where
  "parser_relational_expression =
     binary_level ''relational expression'' N_RelationalExpression
       (\<lambda>t. t = T_LessThan \<or> t = T_GreaterThan \<or> t = T_LessEqual \<or> t = T_GreaterEqual)
       parser_shift_expression"

definition parser_equality_expression :: "nat \<Rightarrow> rules \<Rightarrow> rule" where
  "parser_equality_expression =
     binary_level ''equality expression'' N_EqualityExpression
       (\<lambda>t. t = T_EqualsTo \<or> t = T_NotEqualTo)
       parser_relational_expression"

definition parser_and_expression :: "nat \<Rightarrow> rules \<Rightarrow> rule" where
  "parser_and_expression =
     binary_level ''and expression'' N_AndExpression
       (\<lambda>t. t = T_BitwiseAnd)
       parser_equality_expression"

definition parser_exclusive_or_expression :: "nat \<Rightarrow> rules \<Rightarrow> rule" where
  "parser_exclusive_or_expression =
     binary_level ''exclusive or expression'' N_ExclusiveOrExpression
       (\<lambda>t. t = T_BitwiseXor)
       parser_and_expression"

definition parser_inclusive_or_expression :: "nat \<Rightarrow> rules \<Rightarrow> rule" where
  "parser_inclusive_or_expression =
     binary_level ''inclusive or expression'' N_InclusiveOrExpression
       (\<lambda>t. t = T_BitwiseOr)
       parser_exclusive_or_expression"

definition parser_logical_and_expression :: "nat \<Rightarrow> rules \<Rightarrow> rule" where
  "parser_logical_and_expression =
     binary_level ''logical and expression'' N_LogicalAndExpression
       (\<lambda>t. t = T_LogicalAnd)
       parser_inclusive_or_expression"

definition parser_logical_or_expression :: "nat \<Rightarrow> rules \<Rightarrow> rule" where
  "parser_logical_or_expression =
     binary_level ''logical or expression'' N_LogicalOrExpression
       (\<lambda>t. t = T_LogicalOr)
       parser_logical_and_expression"

subsection \<open>Conditional, assignment and comma expressions\<close>

definition parser_conditional_expression :: "nat \<Rightarrow> rules \<Rightarrow> rule" where
  "parser_conditional_expression fuel rec parser b e =
     (if b \<noteq> e then do {
        (parser, or_it, or_expr) \<leftarrow> parser_logical_or_expression fuel rec parser b e;
        if \<not> is_giveup or_expr then do {
          question \<leftarrow> token_is parser or_it e (\<lambda>t. t = T_QuestionMark);
          if question then do {
            condition \<leftarrow> add_state (ParserSuccess (Some (new_node N_ConditionalExpression))) or_expr;
            (parser, true_it, true_expr) \<leftarrow> rec R_expression parser (Suc or_it) e;
            x \<leftarrow> giveup_to_expected parser true_expr ''expression'';
            condition \<leftarrow> add_state condition x;
            (ok, condition) \<leftarrow> expect_end_token parser condition or_it e true_it T_Colon;
            if ok then do {
              (parser, false_it, false_expr) \<leftarrow>
                rec R_conditional_expression parser (Suc true_it) e;
              y \<leftarrow> giveup_to_expected parser false_expr ''expression'';
              condition \<leftarrow> add_state condition y;
              Some (parser, false_it, condition)
            }
            else Some (parser, true_it, condition)
          }
          else Some (parser, or_it, or_expr)
        }
        else giveup parser b e ''conditional expression''
      }
      else giveup parser b e ''conditional expression'')"

definition assign_operator_tokens :: "TokenType list" where
  "assign_operator_tokens =
     [T_Assign, T_TimesAssign, T_DivideAssign, T_ModuloAssign, T_PlusAssign, T_MinusAssign,
      T_BitwiseLeftShiftAssign, T_BitwiseRightShiftAssign, T_BitwiseAndAssign,
      T_BitwiseXorAssign, T_BitwiseOrAssign]"

definition assign_operator :: rule where
  "assign_operator =
     parser_operator N_AssignmentExpression (\<lambda>t. t \<in> set assign_operator_tokens)"

definition parser_assignment_expression :: "rules \<Rightarrow> rule" where
  "parser_assignment_expression rec parser b e =
     (if b = e then giveup parser b e ''assignment expression''
      else parser_one_of parser b e ''assignment or conditional expression''
             [parser_right_binary_operator (rec R_unary_expression) assign_operator
                (rec R_assignment_expression),
              rec R_conditional_expression])"

definition parser_expression :: "nat \<Rightarrow> rules \<Rightarrow> rule" where
  "parser_expression fuel rec parser b e =
     (if b \<noteq> e
      then parser_left_binary_operator fuel (rec R_assignment_expression)
             (parser_operator N_Expression (\<lambda>t. t = T_Comma))
             (rec R_assignment_expression) parser b e
      else giveup parser b e ''expression'')"

subsection \<open>Statements\<close>

definition parser_jump_statement :: "rules \<Rightarrow> rule" where
  "parser_jump_statement rec parser b e =
     (if b \<noteq> e then do {
        t \<leftarrow> token_at parser b;
        if ttype t = T_Goto then do {
          (parser, it, ident) \<leftarrow> parser_identifier parser (Suc b) e;
          jump_stmt \<leftarrow> (if is_success ident
                         then add_node (ParserSuccess None) (Some (new_leaf N_JumpStatement t))
                         else Some (ParserSuccess None));
          i \<leftarrow> giveup_to_expected parser ident ''label for goto statement'';
          jump_stmt \<leftarrow> add_state jump_stmt i;
          (ok, jump_stmt) \<leftarrow> expect_token parser jump_stmt it e T_Semicolon;
          Some (parser, if ok then it + 1 else it, jump_stmt)
        }
        else if ttype t = T_Continue \<or> ttype t = T_Break then do {
          let it = Suc b;
          (ok, jump_stmt) \<leftarrow> expect_token parser (ParserSuccess None) it e T_Semicolon;
          jump_stmt \<leftarrow> (if is_success jump_stmt
                         then add_node jump_stmt (Some (new_leaf N_JumpStatement t))
                         else Some jump_stmt);
          Some (parser, if ok then it + 1 else it, jump_stmt)
        }
        else if ttype t = T_Return then do {
          let jump_stmt = ParserSuccess (Some (new_leaf N_JumpStatement t));
          (parser, expr_it, expr) \<leftarrow> rec R_expression parser (Suc b) e;
          (jump_stmt, it) \<leftarrow>
            (if \<not> is_giveup expr then do {
               j \<leftarrow> add_state jump_stmt expr;
               Some (j, expr_it)
             }
             else Some (jump_stmt, Suc b));
          (ok, jump_stmt) \<leftarrow> expect_token parser jump_stmt it e T_Semicolon;
          Some (parser, if ok then it + 1 else it, jump_stmt)
        }
        else giveup parser b e ''jump statement''
      }
      else giveup parser b e ''jump statement'')"

text \<open>
  The local rules of the iteration and the selection statement read \<^verbatim>\<open>begin->type\<close>
  with no test of their own that \<open>begin\<close> is not the end; their give-up has an empty
  message.
\<close>

definition while_statement :: "nat \<Rightarrow> rules \<Rightarrow> rule" where
  "while_statement fuel rec parser b e = do {
     t \<leftarrow> token_at parser b;
     if ttype t = T_While then do {
       (parser, expr_it, expr) \<leftarrow>
         parser_parens (rec R_expression) T_LeftParen T_RightParen parser (Suc b) e;
       x \<leftarrow> giveup_to_expected parser expr ''condition for while-clause'';
       iter_stmt \<leftarrow> add_state (ParserSuccess (Some (new_leaf N_IterationStatement t))) x;
       (parser, stmt_it, statement) \<leftarrow> rec R_statement parser expr_it e;
       s \<leftarrow> giveup_to_expected parser statement ''statement for while-clause'';
       iter_stmt \<leftarrow> add_state iter_stmt s;
       Some (parser, stmt_it, iter_stmt)
     }
     else giveup parser b e ''''
   }"

definition do_while_statement :: "nat \<Rightarrow> rules \<Rightarrow> rule" where
  "do_while_statement fuel rec parser b e = do {
     t \<leftarrow> token_at parser b;
     if ttype t = T_Do then do {
       (parser, stmt_it, statement) \<leftarrow> rec R_statement parser (Suc b) e;
       s \<leftarrow> giveup_to_expected parser statement ''statement for do-while-clause'';
       iter_stmt \<leftarrow> add_state (ParserSuccess (Some (new_leaf N_IterationStatement t))) s;
       (ok, iter_stmt) \<leftarrow> expect_token parser iter_stmt stmt_it e T_While;
       let it = (if ok then stmt_it + 1 else stmt_it);
       (parser, expr_it, expr) \<leftarrow>
         parser_parens (rec R_expression) T_LeftParen T_RightParen parser it e;
       x \<leftarrow> giveup_to_expected parser expr ''condition for do-while-clause'';
       iter_stmt \<leftarrow> add_state iter_stmt x;
       (ok, iter_stmt) \<leftarrow> expect_token parser iter_stmt expr_it e T_Semicolon;
       Some (parser, if ok then expr_it + 1 else expr_it, iter_stmt)
     }
     else giveup parser b e ''''
   }"

text \<open>One clause of a \<^verbatim>\<open>for\<close> statement: an expression, or a \<^verbatim>\<open>Nothing\<close> node.\<close>

definition for_clause :: "rules \<Rightarrow> ParserContext \<Rightarrow> nat \<Rightarrow> nat \<Rightarrow> ParserState \<Rightarrow> ParserResult option" where
  "for_clause rec parser it e expressions = do {
     (parser, expr_it, expr) \<leftarrow> rec R_expression parser it e;
     if \<not> is_giveup expr then do {
       expressions \<leftarrow> add_state expressions expr;
       Some (parser, expr_it, expressions)
     }
     else do {
       expressions \<leftarrow> add_node expressions (Some (new_node N_Nothing));
       Some (parser, it, expressions)
     }
   }"

definition for_exprs_production :: "nat \<Rightarrow> rules \<Rightarrow> rule" where
  "for_exprs_production fuel rec parser b e =
     (if b \<noteq> e then do {
        let expressions = ParserSuccess (Some empty_node);
        (parser, decl_it, declaration) \<leftarrow> parser_declaration fuel rec parser b e;
        (parser, it, expressions) \<leftarrow>
          (if \<not> is_giveup declaration then do {
             expressions \<leftarrow> add_state expressions declaration;
             Some (parser, decl_it, expressions)
           }
           else do {
             (parser, it, expressions) \<leftarrow> for_clause rec parser b e expressions;
             (ok, expressions) \<leftarrow> expect_token parser expressions it e T_Semicolon;
             Some (parser, if ok then it + 1 else it, expressions)
           });
        (parser, it, expressions) \<leftarrow> for_clause rec parser it e expressions;
        (ok, expressions) \<leftarrow> expect_token parser expressions it e T_Semicolon;
        let it = (if ok then it + 1 else it);
        for_clause rec parser it e expressions
      }
      else giveup parser b e '''')"

definition for_statement :: "nat \<Rightarrow> rules \<Rightarrow> rule" where
  "for_statement fuel rec parser b e = do {
     t \<leftarrow> token_at parser b;
     if ttype t = T_For then do {
       (parser, exprs_it, expressions) \<leftarrow>
         parser_parens (for_exprs_production fuel rec) T_LeftParen T_RightParen parser (Suc b) e;
       x \<leftarrow> giveup_to_expected parser expressions (''expressions separated by '' @ quoted '';'');
       iter_stmt \<leftarrow> add_state (ParserSuccess (Some (new_leaf N_IterationStatement t))) x;
       (parser, stmt_it, statement) \<leftarrow> rec R_statement parser exprs_it e;
       s \<leftarrow> giveup_to_expected parser statement ''statement for for-clause'';
       iter_stmt \<leftarrow> add_state iter_stmt s;
       Some (parser, stmt_it, iter_stmt)
     }
     else giveup parser b e ''''
   }"

definition parser_iteration_statement :: "nat \<Rightarrow> rules \<Rightarrow> rule" where
  "parser_iteration_statement fuel rec parser b e =
     (if b \<noteq> e
      then parser_one_of parser b e ''iteration statement''
             [while_statement fuel rec, do_while_statement fuel rec, for_statement fuel rec]
      else giveup parser b e ''iteration statement'')"

definition if_statement :: "rules \<Rightarrow> rule" where
  "if_statement rec parser b e = do {
     t \<leftarrow> token_at parser b;
     if ttype t = T_If then do {
       (parser, expr_it, expression) \<leftarrow>
         parser_parens (rec R_expression) T_LeftParen T_RightParen parser (Suc b) e;
       x \<leftarrow> giveup_to_expected parser expression ''condition for if-clause'';
       if_stmt \<leftarrow> add_state (ParserSuccess (Some (new_leaf N_SelectionStatement t))) x;
       (parser, stmt_it, statement) \<leftarrow> rec R_statement parser expr_it e;
       s \<leftarrow> giveup_to_expected parser statement ''statement for if-clause'';
       if_stmt \<leftarrow> add_state if_stmt s;
       else_tok \<leftarrow> token_is parser stmt_it e (\<lambda>t. t = T_Else);
       if else_tok then do {
         (parser, estmt_it, else_stmt) \<leftarrow> rec R_statement parser (Suc stmt_it) e;
         s \<leftarrow> giveup_to_expected parser else_stmt ''statement for else-clause'';
         if_stmt \<leftarrow> add_state if_stmt s;
         Some (parser, estmt_it, if_stmt)
       }
       else Some (parser, stmt_it, if_stmt)
     }
     else giveup parser b e ''''
   }"

definition switch_statement :: "rules \<Rightarrow> rule" where
  "switch_statement rec parser b e = do {
     t \<leftarrow> token_at parser b;
     if ttype t = T_Switch then do {
       (parser, expr_it, expression) \<leftarrow>
         parser_parens (rec R_expression) T_LeftParen T_RightParen parser (Suc b) e;
       x \<leftarrow> giveup_to_expected parser expression ''expression for switch-clause'';
       switch_stmt \<leftarrow> add_state (ParserSuccess (Some (new_leaf N_SelectionStatement t))) x;
       (parser, stmt_it, statement) \<leftarrow> rec R_statement parser expr_it e;
       s \<leftarrow> giveup_to_expected parser statement ''statement for switch-clause'';
       switch_stmt \<leftarrow> add_state switch_stmt s;
       Some (parser, stmt_it, switch_stmt)
     }
     else giveup parser b e ''''
   }"

definition parser_selection_statement :: "rules \<Rightarrow> rule" where
  "parser_selection_statement rec parser b e =
     (if b \<noteq> e
      then parser_one_of parser b e ''selection statement''
             [if_statement rec, switch_statement rec]
      else giveup parser b e ''selection statement'')"

definition parser_expression_statement :: "rules \<Rightarrow> rule" where
  "parser_expression_statement rec parser b e =
     (if b \<noteq> e then do {
        t \<leftarrow> token_at parser b;
        if ttype t = T_Semicolon
        then Some (parser, Suc b, ParserSuccess (Some (new_leaf N_Nothing t)))
        else do {
          (parser, it, expr) \<leftarrow> rec R_expression parser b e;
          (ok, expr) \<leftarrow> expect_token parser expr it e T_Semicolon;
          Some (parser, if ok then it + 1 else it, expr)
        }
      }
      else giveup parser b e ''expression statement'')"

definition decl_or_stmt :: "nat \<Rightarrow> rules \<Rightarrow> rule" where
  "decl_or_stmt fuel rec parser b e =
     parser_one_of parser b e ''declaration or statement''
       [parser_declaration fuel rec, rec R_statement]"

definition block_item_list_production :: "nat \<Rightarrow> rules \<Rightarrow> rule" where
  "block_item_list_production fuel rec parser b e = do {
     (parser, it, block_item_list) \<leftarrow>
       parser_one_many_of fuel ''list of block items inside compound statement''
         (decl_or_stmt fuel rec) parser b e;
     if is_giveup block_item_list
     then Some (parser, b, ParserSuccess (Some (new_node N_Nothing)))
     else Some (parser, it, block_item_list)
   }"

definition parser_compound_statement :: "nat \<Rightarrow> rules \<Rightarrow> rule" where
  "parser_compound_statement fuel rec parser b e = do {
     m \<leftarrow> token_is parser b e (\<lambda>t. t = T_LeftBrace);
     if m then do {
       t \<leftarrow> token_at parser b;
       (parser, it, items) \<leftarrow>
         parser_parens (block_item_list_production fuel rec) T_LeftBrace T_RightBrace parser b e;
       compound_stmt \<leftarrow> (if is_success items
                          then add_node (ParserSuccess None)
                                 (Some (new_leaf N_CompoundStatement t))
                          else Some (ParserSuccess None));
       compound_stmt \<leftarrow> add_state compound_stmt (giveup_to_expected0 items);
       Some (parser, it, compound_stmt)
     }
     else giveup parser b e ''compound statement''
   }"

definition parser_labeled_statement :: "rules \<Rightarrow> rule" where
  "parser_labeled_statement rec parser b e =
     (if b \<noteq> e then do {
        t \<leftarrow> token_at parser b;
        if ttype t = T_Case then do {
          (parser, expr_it, expr) \<leftarrow> parser_constant_expression rec parser (Suc b) e;
          (ok, expr) \<leftarrow> expect_token parser expr expr_it e T_Colon;
          let expr_it = (if ok then expr_it + 1 else expr_it);
          (parser, stmt_it, statement) \<leftarrow> rec R_statement parser expr_it e;
          label_stmt \<leftarrow> (if is_success expr \<and> is_success statement
                          then add_node (ParserSuccess None)
                                 (Some (new_leaf N_LabeledStatement t))
                          else Some (ParserSuccess None));
          x \<leftarrow> giveup_to_expected parser expr ''constant expression for case-label'';
          label_stmt \<leftarrow> add_state label_stmt x;
          s \<leftarrow> giveup_to_expected parser statement ''statement after case-label'';
          label_stmt \<leftarrow> add_state label_stmt s;
          Some (parser, stmt_it, label_stmt)
        }
        else if ttype t = T_Default then do {
          let label_stmt = ParserSuccess (Some (new_leaf N_LabeledStatement t));
          (ok, label_stmt) \<leftarrow> expect_token parser label_stmt (Suc b) e T_Colon;
          let it = (if ok then Suc b + 1 else Suc b);
          (parser, stmt_it, statement) \<leftarrow> rec R_statement parser it e;
          s \<leftarrow> giveup_to_expected parser statement ''statement after default-label'';
          label_stmt \<leftarrow> add_state label_stmt s;
          Some (parser, stmt_it, label_stmt)
        }
        else do {
          colon \<leftarrow> (if ttype t = T_Identifier
                     then token_is parser (Suc b) e (\<lambda>t. t = T_Colon)
                     else Some False);
          if colon then do {
            (parser, stmt_it, statement) \<leftarrow> rec R_statement parser (b + 2) e;
            label_stmt \<leftarrow> (if is_success statement
                            then add_node (ParserSuccess None)
                                   (Some (new_leaf N_LabeledStatement t))
                            else Some (ParserSuccess None));
            s \<leftarrow> giveup_to_expected parser statement ''statement after label'';
            label_stmt \<leftarrow> add_state label_stmt s;
            Some (parser, stmt_it, label_stmt)
          }
          else giveup parser b e ''labeled statement''
        }
      }
      else giveup parser b e ''labeled statement'')"

definition parser_statement :: "nat \<Rightarrow> rules \<Rightarrow> rule" where
  "parser_statement fuel rec parser b e =
     parser_one_of parser b e ''statement''
       [parser_labeled_statement rec,
        parser_compound_statement fuel rec,
        parser_expression_statement rec,
        parser_selection_statement rec,
        parser_iteration_statement fuel rec,
        parser_jump_statement rec]"

subsection \<open>Function definitions and the compilation unit\<close>

definition declaration_list :: "nat \<Rightarrow> rules \<Rightarrow> rule" where
  "declaration_list fuel rec parser b e = do {
     (parser, it, decls) \<leftarrow>
       parser_one_many_of fuel ''declarations'' (parser_declaration fuel rec) parser b e;
     if is_success decls then do {
       decl_list \<leftarrow> add_state (ParserSuccess (Some (new_node N_DeclarationList))) decls;
       Some (parser, it, decl_list)
     }
     else Some (parser, it, decls)
   }"

definition parser_function_definition :: "nat \<Rightarrow> rules \<Rightarrow> rule" where
  "parser_function_definition fuel rec parser b e =
     (if b \<noteq> e then do {
        (parser, declspecs_it, declspecs) \<leftarrow> rec R_declaration_specifiers parser b e;
        if is_giveup declspecs then Some (parser, declspecs_it, declspecs)
        else do {
          (parser, decl_it, declarator) \<leftarrow> rec R_declarator parser declspecs_it e;
          if is_giveup declarator then Some (parser, decl_it, declarator)
          else do {
            (parser, decls_it, decls) \<leftarrow> declaration_list fuel rec parser decl_it e;
            let declarations = (if \<not> is_giveup decls then Some decls else None);
            let it = (if \<not> is_giveup decls then decls_it else decl_it);
            (parser, comp_it, compound_stmt) \<leftarrow> parser_compound_statement fuel rec parser it e;
            func_def \<leftarrow> (if is_success declarator \<and> is_success compound_stmt
                          then add_node (ParserSuccess None)
                                 (Some (new_node N_FunctionDefinition))
                          else Some (ParserSuccess None));
            func_def \<leftarrow> add_state func_def declspecs;
            func_def \<leftarrow> add_state func_def declarator;
            func_def \<leftarrow> add_state func_def compound_stmt;
            func_def \<leftarrow> (case declarations of
                           Some d \<Rightarrow> add_state func_def d
                         | None \<Rightarrow> Some func_def);
            Some (parser, comp_it, func_def)
          }
        }
      }
      else giveup parser b e ''function definition'')"

fun compilation_unit_loop :: "nat \<Rightarrow> nat \<Rightarrow> rules \<Rightarrow> ParserContext \<Rightarrow> nat \<Rightarrow> nat \<Rightarrow> ParserState \<Rightarrow> ParserResult option" where
  "compilation_unit_loop 0 fuel rec parser it e compilation_unit = None"
| "compilation_unit_loop (Suc k) fuel rec parser it e compilation_unit =
     (if it \<noteq> e then do {
        t \<leftarrow> token_at parser it;
        if ttype t = T_Eof then Some (parser, it + 1, compilation_unit)
        else if ttype t = T_Semicolon
        then compilation_unit_loop k fuel rec parser (it + 1) e compilation_unit
        else do {
          (parser, next_it, extern_decl) \<leftarrow>
            parser_one_of parser it e ''external declaration''
              [parser_function_definition fuel rec, parser_declaration fuel rec];
          compilation_unit \<leftarrow> add_state compilation_unit (giveup_to_expected0 extern_decl);
          compilation_unit_loop k fuel rec parser next_it e compilation_unit
        }
      }
      else Some (parser, it, compilation_unit))"

definition parser_compilation_unit :: "nat \<Rightarrow> rules \<Rightarrow> rule" where
  "parser_compilation_unit fuel rec parser b e =
     (if b \<noteq> e then do {
        t \<leftarrow> token_at parser b;
        let compilation_unit = ParserSuccess (Some (new_node N_CompilationUnit));
        if ttype t \<noteq> T_Eof
        then compilation_unit_loop fuel fuel rec parser b e compilation_unit
        else Some (parser, b + 1, compilation_unit)
      }
      else giveup parser b e ''compilation unit'')"

subsection \<open>The recursive rules\<close>

text \<open>
  \<open>run n\<close> is the table of the recursive rules with \<open>n\<close> nested calls through the table
  left, and \<open>n\<close> iterations for every loop.
\<close>

primrec run :: "nat \<Rightarrow> rules" where
  "run 0 = (\<lambda>r parser b e. None)"
| "run (Suc n) = (\<lambda>r.
     case r of
       R_declaration_specifiers \<Rightarrow> parser_declaration_specifiers n (run n)
     | R_declarator \<Rightarrow> parser_declarator n (run n)
     | R_abstract_declarator \<Rightarrow> parser_abstract_declarator n (run n)
     | R_pointer \<Rightarrow> parser_pointer n (run n)
     | R_type_name \<Rightarrow> parser_type_name n (run n)
     | R_struct_or_union_specifier \<Rightarrow> parser_struct_or_union_specifier n (run n)
     | R_enum_specifier \<Rightarrow> parser_enum_specifier n (run n)
     | R_initializer \<Rightarrow> parser_initializer (run n)
     | R_initializer_list \<Rightarrow> parser_initializer_list n (run n)
     | R_unary_expression \<Rightarrow> parser_unary_expression n (run n)
     | R_cast_expression \<Rightarrow> parser_cast_expression (run n)
     | R_conditional_expression \<Rightarrow> parser_conditional_expression n (run n)
     | R_assignment_expression \<Rightarrow> parser_assignment_expression (run n)
     | R_expression \<Rightarrow> parser_expression n (run n)
     | R_statement \<Rightarrow> parser_statement n (run n))"

section \<open>Entry point\<close>

text \<open>
  After the parse, every entry of a failure whose iterator is not the end of the tokens
  is sent to the program: a note for an \<^verbatim>\<open>ErrorNote\<close>, an error otherwise.
\<close>

fun emit_failures :: "ParserContext \<Rightarrow> nat \<Rightarrow> ParserError list \<Rightarrow> ParserContext option" where
  "emit_failures parser e [] = Some parser"
| "emit_failures parser e (fail # fails) =
     (if where_it fail \<noteq> e then do {
        parser \<leftarrow> (if status fail = ErrorNote
                    then emit Note parser (where_it fail) (error fail)
                    else emit Err parser (where_it fail) (error fail));
        emit_failures parser e fails
      }
      else emit_failures parser e fails)"

text \<open>
  \<^verbatim>\<open>SyntaxTree::parse\<close> returns the tree, or null; the model returns the diagnostics that
  the program has received as well. \<^verbatim>\<open>Ensures(it == tokens.end())\<close> is the result \<open>None\<close>.
\<close>

definition parse :: "nat \<Rightarrow> ParserContext \<Rightarrow> (SyntaxTree option \<times> Diagnostic list) option" where
  "parse fuel program = do {
     let e = length (token_stream program);
     (parser, it, ast) \<leftarrow> parser_compilation_unit fuel (run fuel) program 0 e;
     let ast = giveup_to_expected0 ast;
     if it \<noteq> e then None
     else case ast of
       ParserSuccess tree \<Rightarrow> Some (tree, diagnostics parser)
     | ParserFailure fails \<Rightarrow> do {
         parser \<leftarrow> emit_failures parser e fails;
         Some (None, diagnostics parser)
       }
   }"

section \<open>Auxiliary notions for the properties\<close>

definition errors_of :: "ParserState \<Rightarrow> ParserError list" where
  "errors_of state = (case state of ParserFailure errs \<Rightarrow> errs | ParserSuccess t \<Rightarrow> [])"

text \<open>
  The node kinds whose name ends in \<open>List\<close>, and the kinds that the specification lists
  as preserved: every list kind and nine further kinds (two of which are list kinds).
\<close>

definition list_types :: "NodeType list" where
  "list_types =
     [N_GenericAssocList, N_ArgumentExpressionList, N_InitDeclaratorList,
      N_StructDeclarationList, N_SpecifierQualifierList, N_StructDeclaratorList,
      N_EnumeratorList, N_TypeQualifierList, N_ParameterTypeList, N_ParameterList,
      N_IdentifierList, N_InitializerList, N_DesignatorList, N_BlockItemList,
      N_DeclarationList, N_StringLiteralList]"

definition spec_preserved_types :: "NodeType list" where
  "spec_preserved_types =
     list_types @
     [N_Declaration, N_DeclarationSpecifiers, N_ParameterTypeList, N_ParameterList,
      N_FunctionSpecifier, N_AlignmentSpecifier, N_TranslationUnit, N_CompilationUnit,
      N_FunctionDeclarator]"

text \<open>
  The diagnostic that \<^verbatim>\<open>SyntaxTree::parse\<close> sends for one entry of the final failure: a
  note for an \<^verbatim>\<open>ErrorNote\<close> and an error otherwise, at the token of the entry, with the
  message of the entry. It is \<open>None\<close> when the source manager does not resolve the token.
\<close>

definition diagnostic_of :: "ParserContext \<Rightarrow> ParserError \<Rightarrow> Diagnostic option" where
  "diagnostic_of parser fail =
     map_option (\<lambda>i. Diagnostic (if status fail = ErrorNote then Note else Err) i (error fail))
       (token_info parser (where_it fail))"

subsection \<open>Trees without elidable nodes\<close>

text \<open>
  All the nodes of a tree, the root first. A tree is settled when no node below its root is a
  candidate to elision; a state is good when its tree, if it has one, is settled, and a unit
  state is a failure or a tree whose root is a compilation unit.
\<close>

fun nodes :: "SyntaxTree \<Rightarrow> SyntaxTree list" where
  "nodes (SyntaxTree t tok cs a) = SyntaxTree t tok cs a # concat (map nodes cs)"

fun settled :: "SyntaxTree \<Rightarrow> bool" where
  "settled (SyntaxTree t tok cs a) = (\<forall>c\<in>set cs. \<not> should_elide c \<and> settled c)"

fun good_state :: "ParserState \<Rightarrow> bool" where
  "good_state (ParserSuccess (Some t)) = settled t"
| "good_state (ParserSuccess None) = True"
| "good_state (ParserFailure errs) = True"

fun unit_state :: "ParserState \<Rightarrow> bool" where
  "unit_state (ParserSuccess (Some t)) = (node_type t = N_CompilationUnit)"
| "unit_state (ParserSuccess None) = False"
| "unit_state (ParserFailure errs) = True"

text \<open>
  \<open>ret m Q\<close>: when the computation \<open>m\<close> returns, its result satisfies \<open>Q\<close>. A rule is good when
  the states it returns are good.
\<close>

definition ret :: "'a option \<Rightarrow> ('a \<Rightarrow> bool) \<Rightarrow> bool" where
  "ret m Q = (\<forall>x. m = Some x \<longrightarrow> Q x)"

definition good_rule :: "rule \<Rightarrow> bool" where
  "good_rule r = (\<forall>parser b e. ret (r parser b e) (\<lambda>(p, it, s). good_state s))"

definition good_rules :: "rules \<Rightarrow> bool" where
  "good_rules rec = (\<forall>r. good_rule (rec r))"

subsection \<open>Example programs\<close>

text \<open>
  Tokens laid out one after the other with a blank between them, on one line that ends
  with a newline; the text of a token is its range in that line.
\<close>

fun place :: "nat \<Rightarrow> (TokenType \<times> string) list \<Rightarrow> TokenData list" where
  "place off [] = []"
| "place off ((t, s) # xs) =
     TokenData t (SourceRange off (off + length s)) # place (off + length s + 1) xs"

definition spaced :: "(TokenType \<times> string) list \<Rightarrow> string" where
  "spaced xs = concat (map (\<lambda>(t, s). s @ '' '') xs) @ [CHR 0x0A]"

text \<open>
  Modelled from the spec: the messages that the specification quotes print a punctuator
  as its spelling (\<^verbatim>\<open>expected ')'\<close>, \<^verbatim>\<open>to match this '('\<close>); this table of
  \<^verbatim>\<open>to_string(TokenType)\<close> covers the tokens of the examples.
\<close>

definition spelling :: "TokenType \<Rightarrow> string" where
  "spelling t =
     (if t = T_LeftParen then ''(''
      else if t = T_RightParen then '')''
      else if t = T_LeftBrace then ''{''
      else if t = T_RightBrace then ''}''
      else if t = T_LeftBracket then ''[''
      else if t = T_RightBracket then '']''
      else if t = T_Semicolon then '';''
      else if t = T_Eof then ''eof''
      else ''token'')"

definition closed_contains :: "SourceRange \<Rightarrow> nat \<Rightarrow> bool" where
  "closed_contains r loc = (range_begin r \<le> loc \<and> loc \<le> range_end r)"

definition program_of :: "(TokenType \<times> string) list \<Rightarrow> ParserContext" where
  "program_of xs =
     \<lparr> diagnostics = [], opts_pedantic = False, token_stream = place 0 xs,
       source_manager = \<lparr> content = spaced xs,
                          line_offsets = [SourceRange 0 (length (spaced xs) - 1)] \<rparr>,
       is_inside_specifiers = False, to_string_token = spelling,
       range_contains = closed_contains, past_the_end = None \<rparr>"




definition ex_decl :: "(TokenType \<times> string) list" where
  "ex_decl = [(T_IntType, ''int''), (T_Identifier, ''x''), (T_Semicolon, '';''), (T_Eof, '''')]"

text \<open>The tree of the translation unit \<open>int x ;\<close>.\<close>

definition ex_decl_tree :: SyntaxTree where
  "ex_decl_tree =
     SyntaxTree N_CompilationUnit None
       [SyntaxTree N_Declaration None
          [SyntaxTree N_DeclarationSpecifiers None
             [SyntaxTree N_TypeSpecifier (Some (TokenData T_IntType (SourceRange 0 3))) [] False]
             False,
           SyntaxTree N_Identifier (Some (TokenData T_Identifier (SourceRange 4 5))) [] False]
          False]
       False"

definition ex_while_eof :: "(TokenType \<times> string) list" where
  "ex_while_eof = [(T_While, ''while''), (T_Eof, '''')]"

definition ex_paren_plus :: "(TokenType \<times> string) list" where
  "ex_paren_plus =
     [(T_LeftParen, ''(''), (T_Identifier, ''a''), (T_Plus, ''+''), (T_Eof, '''')]"


definition ex_while :: "(TokenType \<times> string) list" where
  "ex_while =
     [(T_While, ''while''), (T_LeftParen, ''(''), (T_Identifier, ''x''), (T_LeftBrace, ''{''),
      (T_RightBrace, ''}''), (T_Eof, '''')]"

definition ex_empty_parens :: "(TokenType \<times> string) list" where
  "ex_empty_parens = [(T_LeftParen, ''(''), (T_RightParen, '')''), (T_Eof, '''')]"

definition ex_open_paren :: "(TokenType \<times> string) list" where
  "ex_open_paren = [(T_LeftParen, ''(''), (T_Identifier, ''x'')]"

definition ex_array_plus :: "(TokenType \<times> string) list" where
  "ex_array_plus =
     [(T_IntType, ''int''), (T_Identifier, ''a''), (T_LeftBracket, ''[''),
      (T_Identifier, ''x''), (T_Plus, ''+''), (T_Eof, '''')]"

definition ex_eof_first :: "(TokenType \<times> string) list" where
  "ex_eof_first = [(T_Eof, ''''), (T_Semicolon, '';'')]"

definition ex_while_plus :: "(TokenType \<times> string) list" where
  "ex_while_plus =
     [(T_VoidType, ''void''), (T_Identifier, ''f''), (T_LeftParen, ''(''), (T_RightParen, '')''),
      (T_LeftBrace, ''{''), (T_While, ''while''), (T_LeftParen, ''(''), (T_Identifier, ''a''),
      (T_Plus, ''+''), (T_Eof, '''')]"

definition ex_call :: "(TokenType \<times> string) list" where
  "ex_call =
     [(T_Identifier, ''f''), (T_LeftParen, ''(''), (T_RightParen, '')''), (T_Semicolon, '';''),
      (T_Identifier, ''g''), (T_LeftParen, ''(''), (T_Identifier, ''x''), (T_RightParen, '')''),
      (T_Semicolon, '';''), (T_Eof, '''')]"

definition ex_typedef_use :: "(TokenType \<times> string) list" where
  "ex_typedef_use =
     [(T_Identifier, ''size_t''), (T_Identifier, ''n''), (T_Semicolon, '';''), (T_Eof, '''')]"


section \<open>Evaluation\<close>

text \<open>
  The definitions of the model, for the evaluation of concrete parses by the simplifier.
  The unfolding of \<open>run\<close> and of the loops at a numeral applies to a call with all its
  arguments only, and \<open>bind_weak_cong\<close> makes the simplifier evaluate a bind from left
  to right.
\<close>

lemmas all_defs =   to_string_node_def new_node_def new_leaf_def empty_node_def has_text_def child_count_def 
  make_error_def add_errors_def preserved_types_def should_elide_def find_newline_def 
  new_line_cache_def linecol_from_location_def token_at_def token_is_def string_ref_def 
  token_info_def emit_def quoted_def expected_own_def giveup_def parser_one_many_of_def 
  parser_one_many_of_pred_def parser_operator_def operator_message_def 
  parser_left_binary_operator_def parser_right_binary_operator_def parser_opt_def 
  expect_token_def expect_end_token_def parser_parens_def parser_list_of_def token_prev_def 
  parser_identifier_def parser_string_literal_def parser_string_literal_list_def 
  const_type_def parser_constant_def parser_parameter_declaration_def 
  parser_parameter_type_list_def parser_typedef_name_def parser_atomic_type_specifier_def 
  basic_type_tokens_def parser_type_specifier_def type_qualifier_tokens_def 
  parser_type_qualifier_def parser_type_qualifier_list_def parser_pointer_def 
  abstract_function_declarator_def array_declarator_def abstract_array_declarator_def 
  parser_direct_abstract_declarator_def parser_abstract_declarator_def 
  parser_specifier_qualifier_list_def parser_type_name_def parser_constant_expression_def 
  static_assert_args_production_def parser_static_assert_declaration_def 
  direct_array_declarator_def ident_or_decl_production_def parser_direct_declarator_def 
  parser_is_declarator_def parser_declarator_def parser_init_declarator_def 
  parser_init_declarator_list_def storage_class_tokens_def 
  parser_storage_class_specifier_def parser_function_specifier_def 
  alignas_arg_production_def parser_alignment_specifier_def 
  parser_declaration_specifier_def parser_declaration_specifiers_def parser_declaration_def 
  parser_enumeration_constant_def enumerator_production_def enum_list_production_def 
  missing_semicolon_def parser_enum_specifier_def struct_declarator_def 
  struct_declaration_def struct_decl_list_production_def 
  parser_struct_or_union_specifier_def parser_initializer_def designator_production_def 
  designation_production_def init_list_production_def parser_initializer_list_def 
  parser_parens_expr_def parser_primary_expression_def compound_literal_production_def 
  postfix_production_def parser_postfix_expression_def incremental_unary_production_def 
  unary_operator_tokens_def unary_cast_production_def parens_type_name_def 
  size_of_production_def parser_unary_expression_def cast_production_def 
  parser_cast_expression_def binary_level_def parser_multiplicative_expression_def 
  parser_additive_expression_def parser_shift_expression_def 
  parser_relational_expression_def parser_equality_expression_def parser_and_expression_def 
  parser_exclusive_or_expression_def parser_inclusive_or_expression_def 
  parser_logical_and_expression_def parser_logical_or_expression_def 
  parser_conditional_expression_def assign_operator_tokens_def assign_operator_def 
  parser_assignment_expression_def parser_expression_def parser_jump_statement_def 
  while_statement_def do_while_statement_def for_clause_def for_exprs_production_def 
  for_statement_def parser_iteration_statement_def if_statement_def switch_statement_def 
  parser_selection_statement_def parser_expression_statement_def decl_or_stmt_def 
  block_item_list_production_def parser_compound_statement_def parser_labeled_statement_def 
  parser_statement_def declaration_list_def parser_function_definition_def 
  parser_compilation_unit_def parse_def errors_of_def 

lemmas example_defs = program_of_def spaced_def spelling_def closed_contains_def

lemma bind_weak_cong: "x = y \<Longrightarrow> Option.bind x f = Option.bind y f"
  by simp

lemma run_applied: "run (numeral k) r parser b e = run (Suc (pred_numeral k)) r parser b e"
  by (simp only: numeral_eq_Suc)

lemmas run_num = run_applied[unfolded run.simps]

lemmas loops_num =
  left_binary_loop.simps(2)[where k = "pred_numeral n" for n, folded numeral_eq_Suc]
  postfix_loop.simps(2)[where k = "pred_numeral n" for n, folded numeral_eq_Suc]
  one_many_of_loop.simps(2)[where k = "pred_numeral n" for n, folded numeral_eq_Suc]
  one_many_of_pred_loop.simps(2)[where k = "pred_numeral n" for n, folded numeral_eq_Suc]
  list_of_loop.simps(2)[where k = "pred_numeral n" for n, folded numeral_eq_Suc]
  parameter_list_loop.simps(2)[where k = "pred_numeral n" for n, folded numeral_eq_Suc]
  direct_abstract_declarator_loop.simps(2)[where k = "pred_numeral n" for n, folded numeral_eq_Suc]
  direct_declarator_loop.simps(2)[where k = "pred_numeral n" for n, folded numeral_eq_Suc]
  specifier_qualifier_loop.simps(2)[where k = "pred_numeral n" for n, folded numeral_eq_Suc]
  designation_loop.simps(2)[where k = "pred_numeral n" for n, folded numeral_eq_Suc]
  compilation_unit_loop.simps(2)[where k = "pred_numeral n" for n, folded numeral_eq_Suc]

lemma node_type_names_length: "length node_type_names = 100"
  by (simp add: node_type_names_def)

lemmas eval = all_defs example_defs run_num loops_num Let_def node_type_names_length

section \<open>The state algebra\<close>

text \<open>
  Claim C3. A parser state is a variant, so a success never carries errors. Adding an
  error to a success replaces it with a failure that holds exactly that error; adding an
  error to a failure appends it; adding a sequence of errors, or the errors of another
  state, appends them in order; the result of adding an error is never a success; and
  every state is either a success without errors or a failure.
\<close>

theorem add_error_pure:
  "add_error (ParserSuccess t) err = ParserFailure [err]
   \<and> add_error (ParserFailure errs) err = ParserFailure (errs @ [err])
   \<and> is_success (add_error state err) = False
   \<and> errors_of (add_error state err) = errors_of state @ [err]
   \<and> errors_of (add_errors state errs') = errors_of state @ errs'
   \<and> is_success (add_errors state errs') = (is_success state \<and> errs' = [])
   \<and> add_state state (ParserFailure errs') = Some (add_errors state errs')
   \<and> ((is_success state \<and> errors_of state = []) \<or> (\<exists>es. state = ParserFailure es))"
proof -
  have a: "\<And>s. errors_of (add_error s err) = errors_of s @ [err]" for err
    by (case_tac s) (simp_all add: errors_of_def)
  have b: "\<And>s. is_success (add_error s err) = False" for err
    by (case_tac s) simp_all
  have c: "errors_of (add_errors s es) = errors_of s @ es" for s es
    by (induction es arbitrary: s) (simp_all add: add_errors_def a)
  have d: "is_success (add_errors s es) = (is_success s \<and> es = [])" for s es
    by (induction es arbitrary: s) (simp_all add: add_errors_def b)
  show ?thesis
    using a b c d by (cases state) (simp_all add: errors_of_def)
qed

section \<open>Typedef names\<close>

text \<open>
  Claim C7. \<^verbatim>\<open>parser_typedef_name\<close> returns a give-up for every input, so it never
  produces a \<^verbatim>\<open>TypedefName\<close> node; and the type specifier gives up at an identifier: no
  alternative of the type specifier matches a typedef'd name.
\<close>

theorem typedef_name_gives_up:
  "parser_typedef_name parser b e = Some (parser, e, make_error GiveUp b ''typedef name'')
   \<and> (b \<noteq> e \<longrightarrow> map_option ttype (token_at parser b) = Some T_Identifier \<longrightarrow>
        parser_type_specifier (run (Suc n)) parser b e
          = Some (parser, e, make_error GiveUp b ''type specifier''))"
  by (auto simp add: all_defs cong: bind_weak_cong)

theorem typedef_name_gives_up_witness:
  "4 \<noteq> (0::nat) \<and> map_option ttype (token_at (program_of ex_typedef_use) 0) = Some T_Identifier
   \<and> parser_type_specifier (run (Suc 0)) (program_of ex_typedef_use) 0 4
       = Some (program_of ex_typedef_use, 4, make_error GiveUp 0 ''type specifier'')"
  using typedef_name_gives_up [of "program_of ex_typedef_use" 0 4 0]
  by (simp add: token_at_def example_defs ex_typedef_use_def)

section \<open>The line cache of the source manager\<close>

lemma find_newline_bounds:
  "i \<le> length buf \<Longrightarrow> i \<le> find_newline buf i \<and> find_newline buf i \<le> length buf"
  unfolding find_newline_def
  using length_takeWhile_le [of "\<lambda>c. c \<noteq> CHR 0x0A" "drop i buf"] by simp

lemma find_newline_hit:
  assumes "i \<le> length buf" "find_newline buf i < length buf"
  shows "buf ! find_newline buf i = CHR 0x0A"
proof -
  let ?p = "\<lambda>c. c \<noteq> CHR 0x0A"
  let ?n = "length (takeWhile ?p (drop i buf))"
  have "?n < length (drop i buf)" using assms by (simp add: find_newline_def)
  then have "\<not> ?p (drop i buf ! ?n)" by (rule nth_length_takeWhile)
  moreover have "drop i buf ! ?n = buf ! (i + ?n)" using assms by simp
  ultimately show ?thesis by (simp add: find_newline_def)
qed

lemma line_cache_past_end:
  assumes "le \<noteq> length buf" "buf \<noteq> []" "last buf \<noteq> CHR 0x0A"
  shows "SourceLineCache buf lb le offs = None"
  using assms
proof (induction buf lb le offs rule: SourceLineCache.induct)
  case (1 buf line_begin line_end offsets)
  show ?case
  proof (cases "line_end > length buf")
    case True
    then show ?thesis by (simp add: SourceLineCache.simps)
  next
    case False
    with "1.prems" have lt: "line_end < length buf" by simp
    let ?e = "find_newline buf line_end"
    have b: "line_end \<le> ?e" "?e \<le> length buf"
      using find_newline_bounds [of line_end buf] lt by simp_all
    have "?e + 1 \<noteq> length buf"
    proof
      assume eq: "?e + 1 = length buf"
      then have "buf ! ?e = CHR 0x0A" using find_newline_hit [of line_end buf] lt by simp
      moreover have "length buf - 1 = ?e" using eq by arith
      then have "last buf = buf ! ?e" using last_conv_nth [of buf] "1.prems"(2) by metis
      ultimately show False using "1.prems" by simp
    qed
    then have "SourceLineCache buf (?e + 1) (?e + 1) (offsets @ [SourceRange line_begin ?e]) = None"
      using "1.IH" [of ?e] "1.prems" lt by simp
    then show ?thesis using lt by (subst SourceLineCache.simps) (simp add: Let_def)
  qed
qed

text \<open>
  Claim C9. The constructor of the line cache records the last line of a buffer that
  does not end with a newline, and then moves \<^verbatim>\<open>line_end\<close> one past the end of the
  buffer, where the test \<^verbatim>\<open>line_end != range.end()\<close> of the loop still holds: the next
  \<^verbatim>\<open>std::find_if\<close> starts outside the buffer. So for every non-empty buffer whose last
  character is not a newline the construction does not return a line cache.
\<close>

theorem line_cache_lacks_final_newline:
  "buf \<noteq> [] \<Longrightarrow> last buf \<noteq> CHR 0x0A \<Longrightarrow> new_line_cache buf = None"
  unfolding new_line_cache_def by (rule line_cache_past_end) simp_all

theorem line_cache_lacks_final_newline_witness:
  "''ab'' \<noteq> [] \<and> last ''ab'' \<noteq> CHR 0x0A \<and> new_line_cache ''ab'' = None"
  using line_cache_lacks_final_newline [of "''ab''"] by simp

lemma line_cache_with_newline:
  "new_line_cache (''ab'' @ [CHR 0x0A]) = Some [SourceRange 0 2]"
  by (simp add: new_line_cache_def SourceLineCache.simps find_newline_def)


section \<open>Parenthesised rules (claim C6)\<close>

text \<open>
  Claim C6, as the code has it. \<open>parser_parens\<close> gives up at \<open>begin\<close> (reporting the end
  iterator and no tree) unless the current token is the open token. With the open token
  consumed, a give-up of the inner rule is returned as it is, iterator and state: the open token
  does not commit. When the inner rule did not give up and stopped at the end of the tokens, its
  result is returned as it is: the close token is not looked for. When it did not give up and
  stopped before the end: a current token other than the close token adds an \<open>Error\<close> at the
  current token, "expected '<close>'", and an \<open>ErrorNote\<close> at the open token,
  "to match this '<open>'", and leaves the iterator in place; a close token is consumed and
  the state of the rule is returned unchanged.
\<close>

theorem parser_parens_close:
  "(token_is parser b e (\<lambda>t. t = left_brace) = Some False \<longrightarrow>
      parser_parens rule left_brace right_brace parser b e
        = Some (parser, e, make_error GiveUp b (quoted (to_string_token parser left_brace))))
   \<and> (token_is parser b e (\<lambda>t. t = left_brace) = Some True \<longrightarrow>
      rule parser (Suc b) e = Some (p', it, state) \<longrightarrow> \<not> is_giveup state \<longrightarrow> it \<noteq> e \<longrightarrow>
      token_at p' it = Some t \<longrightarrow> ttype t \<noteq> right_brace \<longrightarrow> token_at p' b = Some open_tok \<longrightarrow>
      parser_parens rule left_brace right_brace parser b e
        = Some (p', it,
            add_error
              (add_error state
                 (ParserError Error it (''expected '' @ quoted (to_string_token p' right_brace))))
              (ParserError ErrorNote b
                 (''to match this '' @ quoted (to_string_token p' (ttype open_tok))))))
   \<and> (token_is parser b e (\<lambda>t. t = left_brace) = Some True \<longrightarrow>
      rule parser (Suc b) e = Some (p', it, state) \<longrightarrow> \<not> is_giveup state \<longrightarrow> it \<noteq> e \<longrightarrow>
      token_at p' it = Some t \<longrightarrow> ttype t = right_brace \<longrightarrow>
      parser_parens rule left_brace right_brace parser b e = Some (p', it + 1, state))
   \<and> (token_is parser b e (\<lambda>t. t = left_brace) = Some True \<longrightarrow>
      rule parser (Suc b) e = Some (p', it, state) \<longrightarrow> is_giveup state \<longrightarrow>
      parser_parens rule left_brace right_brace parser b e = Some (p', it, state))
   \<and> (token_is parser b e (\<lambda>t. t = left_brace) = Some True \<longrightarrow>
      rule parser (Suc b) e = Some (p', e, state) \<longrightarrow> \<not> is_giveup state \<longrightarrow>
      parser_parens rule left_brace right_brace parser b e = Some (p', e, state))"
  by (simp add: parser_parens_def giveup_def expect_end_token_def make_error_def add_errors_def)

text \<open>
  The five cases of the law: an identifier where the open parenthesis should be; the open
  parenthesis of \<open>while (x { }\<close> with the expression rule inside, which gives an \<open>Error\<close> at \<open>{\<close>
  and an \<open>ErrorNote\<close> at \<open>(\<close>; the arguments \<open>( x )\<close>; the empty parentheses \<open>( )\<close> with the
  identifier rule inside, which gives up; and \<open>( a +\<close> before the end-of-file token with the
  expression rule inside, which stops at the end of the tokens.
\<close>

theorem parser_parens_close_witness:
  "parser_parens parser_identifier T_LeftParen T_RightParen (program_of ex_call) 0 10
     = Some (program_of ex_call, 10, ParserFailure [ParserError GiveUp 0 (quoted ''('')])
   \<and> parser_parens (run 20 R_expression) T_LeftParen T_RightParen (program_of ex_while) 1 6
     = Some (program_of ex_while, 3,
         ParserFailure [ParserError Error 3 (''expected '' @ quoted '')''),
                        ParserError ErrorNote 1 (''to match this '' @ quoted ''('')])
   \<and> parser_parens parser_identifier T_LeftParen T_RightParen (program_of ex_call) 5 10
     = Some (program_of ex_call, 8,
         ParserSuccess (Some (new_leaf N_Identifier (TokenData T_Identifier (SourceRange 12 13)))))
   \<and> parser_parens parser_identifier T_LeftParen T_RightParen (program_of ex_empty_parens) 0 3
     = Some (program_of ex_empty_parens, 3, ParserFailure [ParserError GiveUp 1 ''identifier''])
   \<and> parser_parens (run 20 R_expression) T_LeftParen T_RightParen (program_of ex_paren_plus) 0 4
     = Some (program_of ex_paren_plus, 4,
         ParserFailure
           [ParserError Error 3 (''expected expression for operator '' @ quoted ''+''),
            ParserError ErrorNote 3
              (''cast or unary expression instead of this '' @ quoted ''eof'')])"
proof -
  let ?C = "program_of ex_call"
  let ?W = "program_of ex_while"
  let ?E = "program_of ex_empty_parens"
  let ?P = "program_of ex_paren_plus"
  let ?x = "ParserSuccess (Some (new_leaf N_Identifier (TokenData T_Identifier (SourceRange 8 9))))"
  let ?y = "ParserSuccess (Some (new_leaf N_Identifier (TokenData T_Identifier (SourceRange 12 13))))"
  let ?plus = "ParserFailure
           [ParserError Error 3 (''expected expression for operator '' @ quoted ''+''),
            ParserError ErrorNote 3
              (''cast or unary expression instead of this '' @ quoted ''eof'')]"
  have str: "to_string_token ?C T_LeftParen = ''(''" "to_string_token ?W T_RightParen = '')''"
    "to_string_token ?W T_LeftParen = ''(''"
    by (simp_all add: program_of_def spelling_def)
  have a: "token_is ?C 0 10 (\<lambda>t. t = T_LeftParen) = Some False"
    by (simp add: eval ex_call_def)
  have b: "token_is ?W 1 6 (\<lambda>t. t = T_LeftParen) = Some True"
    "run 20 R_expression ?W (Suc 1) 6 = Some (?W, 3, ?x)"
    "token_at ?W 3 = Some (TokenData T_LeftBrace (SourceRange 10 11))"
    "token_at ?W 1 = Some (TokenData T_LeftParen (SourceRange 6 7))"
    by (simp_all add: eval ex_while_def del: run.simps cong: bind_weak_cong)
  have c: "token_is ?C 5 10 (\<lambda>t. t = T_LeftParen) = Some True"
    "parser_identifier ?C (Suc 5) 10 = Some (?C, 7, ?y)"
    "token_at ?C 7 = Some (TokenData T_RightParen (SourceRange 14 15))"
    by (simp_all add: eval ex_call_def cong: bind_weak_cong)
  have d: "token_is ?E 0 3 (\<lambda>t. t = T_LeftParen) = Some True"
    "parser_identifier ?E (Suc 0) 3 = Some (?E, 3, ParserFailure [ParserError GiveUp 1 ''identifier''])"
    by (simp_all add: eval ex_empty_parens_def cong: bind_weak_cong)
  have e: "token_is ?P 0 4 (\<lambda>t. t = T_LeftParen) = Some True"
    "run 20 R_expression ?P (Suc 0) 4 = Some (?P, 4, ?plus)"
    by (simp_all add: eval ex_paren_plus_def del: run.simps cong: bind_weak_cong)
  have one: "parser_parens parser_identifier T_LeftParen T_RightParen ?C 0 10
     = Some (?C, 10, ParserFailure [ParserError GiveUp 0 (quoted ''('')])"
    using parser_parens_close [where parser = ?C and b = 0 and e = 10 and left_brace = T_LeftParen
        and rule = parser_identifier and right_brace = T_RightParen, THEN conjunct1] a str
    by (simp add: make_error_def)
  have two: "parser_parens (run 20 R_expression) T_LeftParen T_RightParen ?W 1 6
     = Some (?W, 3,
         ParserFailure [ParserError Error 3 (''expected '' @ quoted '')''),
                        ParserError ErrorNote 1 (''to match this '' @ quoted ''('')])"
    using parser_parens_close [where parser = ?W and b = 1 and e = 6 and left_brace = T_LeftParen
        and rule = "run 20 R_expression" and right_brace = T_RightParen and p' = ?W and it = 3
        and state = ?x and t = "TokenData T_LeftBrace (SourceRange 10 11)"
        and open_tok = "TokenData T_LeftParen (SourceRange 6 7)",
        THEN conjunct2, THEN conjunct1] b str
    by simp
  have three: "parser_parens parser_identifier T_LeftParen T_RightParen ?C 5 10 = Some (?C, 8, ?y)"
    using parser_parens_close [where parser = ?C and b = 5 and e = 10 and left_brace = T_LeftParen
        and rule = parser_identifier and right_brace = T_RightParen and p' = ?C and it = 7
        and state = ?y and t = "TokenData T_RightParen (SourceRange 14 15)",
        THEN conjunct2, THEN conjunct2, THEN conjunct1] c
    by simp
  have four: "parser_parens parser_identifier T_LeftParen T_RightParen ?E 0 3
     = Some (?E, 3, ParserFailure [ParserError GiveUp 1 ''identifier''])"
    using parser_parens_close [where parser = ?E and b = 0 and e = 3 and left_brace = T_LeftParen
        and rule = parser_identifier and right_brace = T_RightParen and p' = ?E and it = 3
        and state = "ParserFailure [ParserError GiveUp 1 ''identifier'']",
        THEN conjunct2, THEN conjunct2, THEN conjunct2, THEN conjunct1] d
    by simp
  have five: "parser_parens (run 20 R_expression) T_LeftParen T_RightParen ?P 0 4
     = Some (?P, 4, ?plus)"
    using parser_parens_close [where parser = ?P and b = 0 and e = 4 and left_brace = T_LeftParen
        and rule = "run 20 R_expression" and right_brace = T_RightParen and p' = ?P
        and state = ?plus,
        THEN conjunct2, THEN conjunct2, THEN conjunct2, THEN conjunct2] e
    by simp
  from one two three four five show ?thesis by simp
qed

text \<open>
  The statement rule on the whole of \<open>while (x { }\<close> reports exactly the two entries of the
  missing close.
\<close>

lemma while_example:
  "map_option (\<lambda>(p, it, state). state) (run 20 R_statement (program_of ex_while) 0 6)
     = Some (ParserFailure [ParserError Error 3 (''expected '' @ quoted '')''), ParserError ErrorNote 1 (''to match this '' @ quoted ''('')])"
  by (simp add: eval ex_while_def del: run.simps cong: bind_weak_cong)

text \<open>
  The open token consumed does not commit \<open>parser_parens\<close>, and a missing close token does not
  always produce the two entries. On \<open>( )\<close> with the identifier rule inside, the give-up of the
  rule is the result of the whole: a state of give-ups only, with no \<open>Error\<close> and no
  \<open>ErrorNote\<close>. On \<open>( a +\<close> before the end-of-file token, with the expression rule inside, the
  close token is missing, and the result has no entry "expected ')'" and no \<open>ErrorNote\<close> at the
  open token.
\<close>

theorem parser_parens_commit_counterexample:
  "parser_parens parser_identifier T_LeftParen T_RightParen (program_of ex_empty_parens) 0 3
     = Some (program_of ex_empty_parens, 3, ParserFailure [ParserError GiveUp 1 ''identifier''])
   \<and> is_giveup (ParserFailure [ParserError GiveUp 1 ''identifier''])
   \<and> parser_parens (run 20 R_expression) T_LeftParen T_RightParen (program_of ex_paren_plus) 0 4
     = Some (program_of ex_paren_plus, 4,
         ParserFailure
           [ParserError Error 3 (''expected expression for operator '' @ quoted ''+''),
            ParserError ErrorNote 3
              (''cast or unary expression instead of this '' @ quoted ''eof'')])"
  by (simp add: eval ex_empty_parens_def ex_paren_plus_def del: run.simps cong: bind_weak_cong)

section \<open>Recovery in the left-associative fold (claim C8)\<close>








section \<open>Associativity of the binary operators (claim C5)\<close>












section \<open>Function calls (claim C10)\<close>





section \<open>The diagnostics of a failed parse (claim C4)\<close>

text \<open>
  \<open>emit_failures\<close> appends the diagnostics of the entries whose iterator is not the end of the
  tokens, in the order of the list, and fails when one of them cannot be resolved.
\<close>

lemma diagnostic_of_diagnostics [simp]:
  "diagnostic_of (parser\<lparr>diagnostics := ds\<rparr>) fail = diagnostic_of parser fail"
  by (simp add: diagnostic_of_def token_info_def token_at_def)

lemma emit_diagnostic_of:
  "(if status fail = ErrorNote
    then emit Note parser (where_it fail) (error fail)
    else emit Err parser (where_it fail) (error fail))
   = map_option (\<lambda>d. parser\<lparr>diagnostics := diagnostics parser @ [d]\<rparr>) (diagnostic_of parser fail)"
  by (cases "token_info parser (where_it fail)") (simp_all add: emit_def diagnostic_of_def)

lemma emit_failures_diagnostics:
  "emit_failures parser e fails
     = map_option (\<lambda>ds. parser\<lparr>diagnostics := diagnostics parser @ ds\<rparr>)
         (those (map (diagnostic_of parser) (filter (\<lambda>f. where_it f \<noteq> e) fails)))"
proof (induction fails arbitrary: parser)
  case Nil
  then show ?case by simp
next
  case (Cons fail fails)
  show ?case
  proof (cases "where_it fail \<noteq> e")
    case False
    then show ?thesis using Cons.IH [of parser] by simp
  next
    case True
    show ?thesis
    proof (cases "diagnostic_of parser fail")
      case None
      then show ?thesis using True emit_diagnostic_of [of fail parser]
        by (simp del: emit_failures.simps add: emit_failures.simps(2) [of parser e fail fails])
    next
      case (Some d)
      then show ?thesis
        using True emit_diagnostic_of [of fail parser]
          Cons.IH [of "parser\<lparr>diagnostics := diagnostics parser @ [d]\<rparr>"]
        by (cases "those (map (diagnostic_of parser) (filter (\<lambda>f. where_it f \<noteq> e) fails))")
           (simp_all split: if_splits)
    qed
  qed
qed

text \<open>
  Claim C4, as the code has it. Let the compilation unit return the end of the tokens and a state
  \<open>ast\<close>. When the promotion of \<open>ast\<close> is a success, \<open>parse\<close> returns its tree and emits nothing.
  When it is a failure, \<open>parse\<close> returns null and emits, in the order of the list, one diagnostic
  for every entry whose iterator is not the end of the tokens: a note for an \<open>ErrorNote\<close>, an
  error for any other entry, with the message of the entry and the line, column and range of the
  token of the entry as the source manager resolves them. Entries whose iterator is the end of
  the tokens are not emitted.
\<close>

theorem parse_emits:
  "(parser_compilation_unit fuel (run fuel) program 0 (length (token_stream program))
      = Some (parser, length (token_stream program), ast) \<longrightarrow>
    giveup_to_expected0 ast = ParserSuccess tree \<longrightarrow>
    parse fuel program = Some (tree, diagnostics parser))
   \<and> (parser_compilation_unit fuel (run fuel) program 0 (length (token_stream program))
      = Some (parser, length (token_stream program), ast) \<longrightarrow>
    giveup_to_expected0 ast = ParserFailure fails \<longrightarrow>
    parse fuel program
      = map_option (\<lambda>ds. (None, diagnostics parser @ ds))
          (those (map (diagnostic_of parser)
             (filter (\<lambda>f. where_it f \<noteq> length (token_stream program)) fails))))"
proof (intro conjI impI)
  assume "parser_compilation_unit fuel (run fuel) program 0 (length (token_stream program))
      = Some (parser, length (token_stream program), ast)"
    and "giveup_to_expected0 ast = ParserSuccess tree"
  then show "parse fuel program = Some (tree, diagnostics parser)"
    by (simp add: parse_def)
next
  let ?e = "length (token_stream program)"
  assume h: "parser_compilation_unit fuel (run fuel) program 0 ?e = Some (parser, ?e, ast)"
    "giveup_to_expected0 ast = ParserFailure fails"
  show "parse fuel program
      = map_option (\<lambda>ds. (None, diagnostics parser @ ds))
          (those (map (diagnostic_of parser) (filter (\<lambda>f. where_it f \<noteq> ?e) fails)))"
    using h
    by (cases "those (map (diagnostic_of parser) (filter (\<lambda>f. where_it f \<noteq> ?e) fails))")
       (simp_all add: parse_def emit_failures_diagnostics)
qed

text \<open>
  The translation unit \<open>int x ;\<close> gives its tree; the translation unit \<open>while\<close> gives one error at
  line 1, column 1.
\<close>

theorem parse_emits_witness:
  "parse 20 (program_of ex_decl)
     = Some (Some (SyntaxTree N_CompilationUnit None
           [SyntaxTree N_Declaration None
             [SyntaxTree N_DeclarationSpecifiers None
               [SyntaxTree N_TypeSpecifier (Some (TokenData T_IntType (SourceRange 0 3))) [] False]
               False,
              SyntaxTree N_Identifier (Some (TokenData T_Identifier (SourceRange 4 5))) [] False]
             False]
           False), [])
   \<and> parse 20 (program_of ex_while_eof)
     = Some (None,
         [Diagnostic Err (TokenDebug (1, 1) (SourceRange 0 5)) ''expected external declaration''])"
proof -
  let ?P = "program_of ex_decl"
  let ?Q = "program_of ex_while_eof"
  let ?tree = "SyntaxTree N_CompilationUnit None
           [SyntaxTree N_Declaration None
             [SyntaxTree N_DeclarationSpecifiers None
               [SyntaxTree N_TypeSpecifier (Some (TokenData T_IntType (SourceRange 0 3))) [] False]
               False,
              SyntaxTree N_Identifier (Some (TokenData T_Identifier (SourceRange 4 5))) [] False]
             False]
           False"
  have len: "length (token_stream ?P) = 4" "length (token_stream ?Q) = 2"
    by (simp_all add: eval ex_decl_def ex_while_eof_def)
  have p: "parser_compilation_unit 20 (run 20) ?P 0 4 = Some (?P, 4, ParserSuccess (Some ?tree))"
    by (simp add: eval ex_decl_def del: run.simps cong: bind_weak_cong)
  have q: "parser_compilation_unit 20 (run 20) ?Q 0 2
      = Some (?Q, 2, ParserFailure [ParserError Error 0 ''expected external declaration''])"
    by (simp add: eval ex_while_eof_def del: run.simps cong: bind_weak_cong)
  have d: "diagnostic_of ?Q (ParserError Error 0 ''expected external declaration'')
      = Some (Diagnostic Err (TokenDebug (1, 1) (SourceRange 0 5)) ''expected external declaration'')"
    by (simp add: diagnostic_of_def eval ex_while_eof_def)
  have ds: "diagnostics ?P = []" "diagnostics ?Q = []"
    by (simp_all add: program_of_def)
  have one: "parse 20 ?P = Some (Some ?tree, [])"
    using parse_emits [where fuel = 20 and program = ?P and parser = ?P
        and ast = "ParserSuccess (Some ?tree)" and tree = "Some ?tree", THEN conjunct1] p len
    by (simp add: program_of_def)
  have two: "parse 20 ?Q
      = Some (None, [Diagnostic Err (TokenDebug (1, 1) (SourceRange 0 5)) ''expected external declaration''])"
    using parse_emits [where fuel = 20 and program = ?Q and parser = ?Q
        and ast = "ParserFailure [ParserError Error 0 ''expected external declaration'']"
        and fails = "[ParserError Error 0 ''expected external declaration'']", THEN conjunct2]
      q len d ds
    by (simp add: expected_own_def make_error_def)
  from one two show ?thesis by simp
qed

text \<open>
  Not every \<open>Error\<close> entry is emitted. For \<open>int a [ x +\<close> the final failure has three entries; the
  third, \<open>expected compound statement\<close>, is at the end of the tokens, and \<open>parse\<close> emits the first
  two only.
\<close>

theorem parse_skips_end_counterexample:
  "map_option (\<lambda>(p, it, s). (it, giveup_to_expected0 s))
      (parser_compilation_unit 20 (run 20) (program_of ex_array_plus) 0 6)
     = Some (6, ParserFailure
         [ParserError Error 5 (''expected expression for operator '' @ quoted ''+''),
          ParserError ErrorNote 5 (''cast or unary expression instead of this '' @ quoted ''eof''),
          ParserError Error 6 ''expected compound statement''])
   \<and> parse 20 (program_of ex_array_plus)
     = Some (None,
         [Diagnostic Err (TokenDebug (1, 13) (SourceRange 12 12))
            (''expected expression for operator '' @ quoted ''+''),
          Diagnostic Note (TokenDebug (1, 13) (SourceRange 12 12))
            (''cast or unary expression instead of this '' @ quoted ''eof'')])"
  by (simp add: eval ex_array_plus_def del: run.simps cong: bind_weak_cong)

section \<open>Return of the parse (claim C1)\<close>

text \<open>
  The unfolding of \<open>run\<close> at a successor, for the evaluation of a parse whose fuel is
  \<open>k + m\<close> with \<open>m\<close> arbitrary.
\<close>

lemma run_Suc_applied:
  "run (Suc n) r parser b e =
    (case r of
       R_declaration_specifiers \<Rightarrow> parser_declaration_specifiers n (run n)
     | R_declarator \<Rightarrow> parser_declarator n (run n)
     | R_abstract_declarator \<Rightarrow> parser_abstract_declarator n (run n)
     | R_pointer \<Rightarrow> parser_pointer n (run n)
     | R_type_name \<Rightarrow> parser_type_name n (run n)
     | R_struct_or_union_specifier \<Rightarrow> parser_struct_or_union_specifier n (run n)
     | R_enum_specifier \<Rightarrow> parser_enum_specifier n (run n)
     | R_initializer \<Rightarrow> parser_initializer (run n)
     | R_initializer_list \<Rightarrow> parser_initializer_list n (run n)
     | R_unary_expression \<Rightarrow> parser_unary_expression n (run n)
     | R_cast_expression \<Rightarrow> parser_cast_expression (run n)
     | R_conditional_expression \<Rightarrow> parser_conditional_expression n (run n)
     | R_assignment_expression \<Rightarrow> parser_assignment_expression (run n)
     | R_expression \<Rightarrow> parser_expression n (run n)
     | R_statement \<Rightarrow> parser_statement n (run n)) parser b e"
  by simp

lemma run_0_applied: "run 0 r parser b e = None"
  by simp

lemmas eval_Suc = all_defs example_defs run_0_applied run_Suc_applied Let_def node_type_names_length

lemma promotion_reads_where:
  "status err = GiveUp \<Longrightarrow> error err \<noteq> [] \<Longrightarrow> token_at parser (where_it err) = None \<Longrightarrow>
     giveup_to_expected parser (ParserFailure (err # errs)) what = None"
  by simp

lemma statement_at_end:
  "run 8 R_statement (program_of ex_while_plus) 10 10
     = Some (program_of ex_while_plus, 10, ParserFailure [ParserError GiveUp 10 ''statement''])"
  by (simp add: eval ex_while_plus_def del: run.simps cong: bind_weak_cong)

lemma while_plus_large_fuel:
  "parse (Suc (Suc (Suc (Suc (Suc (Suc (Suc (Suc (m))))))))) (program_of ex_while_plus) = None"
  by (simp add: eval_Suc ex_while_plus_def del: run.simps cong: bind_weak_cong)

lemma while_plus_small_fuel:
  "parse (0) (program_of ex_while_plus) = None"
  "parse (Suc (0)) (program_of ex_while_plus) = None"
  "parse (Suc (Suc (0))) (program_of ex_while_plus) = None"
  "parse (Suc (Suc (Suc (0)))) (program_of ex_while_plus) = None"
  "parse (Suc (Suc (Suc (Suc (0))))) (program_of ex_while_plus) = None"
  "parse (Suc (Suc (Suc (Suc (Suc (0)))))) (program_of ex_while_plus) = None"
  "parse (Suc (Suc (Suc (Suc (Suc (Suc (0))))))) (program_of ex_while_plus) = None"
  "parse (Suc (Suc (Suc (Suc (Suc (Suc (Suc (0)))))))) (program_of ex_while_plus) = None"
  by (simp_all add: eval_Suc ex_while_plus_def del: run.simps cong: bind_weak_cong)

lemma while_plus_readable_end:
  "parse 8 ((program_of ex_while_plus)\<lparr>past_the_end := Some (TokenData T_Eof (SourceRange 0 0))\<rparr>)
     = Some (None,
         [Diagnostic Err (TokenDebug (1, 26) (SourceRange 25 25))
            (''expected expression for operator '' @ quoted ''+''),
          Diagnostic Note (TokenDebug (1, 26) (SourceRange 25 25))
            (''cast or unary expression instead of this '' @ quoted ''eof'')])"
  by (simp add: eval ex_while_plus_def del: run.simps cong: bind_weak_cong)

lemma eof_first_unit:
  "parser_compilation_unit n (run n) (program_of ex_eof_first) 0 2
     = Some (program_of ex_eof_first, 1, ParserSuccess (Some (new_node N_CompilationUnit)))"
  by (simp add: parser_compilation_unit_def token_at_def example_defs ex_eof_first_def)

text \<open>
  Claim C1 does not hold of the code. For the tokens \<open>void f ( ) { while ( a +\<close> and the
  end-of-file token, \<open>parse\<close> does not return, whatever the fuel: after the operator \<open>+\<close> the
  recovery of \<open>parser_left_binary_operator\<close> steps over the end-of-file token to the end of the
  tokens, the statement rule gives up there (\<open>statement_at_end\<close>), and the promotion of this
  give-up by \<^verbatim>\<open>giveup_to_expected(state, what)\<close> reads the type of the token at the end iterator
  (\<open>promotion_reads_where\<close>). Were that read to yield a token, the parse would return
  (\<open>while_plus_readable_end\<close>). For the end-of-file token followed by \<open>;\<close> the compilation unit
  stops after the first token (\<open>eof_first_unit\<close>), and \<^verbatim>\<open>Ensures(it == tokens.end())\<close> fails.
\<close>

theorem parse_does_not_return:
  "parse n (program_of ex_while_plus) = None \<and> parse n (program_of ex_eof_first) = None"
proof
  show "parse n (program_of ex_while_plus) = None"
  proof (cases "n < 8")
    case True
    then have "n \<in> {0, Suc 0, Suc (Suc 0), Suc (Suc (Suc 0)), Suc (Suc (Suc (Suc 0))),
        Suc (Suc (Suc (Suc (Suc 0)))), Suc (Suc (Suc (Suc (Suc (Suc 0))))),
        Suc (Suc (Suc (Suc (Suc (Suc (Suc 0))))))}"
      by (simp del: One_nat_def) arith
    then show ?thesis using while_plus_small_fuel by (auto simp del: One_nat_def)
  next
    case False
    then obtain m where "n = Suc (Suc (Suc (Suc (Suc (Suc (Suc (Suc m)))))))"
      using le_Suc_ex [of 8 n] by (auto simp add: eval_nat_numeral)
    then show ?thesis using while_plus_large_fuel by simp
  qed
next
  have "length (token_stream (program_of ex_eof_first)) = 2"
    by (simp add: example_defs ex_eof_first_def)
  then show "parse n (program_of ex_eof_first) = None"
    using eof_first_unit [of n] by (simp add: parse_def)
qed

section \<open>Elision (claim C2)\<close>

subsection \<open>Rules for the results of a computation\<close>

text \<open>
  The facts \<open>wp\<close> rewrite \<open>ret m Q\<close> along the structure of \<open>m\<close>; for a call of a good rule they
  leave the result of the call universally quantified, with the fact that its state is good.
  The facts \<open>good\<close> say which rules and states are good.
\<close>

named_theorems wp
named_theorems good

lemma ret_Some [wp]: "ret (Some x) Q = Q x"
  by (simp add: ret_def)

lemma ret_None [wp]: "ret None Q = True"
  by (simp add: ret_def)

lemma ret_bind [wp]: "ret (Option.bind m f) Q = ret m (\<lambda>x. ret (f x) Q)"
  by (cases m) (simp_all add: ret_def)

lemma ret_if [wp]: "ret (if c then a else b) Q = ((c \<longrightarrow> ret a Q) \<and> (\<not> c \<longrightarrow> ret b Q))"
  by simp

lemma ret_map_option [wp]: "ret (map_option f m) Q = ret m (\<lambda>x. Q (f x))"
  by (cases m) (simp_all add: ret_def)

lemma ret_case_option [wp]:
  "ret (case x of None \<Rightarrow> a | Some y \<Rightarrow> f y) Q
     = ((x = None \<longrightarrow> ret a Q) \<and> (\<forall>y. x = Some y \<longrightarrow> ret (f y) Q))"
  by (cases x) simp_all

lemma ret_unfold: "ret m Q = (\<forall>x. m = Some x \<longrightarrow> Q x)"
  by (simp add: ret_def)

lemma ret_good_rule:
  "good_rule r \<Longrightarrow>
     ret (r parser b e) Q
       = (\<forall>p it s. r parser b e = Some (p, it, s) \<longrightarrow> good_state s \<longrightarrow> Q (p, it, s))"
  by (auto simp add: good_rule_def ret_def)

lemma ret_rec:
  "good_rules rec \<Longrightarrow>
     ret (rec r parser b e) Q
       = (\<forall>p it s. rec r parser b e = Some (p, it, s) \<longrightarrow> good_state s \<longrightarrow> Q (p, it, s))"
  by (simp add: good_rules_def ret_good_rule)

lemma good_rule_rec [good]: "good_rules rec \<Longrightarrow> good_rule (rec r)"
  by (simp add: good_rules_def)

lemmas ret_token_at [wp] = ret_unfold [of "token_at parser it" for parser it]
lemmas ret_token_is [wp] = ret_unfold [of "token_is parser it e p" for parser it e p]
lemmas ret_token_prev [wp] = ret_unfold [of "token_prev parser it" for parser it]
lemmas ret_emit [wp] = ret_unfold [of "emit sev parser it msg" for sev parser it msg]
lemmas ret_to_string_node [wp] = ret_unfold [of "to_string_node t" for t]

subsection \<open>The operations on states keep a state good\<close>

lemma good_make_error [good]: "good_state (make_error st w msg)"
  by (simp add: make_error_def)

lemma good_add_error [good]: "good_state (add_error s err)"
  by (cases s) simp_all

lemma good_foldl_add_error: "good_state s \<Longrightarrow> good_state (foldl add_error s errs)"
  by (induction errs arbitrary: s) (simp_all add: good_add_error)

lemma good_add_errors [good]: "good_state s \<Longrightarrow> good_state (add_errors s errs)"
  by (simp add: add_errors_def good_foldl_add_error)

lemma good_add_error_state [good]: "good_state s \<Longrightarrow> good_state (add_error_state s x)"
  by (cases x) (simp_all add: good_add_errors)

lemma settled_take_children:
  "settled tree \<Longrightarrow> settled n \<Longrightarrow> settled (take_children tree n)"
  by (cases tree; cases n) auto

lemma settled_add_child:
  "settled tree \<Longrightarrow> settled n \<Longrightarrow> \<not> should_elide n \<Longrightarrow> settled (add_child tree n)"
  by (cases tree) auto

lemma good_add_node:
  "good_state s \<Longrightarrow> settled n \<Longrightarrow> add_node s (Some n) = Some s' \<Longrightarrow> good_state s'"
  by (cases "(s, Some n)" rule: add_node.cases)
     (auto simp add: settled_take_children settled_add_child split: if_splits)

lemma good_add_state:
  "good_state s \<Longrightarrow> good_state x \<Longrightarrow> add_state s x = Some s' \<Longrightarrow> good_state s'"
proof (cases x)
  case (ParserFailure errs)
  assume "good_state s" "add_state s x = Some s'"
  then show ?thesis using ParserFailure by (auto simp add: good_add_errors)
next
  case (ParserSuccess t)
  assume h: "good_state s" "good_state x" "add_state s x = Some s'"
  show ?thesis
  proof (cases t)
    case None
    then show ?thesis using h ParserSuccess by simp
  next
    case (Some n)
    then show ?thesis using h ParserSuccess good_add_node [of s n s'] by simp
  qed
qed

lemma ret_add_state [wp]:
  "ret (add_state s x) Q
     = (\<forall>s'. add_state s x = Some s' \<longrightarrow> (good_state s \<longrightarrow> good_state x \<longrightarrow> good_state s') \<longrightarrow> Q s')"
  unfolding ret_def using good_add_state [of s x] by blast

lemma ret_add_node [wp]:
  "ret (add_node s n) Q
     = (\<forall>s'. add_node s n = Some s' \<longrightarrow>
          (good_state s \<longrightarrow> (\<forall>t. n = Some t \<longrightarrow> settled t) \<longrightarrow> good_state s') \<longrightarrow> Q s')"
  unfolding ret_def using good_add_node [of s _ ] by (cases n) (simp, blast)


lemma expected_errors_good:
  "expected_errors parser what st errs = Some s' \<Longrightarrow> good_state st \<Longrightarrow> good_state s'"
  by (induction parser what st errs arbitrary: s' rule: expected_errors.induct)
     (auto simp add: good_add_error Let_def split: if_splits Option.bind_splits)

lemma good_giveup_to_expected:
  "good_state s \<Longrightarrow> giveup_to_expected parser s what = Some s' \<Longrightarrow> good_state s'"
  by (cases s) (auto dest: expected_errors_good)

lemma ret_giveup_to_expected [wp]:
  "ret (giveup_to_expected parser s what) Q
     = (\<forall>s'. giveup_to_expected parser s what = Some s' \<longrightarrow> (good_state s \<longrightarrow> good_state s') \<longrightarrow> Q s')"
  unfolding ret_def using good_giveup_to_expected [of s parser what] by blast

lemma foldl_expected_own_good:
  "good_state st \<Longrightarrow> good_state (foldl expected_own st errs)"
  by (induction errs arbitrary: st) (simp_all add: expected_own_def good_add_error)

lemma good_giveup_to_expected0 [good]:
  "good_state s \<Longrightarrow> good_state (giveup_to_expected0 s)"
  by (cases s) (simp_all add: foldl_expected_own_good)

lemma ret_giveup [wp]: "ret (giveup parser b e what) Q = Q (parser, e, make_error GiveUp b what)"
  by (simp add: giveup_def ret_def)

lemma good_expect_token:
  "expect_token parser s it e tok = Some (ok, s') \<Longrightarrow> good_state s \<Longrightarrow> good_state s'"
  by (simp add: expect_token_def Let_def split: if_splits Option.bind_splits)
     (auto simp add: good_add_error_state)

lemma ret_expect_token [wp]:
  "ret (expect_token parser s it e tok) Q
     = (\<forall>ok s'. expect_token parser s it e tok = Some (ok, s') \<longrightarrow>
          (good_state s \<longrightarrow> good_state s') \<longrightarrow> Q (ok, s'))"
  unfolding ret_def using good_expect_token [of parser s it e tok] by auto

lemma good_expect_end_token:
  "expect_end_token parser s b e it tok = Some (ok, s') \<Longrightarrow> good_state s \<Longrightarrow> good_state s'"
  by (simp add: expect_end_token_def Let_def split: if_splits Option.bind_splits)
     (auto simp add: good_add_error_state good_add_errors good_add_error)

lemma ret_expect_end_token [wp]:
  "ret (expect_end_token parser s b e it tok) Q
     = (\<forall>ok s'. expect_end_token parser s b e it tok = Some (ok, s') \<longrightarrow>
          (good_state s \<longrightarrow> good_state s') \<longrightarrow> Q (ok, s'))"
  unfolding ret_def using good_expect_end_token [of parser s b e it tok] by auto


subsection \<open>The combinators\<close>

lemma good_ruleI:
  "(\<And>parser b e. ret (r parser b e) (\<lambda>(p, it, s). good_state s)) \<Longrightarrow> good_rule r"
  by (simp add: good_rule_def)

lemma good_parser_operator [good]: "good_rule (parser_operator op_type op_match)"
  by (rule good_ruleI) (simp add: parser_operator_def wp good new_leaf_def)

lemma parser_one_of_good:
  "list_all good_rule rules \<Longrightarrow>
     ret (parser_one_of parser b e what rules) (\<lambda>(p, it, s). good_state s)"
  by (induction rules arbitrary: parser) (simp_all add: wp good ret_good_rule)

lemma ret_parser_one_of [wp]:
  "list_all good_rule rules \<Longrightarrow>
     ret (parser_one_of parser b e what rules) Q
       = (\<forall>p it s. parser_one_of parser b e what rules = Some (p, it, s) \<longrightarrow>
            good_state s \<longrightarrow> Q (p, it, s))"
  using parser_one_of_good [of rules parser b e what] by (simp add: ret_def)

lemma good_parser_opt [good]: "good_rule r \<Longrightarrow> good_rule (parser_opt r)"
  by (rule good_ruleI) (simp add: parser_opt_def wp good ret_good_rule new_node_def)

lemma good_parser_parens [good]: "good_rule r \<Longrightarrow> good_rule (parser_parens r l rb)"
  by (rule good_ruleI) (simp add: parser_parens_def wp good ret_good_rule)



lemmas ret_is_empty_node [wp] = ret_unfold [of "is_empty_node s" for s]

lemmas defs = Let_def new_leaf_def new_node_def empty_node_def

lemma one_many_of_loop_good:
  "good_rule r \<Longrightarrow> good_state st \<Longrightarrow>
     ret (one_many_of_loop k r parser it e st) (\<lambda>(p, it, s). good_state s)"
  by (induction k arbitrary: parser it st) (simp_all add: wp good ret_good_rule defs)

lemma good_parser_one_many_of [good]: "good_rule r \<Longrightarrow> good_rule (parser_one_many_of fuel what r)"
  by (rule good_ruleI)
     (simp add: parser_one_many_of_def wp good ret_good_rule one_many_of_loop_good defs)

lemma one_many_of_pred_loop_good:
  "good_rule r \<Longrightarrow> good_state st \<Longrightarrow>
     ret (one_many_of_pred_loop k r pred parser it e st) (\<lambda>(p, it, s). good_state s)"
  by (induction k arbitrary: parser it st) (simp_all add: wp good ret_good_rule defs)

lemma good_parser_one_many_of_pred [good]:
  "good_rule r \<Longrightarrow> good_rule (parser_one_many_of_pred fuel what r pred)"
  by (rule good_ruleI)
     (simp add: parser_one_many_of_pred_def wp good ret_good_rule one_many_of_pred_loop_good defs)

lemma left_binary_loop_good:
  "good_rule op_rule \<Longrightarrow> good_rule rhs_rule \<Longrightarrow> good_state st \<Longrightarrow>
     ret (left_binary_loop k op_rule rhs_rule parser it e st) (\<lambda>(p, it, s). good_state s)"
  by (induction k arbitrary: parser it st) (simp_all add: wp good ret_good_rule defs)

lemma good_parser_left_binary_operator [good]:
  "good_rule lhs_rule \<Longrightarrow> good_rule op_rule \<Longrightarrow> good_rule rhs_rule \<Longrightarrow>
     good_rule (parser_left_binary_operator fuel lhs_rule op_rule rhs_rule)"
  by (rule good_ruleI)
     (simp add: parser_left_binary_operator_def wp good ret_good_rule left_binary_loop_good defs)

lemma good_parser_right_binary_operator [good]:
  "good_rule lhs_rule \<Longrightarrow> good_rule op_rule \<Longrightarrow> good_rule rhs_rule \<Longrightarrow>
     good_rule (parser_right_binary_operator lhs_rule op_rule rhs_rule)"
  by (rule good_ruleI)
     (simp add: parser_right_binary_operator_def wp good ret_good_rule defs)

lemma list_of_loop_good:
  "good_rule r \<Longrightarrow> good_state st \<Longrightarrow>
     ret (list_of_loop k r flag parser it e st) (\<lambda>(p, it, s). good_state s)"
  by (induction k arbitrary: parser it st; cases flag) (simp_all add: wp good ret_good_rule defs)

lemma good_parser_list_of [good]: "good_rule r \<Longrightarrow> good_rule (parser_list_of fuel r flag)"
  by (rule good_ruleI)
     (simp add: parser_list_of_def wp good ret_good_rule list_of_loop_good defs)

lemmas ret_kernel [wp] =
  ret_good_rule [OF good_parser_operator]
  ret_good_rule [OF good_parser_opt]
  ret_good_rule [OF good_parser_parens]
  ret_good_rule [OF good_parser_one_many_of]
  ret_good_rule [OF good_parser_one_many_of_pred]
  ret_good_rule [OF good_parser_left_binary_operator]
  ret_good_rule [OF good_parser_right_binary_operator]
  ret_good_rule [OF good_parser_list_of]


lemma ret_strengthen:
  "ret m P \<Longrightarrow> ret m Q = (\<forall>x. m = Some x \<longrightarrow> P x \<longrightarrow> Q x)"
  by (auto simp add: ret_def)

lemma ret_case_state [wp]:
  "ret (case s of ParserFailure errs \<Rightarrow> f errs | ParserSuccess t \<Rightarrow> g t) Q
     = ((\<forall>errs. s = ParserFailure errs \<longrightarrow> ret (f errs) Q)
        \<and> (\<forall>t. s = ParserSuccess t \<longrightarrow> ret (g t) Q))"
  by (cases s) simp_all

lemma should_elide_text [simp]:
  "t \<noteq> N_None \<Longrightarrow> \<not> should_elide (SyntaxTree t (Some tok) cs a)"
  by (simp add: should_elide_def has_text_def)

lemma settled_pop_child:
  "pop_child t = Some (c, rest) \<Longrightarrow> settled t \<Longrightarrow> settled c \<and> settled rest"
  by (cases t) (auto split: if_splits dest!: in_set_butlastD)

lemma ret_pop_child [wp]:
  "ret (pop_child t) Q
     = (\<forall>c rest. pop_child t = Some (c, rest) \<longrightarrow> (settled t \<longrightarrow> settled c \<and> settled rest) \<longrightarrow>
          Q (c, rest))"
  unfolding ret_def using settled_pop_child [of t] by auto


subsection \<open>Every rule of the grammar is good\<close>

text \<open>
  For each rule of the grammar, in the order of the source: the rule returns good states when
  the recursive rules it calls do.
\<close>

lemma parser_identifier_good [good]: "good_rule parser_identifier"
  by (rule good_ruleI) (simp add: parser_identifier_def wp good ret_rec defs)

lemmas parser_identifier_ret [wp] = ret_good_rule [OF parser_identifier_good]

lemma parser_string_literal_good [good]: "good_rule parser_string_literal"
  by (rule good_ruleI) (simp add: parser_string_literal_def wp good ret_rec defs)

lemmas parser_string_literal_ret [wp] = ret_good_rule [OF parser_string_literal_good]

lemma parser_string_literal_list_good [good]: "good_rule (parser_string_literal_list fuel)"
  by (rule good_ruleI) (auto simp add: parser_string_literal_list_def wp good ret_rec defs)

lemmas parser_string_literal_list_ret [wp] = ret_good_rule [OF parser_string_literal_list_good]

lemma parser_constant_good [good]: "good_rule parser_constant"
  by (rule good_ruleI) (simp add: parser_constant_def wp good ret_rec defs)

lemmas parser_constant_ret [wp] = ret_good_rule [OF parser_constant_good]

lemma parser_parameter_declaration_good [good]: "good_rules rec \<Longrightarrow> good_rule (parser_parameter_declaration rec)"
  by (rule good_ruleI) (simp add: parser_parameter_declaration_def wp good ret_rec defs)

lemmas parser_parameter_declaration_ret [wp] = ret_good_rule [OF parser_parameter_declaration_good]

lemma parameter_list_loop_good:
  "good_rules rec \<Longrightarrow> good_state st \<Longrightarrow>
     ret (parameter_list_loop k rec parser it e st) (\<lambda>(p, it, s). good_state s)"
  by (induction k arbitrary: parser it st) (simp_all add: wp good ret_rec defs)

lemmas parameter_list_loop_ret [wp] = ret_strengthen [OF parameter_list_loop_good]

lemma parser_parameter_type_list_good [good]: "good_rules rec \<Longrightarrow> good_rule (parser_parameter_type_list fuel rec)"
  by (rule good_ruleI) (simp add: parser_parameter_type_list_def wp good ret_rec defs)

lemmas parser_parameter_type_list_ret [wp] = ret_good_rule [OF parser_parameter_type_list_good]

lemma parser_typedef_name_good [good]: "good_rule parser_typedef_name"
  by (rule good_ruleI) (simp add: parser_typedef_name_def wp good ret_rec defs)

lemmas parser_typedef_name_ret [wp] = ret_good_rule [OF parser_typedef_name_good]

lemma parser_atomic_type_specifier_good [good]: "good_rules rec \<Longrightarrow> good_rule (parser_atomic_type_specifier rec)"
  by (rule good_ruleI) (simp add: parser_atomic_type_specifier_def wp good ret_rec defs)

lemmas parser_atomic_type_specifier_ret [wp] = ret_good_rule [OF parser_atomic_type_specifier_good]

lemma parser_type_specifier_good [good]: "good_rules rec \<Longrightarrow> good_rule (parser_type_specifier rec)"
  by (rule good_ruleI) (simp add: parser_type_specifier_def wp good ret_rec defs)

lemmas parser_type_specifier_ret [wp] = ret_good_rule [OF parser_type_specifier_good]

lemma parser_type_qualifier_good [good]: "good_rule parser_type_qualifier"
  by (rule good_ruleI) (simp add: parser_type_qualifier_def wp good ret_rec defs)

lemmas parser_type_qualifier_ret [wp] = ret_good_rule [OF parser_type_qualifier_good]

lemma parser_type_qualifier_list_good [good]: "good_rule (parser_type_qualifier_list fuel)"
  by (rule good_ruleI) (simp add: parser_type_qualifier_list_def wp good ret_rec defs)

lemmas parser_type_qualifier_list_ret [wp] = ret_good_rule [OF parser_type_qualifier_list_good]

lemma parser_pointer_good [good]: "good_rules rec \<Longrightarrow> good_rule (parser_pointer fuel rec)"
  by (rule good_ruleI) (simp add: parser_pointer_def wp good ret_rec defs)

lemmas parser_pointer_ret [wp] = ret_good_rule [OF parser_pointer_good]

lemma abstract_function_declarator_good [good]: "good_rules rec \<Longrightarrow> good_rule (abstract_function_declarator fuel rec)"
  by (rule good_ruleI) (simp add: abstract_function_declarator_def wp good ret_rec defs)

lemmas abstract_function_declarator_ret [wp] = ret_good_rule [OF abstract_function_declarator_good]

lemma array_declarator_good [good]: "good_rules rec \<Longrightarrow> good_rule (array_declarator flag msg msg2 msg3 fuel rec)"
  by (rule good_ruleI) (simp add: array_declarator_def wp good ret_rec defs)

lemmas array_declarator_ret [wp] = ret_good_rule [OF array_declarator_good]

lemma abstract_array_declarator_good [good]: "good_rules rec \<Longrightarrow> good_rule (abstract_array_declarator fuel rec)"
  by (rule good_ruleI) (simp add: abstract_array_declarator_def wp good ret_rec defs)

lemmas abstract_array_declarator_ret [wp] = ret_good_rule [OF abstract_array_declarator_good]

lemma direct_abstract_declarator_loop_good:
  "good_rules rec \<Longrightarrow> good_state st \<Longrightarrow>
     ret (direct_abstract_declarator_loop k fuel rec parser it e st) (\<lambda>(p, it, s). good_state s)"
  by (induction k arbitrary: parser it st) (simp_all add: wp good ret_rec defs)

lemmas direct_abstract_declarator_loop_ret [wp] = ret_strengthen [OF direct_abstract_declarator_loop_good]

lemma parser_direct_abstract_declarator_good [good]: "good_rules rec \<Longrightarrow> good_rule (parser_direct_abstract_declarator fuel rec)"
  by (rule good_ruleI) (simp add: parser_direct_abstract_declarator_def wp good ret_rec defs)

lemmas parser_direct_abstract_declarator_ret [wp] = ret_good_rule [OF parser_direct_abstract_declarator_good]

lemma parser_abstract_declarator_good [good]: "good_rules rec \<Longrightarrow> good_rule (parser_abstract_declarator fuel rec)"
  by (rule good_ruleI) (simp add: parser_abstract_declarator_def wp good ret_rec defs)

lemmas parser_abstract_declarator_ret [wp] = ret_good_rule [OF parser_abstract_declarator_good]

lemma specifier_qualifier_loop_good:
  "good_rules rec \<Longrightarrow> good_state st \<Longrightarrow>
     ret (specifier_qualifier_loop k rec parser it e st) (\<lambda>(p, it, s). good_state s)"
  by (induction k arbitrary: parser it st) (simp_all add: wp good ret_rec defs)

lemmas specifier_qualifier_loop_ret [wp] = ret_strengthen [OF specifier_qualifier_loop_good]

lemma parser_specifier_qualifier_list_good [good]: "good_rules rec \<Longrightarrow> good_rule (parser_specifier_qualifier_list fuel rec)"
  by (rule good_ruleI) (simp add: parser_specifier_qualifier_list_def wp good ret_rec defs)

lemmas parser_specifier_qualifier_list_ret [wp] = ret_good_rule [OF parser_specifier_qualifier_list_good]

lemma parser_type_name_good [good]: "good_rules rec \<Longrightarrow> good_rule (parser_type_name fuel rec)"
  by (rule good_ruleI) (simp add: parser_type_name_def wp good ret_rec defs)

lemmas parser_type_name_ret [wp] = ret_good_rule [OF parser_type_name_good]

lemma parser_constant_expression_good [good]: "good_rules rec \<Longrightarrow> good_rule (parser_constant_expression rec)"
  by (rule good_ruleI) (simp add: parser_constant_expression_def wp good ret_rec defs)

lemmas parser_constant_expression_ret [wp] = ret_good_rule [OF parser_constant_expression_good]

lemma static_assert_args_production_good [good]: "good_rules rec \<Longrightarrow> good_rule (static_assert_args_production fuel rec)"
  by (rule good_ruleI) (simp add: static_assert_args_production_def wp good ret_rec defs)

lemmas static_assert_args_production_ret [wp] = ret_good_rule [OF static_assert_args_production_good]

lemma parser_static_assert_declaration_good [good]: "good_rules rec \<Longrightarrow> good_rule (parser_static_assert_declaration fuel rec)"
  by (rule good_ruleI) (simp add: parser_static_assert_declaration_def wp good ret_rec defs)

lemmas parser_static_assert_declaration_ret [wp] = ret_good_rule [OF parser_static_assert_declaration_good]

lemma direct_array_declarator_good [good]: "good_rules rec \<Longrightarrow> good_rule (direct_array_declarator fuel rec)"
  by (rule good_ruleI) (simp add: direct_array_declarator_def wp good ret_rec defs)

lemmas direct_array_declarator_ret [wp] = ret_good_rule [OF direct_array_declarator_good]

lemma ident_or_decl_production_good [good]: "good_rules rec \<Longrightarrow> good_rule (ident_or_decl_production rec)"
  by (rule good_ruleI) (simp add: ident_or_decl_production_def wp good ret_rec defs)

lemmas ident_or_decl_production_ret [wp] = ret_good_rule [OF ident_or_decl_production_good]

lemma direct_declarator_loop_good:
  "good_rules rec \<Longrightarrow> good_state st \<Longrightarrow>
     ret (direct_declarator_loop k fuel rec parser it e st) (\<lambda>(p, it, s). good_state s)"
  by (induction k arbitrary: parser it st) (simp_all add: wp good ret_rec defs)

lemmas direct_declarator_loop_ret [wp] = ret_strengthen [OF direct_declarator_loop_good]

lemma parser_direct_declarator_good [good]: "good_rules rec \<Longrightarrow> good_rule (parser_direct_declarator fuel rec)"
  by (rule good_ruleI) (simp add: parser_direct_declarator_def wp good ret_rec defs)

lemmas parser_direct_declarator_ret [wp] = ret_good_rule [OF parser_direct_declarator_good]

lemmas ret_parser_is_declarator [wp] = ret_unfold [of "parser_is_declarator parser b e" for parser b e]

lemma parser_declarator_good [good]: "good_rules rec \<Longrightarrow> good_rule (parser_declarator fuel rec)"
  by (rule good_ruleI) (simp add: parser_declarator_def wp good ret_rec defs)

lemmas parser_declarator_ret [wp] = ret_good_rule [OF parser_declarator_good]

lemma parser_init_declarator_good [good]: "good_rules rec \<Longrightarrow> good_rule (parser_init_declarator rec)"
  by (rule good_ruleI) (simp add: parser_init_declarator_def wp good ret_rec defs)

lemmas parser_init_declarator_ret [wp] = ret_good_rule [OF parser_init_declarator_good]

lemma parser_init_declarator_list_good [good]: "good_rules rec \<Longrightarrow> good_rule (parser_init_declarator_list fuel rec)"
  by (rule good_ruleI) (simp add: parser_init_declarator_list_def wp good ret_rec defs)

lemmas parser_init_declarator_list_ret [wp] = ret_good_rule [OF parser_init_declarator_list_good]

lemma parser_storage_class_specifier_good [good]: "good_rule parser_storage_class_specifier"
  by (rule good_ruleI) (simp add: parser_storage_class_specifier_def wp good ret_rec defs)

lemmas parser_storage_class_specifier_ret [wp] = ret_good_rule [OF parser_storage_class_specifier_good]

lemma parser_function_specifier_good [good]: "good_rule parser_function_specifier"
  by (rule good_ruleI) (simp add: parser_function_specifier_def wp good ret_rec defs)

lemmas parser_function_specifier_ret [wp] = ret_good_rule [OF parser_function_specifier_good]

lemma alignas_arg_production_good [good]: "good_rules rec \<Longrightarrow> good_rule (alignas_arg_production rec)"
  by (rule good_ruleI) (simp add: alignas_arg_production_def wp good ret_rec defs)

lemmas alignas_arg_production_ret [wp] = ret_good_rule [OF alignas_arg_production_good]

lemma parser_alignment_specifier_good [good]: "good_rules rec \<Longrightarrow> good_rule (parser_alignment_specifier rec)"
  by (rule good_ruleI) (simp add: parser_alignment_specifier_def wp good ret_rec defs)

lemmas parser_alignment_specifier_ret [wp] = ret_good_rule [OF parser_alignment_specifier_good]

lemma parser_declaration_specifier_good [good]: "good_rules rec \<Longrightarrow> good_rule (parser_declaration_specifier rec)"
  by (rule good_ruleI) (simp add: parser_declaration_specifier_def wp good ret_rec defs)

lemmas parser_declaration_specifier_ret [wp] = ret_good_rule [OF parser_declaration_specifier_good]

lemma parser_declaration_specifiers_good [good]: "good_rules rec \<Longrightarrow> good_rule (parser_declaration_specifiers fuel rec)"
  by (rule good_ruleI) (simp add: parser_declaration_specifiers_def wp good ret_rec defs)

lemmas parser_declaration_specifiers_ret [wp] = ret_good_rule [OF parser_declaration_specifiers_good]

lemma parser_declaration_good [good]: "good_rules rec \<Longrightarrow> good_rule (parser_declaration fuel rec)"
  by (rule good_ruleI) (simp add: parser_declaration_def wp good ret_rec defs)

lemmas parser_declaration_ret [wp] = ret_good_rule [OF parser_declaration_good]

lemma parser_enumeration_constant_good [good]: "good_rule parser_enumeration_constant"
  by (rule good_ruleI) (simp add: parser_enumeration_constant_def wp good ret_rec defs)

lemmas parser_enumeration_constant_ret [wp] = ret_good_rule [OF parser_enumeration_constant_good]

lemma enumerator_production_good [good]: "good_rules rec \<Longrightarrow> good_rule (enumerator_production rec)"
  by (rule good_ruleI) (simp add: enumerator_production_def wp good ret_rec defs)

lemmas enumerator_production_ret [wp] = ret_good_rule [OF enumerator_production_good]

lemma enum_list_production_good [good]: "good_rules rec \<Longrightarrow> good_rule (enum_list_production fuel rec)"
  by (rule good_ruleI) (simp add: enum_list_production_def wp good ret_rec defs)

lemmas enum_list_production_ret [wp] = ret_good_rule [OF enum_list_production_good]

lemma missing_semicolon_good:
  "missing_semicolon parser state it e msg = Some s' \<Longrightarrow> good_state state \<Longrightarrow> good_state s'"
  by (simp add: missing_semicolon_def Let_def split: if_splits Option.bind_splits)
     (auto simp add: good)

lemma ret_missing_semicolon [wp]:
  "ret (missing_semicolon parser state it e msg) Q
     = (\<forall>s'. missing_semicolon parser state it e msg = Some s' \<longrightarrow>
          (good_state state \<longrightarrow> good_state s') \<longrightarrow> Q s')"
  unfolding ret_def using missing_semicolon_good [of parser state it e msg] by blast

lemma parser_enum_specifier_good [good]: "good_rules rec \<Longrightarrow> good_rule (parser_enum_specifier fuel rec)"
  by (rule good_ruleI) (simp add: parser_enum_specifier_def wp good ret_rec defs)

lemmas parser_enum_specifier_ret [wp] = ret_good_rule [OF parser_enum_specifier_good]

lemma struct_declarator_good [good]: "good_rules rec \<Longrightarrow> good_rule (struct_declarator msg rec)"
  by (rule good_ruleI) (simp add: struct_declarator_def wp good ret_rec defs)

lemmas struct_declarator_ret [wp] = ret_good_rule [OF struct_declarator_good]

lemma struct_declaration_good [good]: "good_rules rec \<Longrightarrow> good_rule (struct_declaration msg fuel rec)"
  by (rule good_ruleI) (simp add: struct_declaration_def wp good ret_rec defs)

lemmas struct_declaration_ret [wp] = ret_good_rule [OF struct_declaration_good]

lemma struct_decl_list_production_good [good]: "good_rules rec \<Longrightarrow> good_rule (struct_decl_list_production msg fuel rec)"
  by (rule good_ruleI) (simp add: struct_decl_list_production_def wp good ret_rec defs)

lemmas struct_decl_list_production_ret [wp] = ret_good_rule [OF struct_decl_list_production_good]

lemma parser_struct_or_union_specifier_good [good]: "good_rules rec \<Longrightarrow> good_rule (parser_struct_or_union_specifier fuel rec)"
  by (rule good_ruleI) (simp add: parser_struct_or_union_specifier_def wp good ret_rec defs)

lemmas parser_struct_or_union_specifier_ret [wp] = ret_good_rule [OF parser_struct_or_union_specifier_good]

lemma parser_initializer_good [good]: "good_rules rec \<Longrightarrow> good_rule (parser_initializer rec)"
  by (rule good_ruleI) (simp add: parser_initializer_def wp good ret_rec defs)

lemmas parser_initializer_ret [wp] = ret_good_rule [OF parser_initializer_good]

lemma designator_production_good [good]: "good_rules rec \<Longrightarrow> good_rule (designator_production rec)"
  by (rule good_ruleI) (simp add: designator_production_def wp good ret_rec defs)

lemmas designator_production_ret [wp] = ret_good_rule [OF designator_production_good]

lemma designation_loop_good:
  "good_rules rec \<Longrightarrow> good_state st \<Longrightarrow>
     ret (designation_loop k rec parser it e st) (\<lambda>(p, it, s). good_state s)"
  by (induction k arbitrary: parser it st) (simp_all add: wp good ret_rec defs)

lemmas designation_loop_ret [wp] = ret_strengthen [OF designation_loop_good]

lemma designation_production_good [good]: "good_rules rec \<Longrightarrow> good_rule (designation_production fuel rec)"
  by (rule good_ruleI) (simp add: designation_production_def wp good ret_rec defs)

lemmas designation_production_ret [wp] = ret_good_rule [OF designation_production_good]

lemma init_list_production_good [good]: "good_rules rec \<Longrightarrow> good_rule (init_list_production fuel rec)"
  by (rule good_ruleI) (simp add: init_list_production_def wp good ret_rec defs)

lemmas init_list_production_ret [wp] = ret_good_rule [OF init_list_production_good]

lemma parser_initializer_list_good [good]: "good_rules rec \<Longrightarrow> good_rule (parser_initializer_list fuel rec)"
  by (rule good_ruleI) (simp add: parser_initializer_list_def wp good ret_rec defs)

lemmas parser_initializer_list_ret [wp] = ret_good_rule [OF parser_initializer_list_good]

lemma parser_parens_expr_good [good]: "good_rules rec \<Longrightarrow> good_rule (parser_parens_expr rec)"
  by (rule good_ruleI) (simp add: parser_parens_expr_def wp good ret_rec defs)

lemmas parser_parens_expr_ret [wp] = ret_good_rule [OF parser_parens_expr_good]

lemma parser_primary_expression_good [good]: "good_rules rec \<Longrightarrow> good_rule (parser_primary_expression fuel rec)"
  by (rule good_ruleI) (simp add: parser_primary_expression_def wp good ret_rec defs)

lemmas parser_primary_expression_ret [wp] = ret_good_rule [OF parser_primary_expression_good]

lemma compound_literal_production_good [good]: "good_rules rec \<Longrightarrow> good_rule (compound_literal_production rec)"
  by (rule good_ruleI) (simp add: compound_literal_production_def wp good ret_rec defs)

lemmas compound_literal_production_ret [wp] = ret_good_rule [OF compound_literal_production_good]

lemma postfix_production_good [good]: "good_rules rec \<Longrightarrow> good_rule (postfix_production fuel rec)"
  by (rule good_ruleI) (simp add: postfix_production_def wp good ret_rec defs)

lemmas postfix_production_ret [wp] = ret_good_rule [OF postfix_production_good]

lemma postfix_loop_good:
  "good_rules rec \<Longrightarrow> good_state st \<Longrightarrow>
     ret (postfix_loop k fuel rec parser it e st) (\<lambda>(p, it, s). good_state s)"
  by (induction k arbitrary: parser it st) (simp_all add: wp good ret_rec defs)

lemmas postfix_loop_ret [wp] = ret_strengthen [OF postfix_loop_good]

lemma parser_postfix_expression_good [good]: "good_rules rec \<Longrightarrow> good_rule (parser_postfix_expression fuel rec)"
  by (rule good_ruleI) (simp add: parser_postfix_expression_def wp good ret_rec defs)

lemmas parser_postfix_expression_ret [wp] = ret_good_rule [OF parser_postfix_expression_good]

lemma incremental_unary_production_good [good]: "good_rules rec \<Longrightarrow> good_rule (incremental_unary_production rec)"
  by (rule good_ruleI) (simp add: incremental_unary_production_def wp good ret_rec defs)

lemmas incremental_unary_production_ret [wp] = ret_good_rule [OF incremental_unary_production_good]

lemma unary_cast_production_good [good]: "good_rules rec \<Longrightarrow> good_rule (unary_cast_production rec)"
  by (rule good_ruleI) (simp add: unary_cast_production_def wp good ret_rec defs)

lemmas unary_cast_production_ret [wp] = ret_good_rule [OF unary_cast_production_good]

lemma parens_type_name_good [good]: "good_rules rec \<Longrightarrow> good_rule (parens_type_name rec)"
  by (rule good_ruleI) (simp add: parens_type_name_def wp good ret_rec defs)

lemmas parens_type_name_ret [wp] = ret_good_rule [OF parens_type_name_good]

lemma size_of_production_good [good]: "good_rules rec \<Longrightarrow> good_rule (size_of_production rec)"
  by (rule good_ruleI) (simp add: size_of_production_def wp good ret_rec defs)

lemmas size_of_production_ret [wp] = ret_good_rule [OF size_of_production_good]

lemma parser_unary_expression_good [good]: "good_rules rec \<Longrightarrow> good_rule (parser_unary_expression fuel rec)"
  by (rule good_ruleI) (simp add: parser_unary_expression_def wp good ret_rec defs)

lemmas parser_unary_expression_ret [wp] = ret_good_rule [OF parser_unary_expression_good]

lemma cast_production_good [good]: "good_rules rec \<Longrightarrow> good_rule (cast_production rec)"
  by (rule good_ruleI) (simp add: cast_production_def wp good ret_rec defs)

lemmas cast_production_ret [wp] = ret_good_rule [OF cast_production_good]

lemma parser_cast_expression_good [good]: "good_rules rec \<Longrightarrow> good_rule (parser_cast_expression rec)"
  by (rule good_ruleI) (simp add: parser_cast_expression_def wp good ret_rec defs)

lemmas parser_cast_expression_ret [wp] = ret_good_rule [OF parser_cast_expression_good]

lemma binary_level_good [good]:
  "good_rule (operand fuel rec) \<Longrightarrow> good_rule (binary_level name op_type op_match operand fuel rec)"
  by (rule good_ruleI) (simp add: binary_level_def wp good ret_rec defs)

lemmas binary_level_ret [wp] = ret_good_rule [OF binary_level_good]

lemma parser_multiplicative_expression_good [good]: "good_rules rec \<Longrightarrow> good_rule (parser_multiplicative_expression fuel rec)"
  by (rule good_ruleI) (simp add: parser_multiplicative_expression_def wp good ret_rec defs)

lemmas parser_multiplicative_expression_ret [wp] = ret_good_rule [OF parser_multiplicative_expression_good]

lemma parser_additive_expression_good [good]: "good_rules rec \<Longrightarrow> good_rule (parser_additive_expression fuel rec)"
  by (rule good_ruleI) (simp add: parser_additive_expression_def wp good ret_rec defs)

lemmas parser_additive_expression_ret [wp] = ret_good_rule [OF parser_additive_expression_good]

lemma parser_shift_expression_good [good]: "good_rules rec \<Longrightarrow> good_rule (parser_shift_expression fuel rec)"
  by (rule good_ruleI) (simp add: parser_shift_expression_def wp good ret_rec defs)

lemmas parser_shift_expression_ret [wp] = ret_good_rule [OF parser_shift_expression_good]

lemma parser_relational_expression_good [good]: "good_rules rec \<Longrightarrow> good_rule (parser_relational_expression fuel rec)"
  by (rule good_ruleI) (simp add: parser_relational_expression_def wp good ret_rec defs)

lemmas parser_relational_expression_ret [wp] = ret_good_rule [OF parser_relational_expression_good]

lemma parser_equality_expression_good [good]: "good_rules rec \<Longrightarrow> good_rule (parser_equality_expression fuel rec)"
  by (rule good_ruleI) (simp add: parser_equality_expression_def wp good ret_rec defs)

lemmas parser_equality_expression_ret [wp] = ret_good_rule [OF parser_equality_expression_good]

lemma parser_and_expression_good [good]: "good_rules rec \<Longrightarrow> good_rule (parser_and_expression fuel rec)"
  by (rule good_ruleI) (simp add: parser_and_expression_def wp good ret_rec defs)

lemmas parser_and_expression_ret [wp] = ret_good_rule [OF parser_and_expression_good]

lemma parser_exclusive_or_expression_good [good]: "good_rules rec \<Longrightarrow> good_rule (parser_exclusive_or_expression fuel rec)"
  by (rule good_ruleI) (simp add: parser_exclusive_or_expression_def wp good ret_rec defs)

lemmas parser_exclusive_or_expression_ret [wp] = ret_good_rule [OF parser_exclusive_or_expression_good]

lemma parser_inclusive_or_expression_good [good]: "good_rules rec \<Longrightarrow> good_rule (parser_inclusive_or_expression fuel rec)"
  by (rule good_ruleI) (simp add: parser_inclusive_or_expression_def wp good ret_rec defs)

lemmas parser_inclusive_or_expression_ret [wp] = ret_good_rule [OF parser_inclusive_or_expression_good]

lemma parser_logical_and_expression_good [good]: "good_rules rec \<Longrightarrow> good_rule (parser_logical_and_expression fuel rec)"
  by (rule good_ruleI) (simp add: parser_logical_and_expression_def wp good ret_rec defs)

lemmas parser_logical_and_expression_ret [wp] = ret_good_rule [OF parser_logical_and_expression_good]

lemma parser_logical_or_expression_good [good]: "good_rules rec \<Longrightarrow> good_rule (parser_logical_or_expression fuel rec)"
  by (rule good_ruleI) (simp add: parser_logical_or_expression_def wp good ret_rec defs)

lemmas parser_logical_or_expression_ret [wp] = ret_good_rule [OF parser_logical_or_expression_good]

lemma parser_conditional_expression_good [good]: "good_rules rec \<Longrightarrow> good_rule (parser_conditional_expression fuel rec)"
  by (rule good_ruleI) (simp add: parser_conditional_expression_def wp good ret_rec defs)

lemmas parser_conditional_expression_ret [wp] = ret_good_rule [OF parser_conditional_expression_good]

lemma assign_operator_good [good]: "good_rule assign_operator"
  by (rule good_ruleI) (simp add: assign_operator_def wp good ret_rec defs)

lemmas assign_operator_ret [wp] = ret_good_rule [OF assign_operator_good]

lemma parser_assignment_expression_good [good]: "good_rules rec \<Longrightarrow> good_rule (parser_assignment_expression rec)"
  by (rule good_ruleI) (simp add: parser_assignment_expression_def wp good ret_rec defs)

lemmas parser_assignment_expression_ret [wp] = ret_good_rule [OF parser_assignment_expression_good]

lemma parser_expression_good [good]: "good_rules rec \<Longrightarrow> good_rule (parser_expression fuel rec)"
  by (rule good_ruleI) (simp add: parser_expression_def wp good ret_rec defs)

lemmas parser_expression_ret [wp] = ret_good_rule [OF parser_expression_good]

lemma parser_jump_statement_good [good]: "good_rules rec \<Longrightarrow> good_rule (parser_jump_statement rec)"
  by (rule good_ruleI) (simp add: parser_jump_statement_def wp good ret_rec defs)

lemmas parser_jump_statement_ret [wp] = ret_good_rule [OF parser_jump_statement_good]

lemma while_statement_good [good]: "good_rules rec \<Longrightarrow> good_rule (while_statement fuel rec)"
  by (rule good_ruleI) (simp add: while_statement_def wp good ret_rec defs)

lemmas while_statement_ret [wp] = ret_good_rule [OF while_statement_good]

lemma do_while_statement_good [good]: "good_rules rec \<Longrightarrow> good_rule (do_while_statement fuel rec)"
  by (rule good_ruleI) (simp add: do_while_statement_def wp good ret_rec defs)

lemmas do_while_statement_ret [wp] = ret_good_rule [OF do_while_statement_good]

lemma for_clause_good:
  "good_rules rec \<Longrightarrow> good_state st \<Longrightarrow>
     ret (for_clause rec parser b e st) (\<lambda>(p, it, s). good_state s)"
  by (simp add: for_clause_def wp good ret_rec defs)

lemmas for_clause_ret [wp] = ret_strengthen [OF for_clause_good]

lemma for_exprs_production_good [good]: "good_rules rec \<Longrightarrow> good_rule (for_exprs_production fuel rec)"
  by (rule good_ruleI) (simp add: for_exprs_production_def wp good ret_rec defs)

lemmas for_exprs_production_ret [wp] = ret_good_rule [OF for_exprs_production_good]

lemma for_statement_good [good]: "good_rules rec \<Longrightarrow> good_rule (for_statement fuel rec)"
  by (rule good_ruleI) (simp add: for_statement_def wp good ret_rec defs)

lemmas for_statement_ret [wp] = ret_good_rule [OF for_statement_good]

lemma parser_iteration_statement_good [good]: "good_rules rec \<Longrightarrow> good_rule (parser_iteration_statement fuel rec)"
  by (rule good_ruleI) (simp add: parser_iteration_statement_def wp good ret_rec defs)

lemmas parser_iteration_statement_ret [wp] = ret_good_rule [OF parser_iteration_statement_good]

lemma if_statement_good [good]: "good_rules rec \<Longrightarrow> good_rule (if_statement rec)"
  by (rule good_ruleI) (simp add: if_statement_def wp good ret_rec defs)

lemmas if_statement_ret [wp] = ret_good_rule [OF if_statement_good]

lemma switch_statement_good [good]: "good_rules rec \<Longrightarrow> good_rule (switch_statement rec)"
  by (rule good_ruleI) (simp add: switch_statement_def wp good ret_rec defs)

lemmas switch_statement_ret [wp] = ret_good_rule [OF switch_statement_good]

lemma parser_selection_statement_good [good]: "good_rules rec \<Longrightarrow> good_rule (parser_selection_statement rec)"
  by (rule good_ruleI) (simp add: parser_selection_statement_def wp good ret_rec defs)

lemmas parser_selection_statement_ret [wp] = ret_good_rule [OF parser_selection_statement_good]

lemma parser_expression_statement_good [good]: "good_rules rec \<Longrightarrow> good_rule (parser_expression_statement rec)"
  by (rule good_ruleI) (simp add: parser_expression_statement_def wp good ret_rec defs)

lemmas parser_expression_statement_ret [wp] = ret_good_rule [OF parser_expression_statement_good]

lemma decl_or_stmt_good [good]: "good_rules rec \<Longrightarrow> good_rule (decl_or_stmt fuel rec)"
  by (rule good_ruleI) (simp add: decl_or_stmt_def wp good ret_rec defs)

lemmas decl_or_stmt_ret [wp] = ret_good_rule [OF decl_or_stmt_good]

lemma block_item_list_production_good [good]: "good_rules rec \<Longrightarrow> good_rule (block_item_list_production fuel rec)"
  by (rule good_ruleI) (simp add: block_item_list_production_def wp good ret_rec defs)

lemmas block_item_list_production_ret [wp] = ret_good_rule [OF block_item_list_production_good]

lemma parser_compound_statement_good [good]: "good_rules rec \<Longrightarrow> good_rule (parser_compound_statement fuel rec)"
  by (rule good_ruleI) (simp add: parser_compound_statement_def wp good ret_rec defs)

lemmas parser_compound_statement_ret [wp] = ret_good_rule [OF parser_compound_statement_good]

lemma parser_labeled_statement_good [good]: "good_rules rec \<Longrightarrow> good_rule (parser_labeled_statement rec)"
  by (rule good_ruleI) (simp add: parser_labeled_statement_def wp good ret_rec defs)

lemmas parser_labeled_statement_ret [wp] = ret_good_rule [OF parser_labeled_statement_good]

lemma parser_statement_good [good]: "good_rules rec \<Longrightarrow> good_rule (parser_statement fuel rec)"
  by (rule good_ruleI) (simp add: parser_statement_def wp good ret_rec defs)

lemmas parser_statement_ret [wp] = ret_good_rule [OF parser_statement_good]

lemma declaration_list_good [good]: "good_rules rec \<Longrightarrow> good_rule (declaration_list fuel rec)"
  by (rule good_ruleI) (simp add: declaration_list_def wp good ret_rec defs)

lemmas declaration_list_ret [wp] = ret_good_rule [OF declaration_list_good]

lemma parser_function_definition_good [good]: "good_rules rec \<Longrightarrow> good_rule (parser_function_definition fuel rec)"
  by (rule good_ruleI) (simp add: parser_function_definition_def wp good ret_rec defs)

lemmas parser_function_definition_ret [wp] = ret_good_rule [OF parser_function_definition_good]

lemma compilation_unit_loop_good:
  "good_rules rec \<Longrightarrow> good_state st \<Longrightarrow>
     ret (compilation_unit_loop k fuel rec parser it e st) (\<lambda>(p, it, s). good_state s)"
  by (induction k arbitrary: parser it st) (simp_all add: wp good ret_rec defs)

lemmas compilation_unit_loop_ret [wp] = ret_strengthen [OF compilation_unit_loop_good]

lemma parser_compilation_unit_good [good]: "good_rules rec \<Longrightarrow> good_rule (parser_compilation_unit fuel rec)"
  by (rule good_ruleI) (simp add: parser_compilation_unit_def wp good ret_rec defs)

lemmas parser_compilation_unit_ret [wp] = ret_good_rule [OF parser_compilation_unit_good]


subsection \<open>The table of the recursive rules and the entry point\<close>

lemma run_good: "good_rules (run n)"
proof (induction n)
  case 0
  then show ?case by (simp add: good_rules_def good_rule_def ret_def)
next
  case (Suc n)
  show ?case
    unfolding good_rules_def
  proof
    fix r
    show "good_rule (run (Suc n) r)"
      using Suc by (cases r) (simp_all add: good)
  qed
qed

lemma unit_add_errors: "unit_state s \<Longrightarrow> unit_state (foldl add_error s errs)"
proof (induction errs arbitrary: s)
  case Nil
  then show ?case by simp
next
  case (Cons a errs)
  have "unit_state (add_error s a)" by (cases s) simp_all
  then show ?case using Cons.IH by simp
qed

lemma unit_add_state:
  "unit_state s \<Longrightarrow> add_state s x = Some s' \<Longrightarrow> unit_state s'"
proof (cases x)
  case (ParserFailure errs)
  assume "unit_state s" "add_state s x = Some s'"
  then show ?thesis using ParserFailure unit_add_errors [of s errs] by (auto simp add: add_errors_def)
next
  case (ParserSuccess t)
  assume h: "unit_state s" "add_state s x = Some s'"
  show ?thesis
  proof (cases t)
    case None
    then show ?thesis using h ParserSuccess by simp
  next
    case (Some n)
    show ?thesis
    proof (cases s)
      case (ParserFailure errs)
      then show ?thesis using h \<open>x = ParserSuccess t\<close> Some by auto
    next
      case (ParserSuccess u)
      then obtain tree where "u = Some tree" using h(1) by (cases u) auto
      then show ?thesis using h \<open>x = ParserSuccess t\<close> Some ParserSuccess
        by (cases tree) (auto split: if_splits)
    qed
  qed
qed

lemma ret_add_state_unit:
  "ret (add_state s x) Q
     = (\<forall>s'. add_state s x = Some s' \<longrightarrow> (unit_state s \<longrightarrow> unit_state s') \<longrightarrow> Q s')"
  unfolding ret_def using unit_add_state [of s x] by blast

lemmas ret_unit =
  ret_Some ret_None ret_bind ret_if ret_token_at ret_add_state_unit ret_giveup
  ret_unfold [of "parser_one_of parser b e what rules" for parser b e what rules]

lemma compilation_unit_loop_unit:
  "unit_state st \<Longrightarrow>
     ret (compilation_unit_loop k fuel rec parser it e st) (\<lambda>(p, it, s). unit_state s)"
  by (induction k arbitrary: parser it st)
     (simp_all add: ret_unit del: parser_one_of.simps)

lemma parser_compilation_unit_unit:
  "parser_compilation_unit fuel rec parser b e = Some (p, it, s) \<Longrightarrow> unit_state s"
proof -
  have "ret (parser_compilation_unit fuel rec parser b e) (\<lambda>(p, it, s). unit_state s)"
    by (simp add: parser_compilation_unit_def ret_unit compilation_unit_loop_unit
          make_error_def new_node_def Let_def)
  then show "parser_compilation_unit fuel rec parser b e = Some (p, it, s) \<Longrightarrow> unit_state s"
    by (simp add: ret_def)
qed

lemma expected_own_failure: "\<exists>es. expected_own s e = ParserFailure es"
  by (cases s) (simp_all add: expected_own_def)

lemma foldl_expected_own_failure:
  "\<exists>es. foldl expected_own (ParserFailure es') errs = ParserFailure es"
proof (induction errs arbitrary: es')
  case Nil
  then show ?case by simp
next
  case (Cons a errs)
  obtain es where "expected_own (ParserFailure es') a = ParserFailure es"
    using expected_own_failure by blast
  then show ?case using Cons.IH [of es] by simp
qed

lemma giveup_to_expected0_tree:
  "giveup_to_expected0 s = ParserSuccess (Some t) \<Longrightarrow> s = ParserSuccess (Some t)"
proof (cases s)
  case (ParserFailure errs)
  assume h: "giveup_to_expected0 s = ParserSuccess (Some t)"
  show ?thesis
  proof (cases errs)
    case Nil
    then show ?thesis using h ParserFailure by simp
  next
    case (Cons a es)
    obtain es1 where "expected_own (ParserSuccess None) a = ParserFailure es1"
      using expected_own_failure by blast
    then show ?thesis
      using h ParserFailure Cons foldl_expected_own_failure [of es1 es] by auto
  qed
next
  case (ParserSuccess u)
  assume "giveup_to_expected0 s = ParserSuccess (Some t)"
  then show ?thesis using ParserSuccess by simp
qed

lemma settled_nodes:
  "settled t \<Longrightarrow> \<not> should_elide t \<Longrightarrow> n \<in> set (nodes t) \<Longrightarrow> \<not> should_elide n"
proof (induction t arbitrary: n)
  case (SyntaxTree ty tok cs a)
  then show ?case by (auto simp del: should_elide_text)
qed

lemma unit_kept: "node_type t = N_CompilationUnit \<Longrightarrow> \<not> should_elide t"
  by (simp add: should_elide_def preserved_types_def)

lemma parse_tree_settled:
  assumes "parse fuel program = Some (Some tree, ds)"
  shows "node_type tree = N_CompilationUnit \<and> settled tree"
proof -
  let ?e = "length (token_stream program)"
  obtain r where r: "parser_compilation_unit fuel (run fuel) program 0 ?e = Some r"
    using assms by (cases "parser_compilation_unit fuel (run fuel) program 0 ?e")
      (simp_all add: parse_def)
  obtain parser it ast where pr: "r = (parser, it, ast)" by (cases r) auto
  have tree: "giveup_to_expected0 ast = ParserSuccess (Some tree)"
  proof (cases "giveup_to_expected0 ast")
    case (ParserFailure errs)
    then show ?thesis using assms r pr
      by (cases "emit_failures parser ?e errs") (simp_all add: parse_def Let_def split: if_splits)
  next
    case (ParserSuccess t)
    then show ?thesis using assms r pr by (simp add: parse_def Let_def split: if_splits)
  qed
  then have ast: "ast = ParserSuccess (Some tree)" by (rule giveup_to_expected0_tree)
  have "good_rule (parser_compilation_unit fuel (run fuel))"
    using run_good by (rule parser_compilation_unit_good)
  then have "good_state ast"
    using r pr by (simp add: good_rule_def ret_def)
  moreover have "unit_state ast"
    using r pr parser_compilation_unit_unit [of fuel "run fuel" program 0 ?e parser it ast] by simp
  ultimately show ?thesis using ast by simp
qed

text \<open>
  Claim C2, as the code has it. For every node whose kind is not \<open>StringLiteralList\<close>,
  \<open>DeclarationList\<close> or \<open>BlockItemList\<close> (three list kinds that the switch of \<open>should_elide\<close>
  does not name), \<open>should_elide\<close> holds if and only if the kind is \<open>None\<close>, or the node has no
  annotation, its kind is not one of the kinds that the specification lists as preserved, it has
  no text and it has exactly one child. \<open>add_node\<close> on a state with a tree adds the children of the
  node in place of the node exactly when \<open>should_elide\<close> holds of it. In a tree that \<open>parse\<close>
  returns, \<open>should_elide\<close> holds of no node, the root included; so a node without text or
  annotation and with exactly one child is there only with one of the kinds that the
  specification lists as preserved.
\<close>

theorem should_elide_law:
  "(node_type n \<noteq> N_StringLiteralList \<longrightarrow> node_type n \<noteq> N_DeclarationList \<longrightarrow>
    node_type n \<noteq> N_BlockItemList \<longrightarrow>
      should_elide n
        = (node_type n = N_None
           \<or> (\<not> has_annotation n \<and> node_type n \<notin> set spec_preserved_types
              \<and> \<not> has_text n \<and> child_count n = 1)))
   \<and> add_node (ParserSuccess (Some tree)) (Some n)
       = Some (ParserSuccess (Some (SyntaxTree (node_type tree) (token tree)
           (children tree @ (if should_elide n then children n else [n]))
           (has_annotation tree))))
   \<and> (parse fuel program = Some (Some ast, ds) \<longrightarrow>
        (\<forall>m\<in>set (nodes ast).
           \<not> should_elide m
           \<and> (\<not> has_text m \<and> \<not> has_annotation m \<and> child_count m = 1 \<longrightarrow>
                node_type m \<in> set spec_preserved_types)))"
proof (intro conjI impI ballI)
  assume "node_type n \<noteq> N_StringLiteralList" "node_type n \<noteq> N_DeclarationList"
    "node_type n \<noteq> N_BlockItemList"
  then show "should_elide n
        = (node_type n = N_None
           \<or> (\<not> has_annotation n \<and> node_type n \<notin> set spec_preserved_types
              \<and> \<not> has_text n \<and> child_count n = 1))"
    by (auto simp add: should_elide_def preserved_types_def spec_preserved_types_def list_types_def)
next
  show "add_node (ParserSuccess (Some tree)) (Some n)
       = Some (ParserSuccess (Some (SyntaxTree (node_type tree) (token tree)
           (children tree @ (if should_elide n then children n else [n]))
           (has_annotation tree))))"
    by (cases tree) (auto simp add: should_elide_def)
next
  fix m
  assume p: "parse fuel program = Some (Some ast, ds)" and m: "m \<in> set (nodes ast)"
  from p have "node_type ast = N_CompilationUnit \<and> settled ast" by (rule parse_tree_settled)
  then show "\<not> should_elide m" using m settled_nodes [of ast m] unit_kept [of ast] by simp
next
  fix m
  assume p: "parse fuel program = Some (Some ast, ds)" and m: "m \<in> set (nodes ast)"
    and one: "\<not> has_text m \<and> \<not> has_annotation m \<and> child_count m = 1"
  from p have "node_type ast = N_CompilationUnit \<and> settled ast" by (rule parse_tree_settled)
  then have "\<not> should_elide m" using m settled_nodes [of ast m] unit_kept [of ast] by simp
  then show "node_type m \<in> set spec_preserved_types"
    using one
    by (auto simp add: should_elide_def preserved_types_def spec_preserved_types_def list_types_def
          split: if_splits)
qed

text \<open>
  A type name node with one child is a candidate to elision; in the tree of \<open>int x ;\<close> no node
  is, and its nodes with one child are the compilation unit and the declaration specifiers.
\<close>

theorem should_elide_law_witness:
  "should_elide (SyntaxTree N_TypeName None
      [new_leaf N_Identifier (TokenData T_Identifier (SourceRange 0 1))] False)
   \<and> parse 20 (program_of ex_decl) = Some (Some ex_decl_tree, [])
   \<and> filter should_elide (nodes ex_decl_tree) = []
   \<and> filter (\<lambda>m. \<not> has_text m \<and> \<not> has_annotation m \<and> child_count m = 1
                 \<and> node_type m \<notin> set spec_preserved_types) (nodes ex_decl_tree) = []"
proof -
  let ?n = "SyntaxTree N_TypeName None
      [new_leaf N_Identifier (TokenData T_Identifier (SourceRange 0 1))] False"
  have p: "parse 20 (program_of ex_decl) = Some (Some ex_decl_tree, [])"
    by (simp add: eval ex_decl_def ex_decl_tree_def del: run.simps cong: bind_weak_cong)
  have kind: "node_type ?n \<noteq> N_StringLiteralList" "node_type ?n \<noteq> N_DeclarationList"
    "node_type ?n \<noteq> N_BlockItemList" "node_type ?n \<noteq> N_None"
    "\<not> has_annotation ?n" "\<not> has_text ?n" "child_count ?n = 1"
    "node_type ?n \<notin> set spec_preserved_types"
    by (simp_all add: has_text_def child_count_def spec_preserved_types_def list_types_def)
  have one: "should_elide ?n"
    using should_elide_law [where n = ?n, THEN conjunct1] kind by simp
  have two: "\<forall>m\<in>set (nodes ex_decl_tree).
         \<not> should_elide m
         \<and> (\<not> has_text m \<and> \<not> has_annotation m \<and> child_count m = 1 \<longrightarrow>
              node_type m \<in> set spec_preserved_types)"
    using should_elide_law [where fuel = 20 and program = "program_of ex_decl"
        and ast = ex_decl_tree and ds = "[]", THEN conjunct2, THEN conjunct2] p
    by simp
  have three: "filter should_elide (nodes ex_decl_tree) = []"
    using two unfolding filter_empty_conv by blast
  have four: "filter (\<lambda>m. \<not> has_text m \<and> \<not> has_annotation m \<and> child_count m = 1
                 \<and> node_type m \<notin> set spec_preserved_types) (nodes ex_decl_tree) = []"
    using two unfolding filter_empty_conv by blast
  from one p three four show ?thesis by simp
qed

text \<open>
  Not every list node is preserved, and nodes that are not list nodes appear with one child. A
  \<open>StringLiteralList\<close> node with one child and no text or annotation is a candidate to elision,
  although it is a list node. The tree of \<open>int x ;\<close> has a \<open>DeclarationSpecifiers\<close> node and a
  \<open>CompilationUnit\<close> node with exactly one child, no text and no annotation, and neither is a
  list node.
\<close>

theorem elision_law_counterexample:
  "should_elide (SyntaxTree N_StringLiteralList None
      [new_leaf N_StringLiteral (TokenData T_StringConstant (SourceRange 0 3))] False)
   \<and> N_StringLiteralList \<in> set list_types
   \<and> N_StringLiteralList \<in> set spec_preserved_types
   \<and> parse 20 (program_of ex_decl) = Some (Some ex_decl_tree, [])
   \<and> [m \<leftarrow> nodes ex_decl_tree.
        \<not> has_text m \<and> \<not> has_annotation m \<and> child_count m = 1 \<and> node_type m \<notin> set list_types]
      = [ex_decl_tree,
         SyntaxTree N_DeclarationSpecifiers None
           [SyntaxTree N_TypeSpecifier (Some (TokenData T_IntType (SourceRange 0 3))) [] False]
           False]"
proof -
  have "parse 20 (program_of ex_decl) = Some (Some ex_decl_tree, [])"
    by (simp add: eval ex_decl_def ex_decl_tree_def del: run.simps cong: bind_weak_cong)
  then show ?thesis
    by (simp add: ex_decl_tree_def should_elide_def preserved_types_def has_text_def
          child_count_def spec_preserved_types_def list_types_def new_leaf_def)
qed

end
